(* ===== verification/FF_Prelude.thy ===== *)
theory FF_Prelude
  imports Complex_Main "HOL-Library.Multiset"
begin

text \<open>
  Shared vocabulary of the FieldForce Pro development.

  \<^item> The fact collections \<open>js_defs\<close>, \<open>db_defs\<close> and \<open>route_defs\<close>, to which the
    component theories add the unfolding equations of their small definitions, so that a
    component proof is \<open>simp add: db_defs\<close> rather than a list of names.
  \<^item> The value model of the JavaScript the server and the client are written in: numbers
    are \<^typ>\<open>real\<close> (exact: IEEE rounding is outside the model) and \<open>NaN\<close>, where
    arithmetic can read an absent field, is the \<open>None\<close> of \<open>jsnum\<close>; a \<open>Date\<close> is its
    epoch time in milliseconds or the invalid date, an optional field is an \<open>option\<close>, a
    request value of unknown type is a \<open>jsval\<close> with JavaScript's truthiness.
  \<^item> Errors as values: what a route answers when it does not answer with data.
  \<^item> Generic lemmas on lists, sums and multisets that the components share.
\<close>

section \<open>Fact collections\<close>

named_theorems js_defs \<open>unfolding equations of the JavaScript value model\<close>
named_theorems db_defs \<open>unfolding equations of the document-store queries\<close>
named_theorems route_defs \<open>unfolding equations of the route handlers\<close>

section \<open>Types of the model\<close>

type_synonym oid = nat
  \<comment> \<open>a document id (\<open>mongoose.ObjectId\<close>); only equality and freshness matter\<close>

type_synonym millis = int
  \<comment> \<open>a time value: milliseconds since the epoch, as \<open>Date.prototype.getTime\<close> reads it\<close>

type_synonym jsdate = "millis option"
  \<comment> \<open>a \<open>Date\<close> object: \<open>None\<close> is the invalid date that \<open>new Date\<close> makes of
      text it cannot parse\<close>

type_synonym jsnum = "real option"
  \<comment> \<open>the result of arithmetic that may read an absent field: \<open>None\<close> is \<open>NaN\<close>\<close>

text \<open>
  What a route takes from the process it runs in: the offset of local time from UTC in
  minutes (taken as constant: no daylight-saving change inside a window), the locale's
  rendering of a date, the week label \<open>moment(d).format('WW-YYYY')\<close>, the conversion
  of a number and of a document id to text in a template string, the clock, the two
  values \<open>Math.random()\<close> returns while a ranking query is built and the value
  \<open>$rand\<close> takes for each document of that query.
\<close>

record runtime =
  rt_tz :: int
  rt_localeDate :: "millis \<Rightarrow> string"
  rt_weekLabel :: "millis \<Rightarrow> string"
  rt_showNumber :: "real \<Rightarrow> string"
  rt_showId :: "oid \<Rightarrow> string"
  rt_now :: millis
  rt_random1 :: real
  rt_random2 :: real
  rt_rand :: "oid \<Rightarrow> real"

definition utc_runtime :: runtime where
  "utc_runtime = \<lparr>rt_tz = 0, rt_localeDate = (\<lambda>t. ''a date''),
     rt_weekLabel = (\<lambda>t. ''a week''), rt_showNumber = (\<lambda>x. ''a number''),
     rt_showId = (\<lambda>i. ''an id''), rt_now = 0, rt_random1 = 0, rt_random2 = 0,
     rt_rand = (\<lambda>i. 0)\<rparr>"

section \<open>JavaScript values and truthiness\<close>

datatype jsval = JUndefined | JNull | JBool bool | JNum real | JStr string

fun truthy :: "jsval \<Rightarrow> bool" where
  "truthy JUndefined = False"
| "truthy JNull = False"
| "truthy (JBool b) = b"
| "truthy (JNum x) = (x \<noteq> 0)"
| "truthy (JStr s) = (s \<noteq> [])"

text \<open>
  \<open>x || d\<close> on an optional numeric field: the default is taken when the field is absent
  and also when it is the falsy number \<open>0\<close>.
\<close>

definition num_or :: "real option \<Rightarrow> real \<Rightarrow> real" where
  "num_or x d = (case x of None \<Rightarrow> d | Some v \<Rightarrow> if v = 0 then d else v)"

lemma num_or_None [simp]: "num_or None d = d"
  by (simp add: num_or_def)

lemma num_or_Some [simp]: "num_or (Some v) d = (if v = 0 then d else v)"
  by (simp add: num_or_def)

lemma num_or_zero: "num_or x 0 = (case x of None \<Rightarrow> 0 | Some v \<Rightarrow> v)"
  by (cases x) simp_all

lemma num_or_nonneg:
  "0 \<le> d \<Longrightarrow> (\<And>v. x = Some v \<Longrightarrow> 0 \<le> v) \<Longrightarrow> 0 \<le> num_or x d"
  by (cases x) simp_all

lemma num_or_pos:
  "0 < d \<Longrightarrow> (\<And>v. x = Some v \<Longrightarrow> 0 \<le> v) \<Longrightarrow> 0 < num_or x d"
  by (cases x) (auto simp: less_le)

text \<open>
  Arithmetic with \<open>NaN\<close>: a sum or a product is \<open>NaN\<close> as soon as an operand is.
\<close>

definition nan_add :: "jsnum \<Rightarrow> jsnum \<Rightarrow> jsnum" where
  "nan_add a b = (case (a, b) of (Some x, Some y) \<Rightarrow> Some (x + y) | _ \<Rightarrow> None)"

definition nan_mul :: "jsnum \<Rightarrow> real \<Rightarrow> jsnum" where
  "nan_mul a k = map_option (\<lambda>x. x * k) a"

lemma nan_add_simps [simp]:
  "nan_add (Some x) (Some y) = Some (x + y)" "nan_add None b = None" "nan_add a None = None"
  by (simp_all add: nan_add_def split: option.splits)

lemma nan_add_zero [simp]: "nan_add (Some 0) b = b" "nan_add a (Some 0) = a"
  by (simp_all add: nan_add_def split: option.splits)

lemma nan_add_assoc: "nan_add (nan_add a b) c = nan_add a (nan_add b c)"
  by (simp add: nan_add_def split: option.splits)

lemma nan_add_commute: "nan_add a b = nan_add b a"
  by (simp add: nan_add_def split: option.splits)

lemma nan_mul_simps [simp]: "nan_mul (Some x) k = Some (x * k)" "nan_mul None k = None"
  by (simp_all add: nan_mul_def)

section \<open>Errors as values\<close>

text \<open>
  A route that fails answers \<open>res.status(code).json({ error: message })\<close>. The model keeps
  the status code and the message; the message of an error thrown by the storage layer is
  the layer's own text, for which the model writes a fixed stand-in.
\<close>

datatype error = Error (err_status: nat) (err_message: string)

type_synonym 'a result = "error + 'a"

definition is_ok :: "'a result \<Rightarrow> bool" where
  "is_ok r = (case r of Inl _ \<Rightarrow> False | Inr _ \<Rightarrow> True)"

definition status_of :: "'a result \<Rightarrow> nat" where
  "status_of r = (case r of Inl e \<Rightarrow> err_status e | Inr _ \<Rightarrow> 200)"

lemma is_ok_simps [simp]: "is_ok (Inr x)" "\<not> is_ok (Inl e)"
  by (simp_all add: is_ok_def)

lemma status_of_simps [simp]: "status_of (Inr x) = 200" "status_of (Inl e) = err_status e"
  by (simp_all add: status_of_def)

lemma is_ok_iff: "is_ok r \<longleftrightarrow> (\<exists>x. r = Inr x)"
  by (cases r) simp_all

section \<open>Time windows\<close>

text \<open>
  The range filter \<open>{ $gte: startDate, $lte: endDate }\<close> of the storage queries: both
  bounds are inclusive.
\<close>

definition in_window :: "millis \<Rightarrow> millis \<Rightarrow> millis \<Rightarrow> bool" where
  "in_window s e t \<longleftrightarrow> s \<le> t \<and> t \<le> e"

declare in_window_def [db_defs]

lemma in_window_mono: "in_window s e t \<Longrightarrow> s' \<le> s \<Longrightarrow> e \<le> e' \<Longrightarrow> in_window s' e' t"
  by (simp add: in_window_def)

lemma in_window_empty: "e < s \<Longrightarrow> \<not> in_window s e t"
  by (simp add: in_window_def)

lemma div_le_iff_less_mult:
  fixes a q D :: int
  assumes "0 < D"
  shows "a div D \<le> q \<longleftrightarrow> a < (q + 1) * D"
proof -
  have eq: "a = a div D * D + a mod D"
    by simp
  have lo: "0 \<le> a mod D" and hi: "a mod D < D"
    using assms by simp_all
  show ?thesis
  proof
    assume "a div D \<le> q"
    then have "a div D * D \<le> q * D"
      using assms by (simp add: mult_right_mono)
    moreover have "(q + 1) * D = q * D + D"
      by (simp add: algebra_simps)
    ultimately show "a < (q + 1) * D"
      using eq hi by linarith
  next
    assume less: "a < (q + 1) * D"
    show "a div D \<le> q"
    proof (rule ccontr)
      assume "\<not> a div D \<le> q"
      then have "(q + 1) * D \<le> a div D * D"
        using assms by (intro mult_right_mono) simp_all
      with eq lo less show False
        by linarith
    qed
  qed
qed

section \<open>Lists, sums and multisets\<close>

lemma sum_list_filter_split:
  fixes f :: "'a \<Rightarrow> real"
  shows "(\<Sum>x\<leftarrow>xs. f x) = (\<Sum>x\<leftarrow>filter P xs. f x) + (\<Sum>x\<leftarrow>filter (\<lambda>x. \<not> P x) xs. f x)"
  by (induction xs) simp_all

lemma sum_list_map_nonneg:
  fixes f :: "'a \<Rightarrow> real"
  shows "(\<And>x. x \<in> set xs \<Longrightarrow> 0 \<le> f x) \<Longrightarrow> 0 \<le> (\<Sum>x\<leftarrow>xs. f x)"
  by (induction xs) simp_all

lemma length_filter_split:
  "length xs = length (filter P xs) + length (filter (\<lambda>x. \<not> P x) xs)"
  by (induction xs) simp_all

lemma mset_filter_split:
  "mset xs = mset (filter P xs) + mset (filter (\<lambda>x. \<not> P x) xs)"
  by (induction xs) simp_all

lemma mset_diff_filter [simp]: "M - filter_mset Q M = filter_mset (\<lambda>x. \<not> Q x) M"
  by (metis add_diff_cancel_left' multiset_partition)

lemma in_diff_add_msetD: "x \<in># A - add_mset g B \<Longrightarrow> x \<in># A - B"
  by (metis diff_diff_add_mset diff_subset_eq_self mset_subset_eqD add_mset_add_single)

lemma filter_filter_conj: "filter P (filter Q xs) = filter (\<lambda>x. Q x \<and> P x) xs"
  by (induction xs) simp_all

lemma filter_neg_absorb: "filter P (filter (\<lambda>x. \<not> P x) xs) = []"
  by (induction xs) simp_all

lemma filter_id_iff: "filter P xs = xs \<longleftrightarrow> (\<forall>x\<in>set xs. P x)"
  by (induction xs) (auto simp: filter_eq_Cons_iff dest: filter_eq_ConsD)

lemma foldl_add_sum_list:
  fixes f :: "'a \<Rightarrow> real"
  shows "foldl (\<lambda>s x. s + f x) a xs = a + (\<Sum>x\<leftarrow>xs. f x)"
  by (induction xs arbitrary: a) simp_all

end
