(* ===== verification/GeoDistance.thy ===== *)
theory GeoDistance
  imports FF_Prelude
begin

text \<open>
  The great-circle distance of \<open>src/server.js\<close>: \<open>calculateDistance(loc1, loc2)\<close>, the
  haversine formula on two \<open>{lat, lng}\<close> points in degrees, with the earth's radius
  6371 km and the result converted to miles.

  \<^item> \<open>latlng\<close> is the point object, \<open>atan2\<close> is \<open>Math.atan2\<close> on all four quadrants and
    the axes, \<open>haversine_a\<close> is the local \<open>a\<close> of the function, \<open>calculateDistance\<close>
    the function itself, line by line.
  \<^item> \<open>central_cos\<close> and \<open>great_circle_miles\<close> are the reference: the spherical law of
    cosines. The lemmas show that \<open>a\<close> always lies in \<open>[0, 1]\<close> (so both square roots
    are of non-negative numbers, for any input, in range or not), that the function agrees
    with the reference, and from that its symmetry, its bounds and when it is zero.

  Numbers are exact reals: the rounding of IEEE doubles is not modelled.
\<close>

section \<open>The function\<close>

record latlng =
  lat :: real
  lng :: real

definition atan2 :: "real \<Rightarrow> real \<Rightarrow> real" where
  "atan2 y x =
     (if 0 < x then arctan (y / x)
      else if x < 0 then (if 0 \<le> y then arctan (y / x) + pi else arctan (y / x) - pi)
      else if 0 < y then pi / 2
      else if y < 0 then - (pi / 2)
      else 0)"

definition haversine_a :: "latlng \<Rightarrow> latlng \<Rightarrow> real" where
  "haversine_a loc1 loc2 =
     (let dLat = (lat loc2 - lat loc1) * pi / 180;
          dLon = (lng loc2 - lng loc1) * pi / 180
      in sin (dLat / 2) * sin (dLat / 2) +
         cos (lat loc1 * pi / 180) * cos (lat loc2 * pi / 180) *
         sin (dLon / 2) * sin (dLon / 2))"

definition calculateDistance :: "latlng \<Rightarrow> latlng \<Rightarrow> real" where
  "calculateDistance loc1 loc2 =
     (let R = 6371;
          a = haversine_a loc1 loc2;
          c = 2 * atan2 (sqrt a) (sqrt (1 - a));
          distanceKm = R * c
      in distanceKm * 0.621371)"

section \<open>The reference: the spherical law of cosines\<close>

definition central_cos :: "latlng \<Rightarrow> latlng \<Rightarrow> real" where
  "central_cos p q =
     sin (lat p * pi / 180) * sin (lat q * pi / 180) +
     cos (lat p * pi / 180) * cos (lat q * pi / 180) * cos ((lng q - lng p) * pi / 180)"

definition great_circle_miles :: "latlng \<Rightarrow> latlng \<Rightarrow> real" where
  "great_circle_miles p q = 6371 * arccos (central_cos p q) * 0.621371"

definition max_miles :: real where
  "max_miles = 6371 * pi * 0.621371"

section \<open>Trigonometric helpers\<close>

lemma sin_half_squared: "sin (x / 2) * sin (x / 2) = (1 - cos x) / (2::real)"
  using cos_double_sin [of "x / 2"] by (simp add: power2_eq_square)

lemma abs_mult_le_half_squares: "\<bar>x * y\<bar> \<le> (x\<^sup>2 + y\<^sup>2) / (2::real)"
  using sum_squares_bound [of "\<bar>x\<bar>" "\<bar>y\<bar>"] by (simp add: abs_mult)

lemma unit_dot_bound:
  fixes s1 s2 c1 c2 t :: real
  assumes "s1\<^sup>2 + c1\<^sup>2 = 1" and "s2\<^sup>2 + c2\<^sup>2 = 1" and "\<bar>t\<bar> \<le> 1"
  shows "\<bar>s1 * s2 + c1 * c2 * t\<bar> \<le> 1"
proof -
  have "\<bar>c1 * c2 * t\<bar> \<le> \<bar>c1 * c2\<bar>"
    using assms(3) by (simp add: abs_mult mult_left_le)
  also have "\<dots> \<le> (c1\<^sup>2 + c2\<^sup>2) / 2"
    by (rule abs_mult_le_half_squares)
  finally have c: "\<bar>c1 * c2 * t\<bar> \<le> (c1\<^sup>2 + c2\<^sup>2) / 2" .
  have s: "\<bar>s1 * s2\<bar> \<le> (s1\<^sup>2 + s2\<^sup>2) / 2"
    by (rule abs_mult_le_half_squares)
  have "\<bar>s1 * s2 + c1 * c2 * t\<bar> \<le> \<bar>s1 * s2\<bar> + \<bar>c1 * c2 * t\<bar>"
    by (rule abs_triangle_ineq)
  also have "\<dots> \<le> (s1\<^sup>2 + s2\<^sup>2) / 2 + (c1\<^sup>2 + c2\<^sup>2) / 2"
    using s c by linarith
  also have "\<dots> = 1"
    using assms(1,2) by (simp add: field_simps)
  finally show ?thesis .
qed

lemma atan2_first_quadrant:
  assumes "0 \<le> a" and "a \<le> 1"
  shows "atan2 (sqrt a) (sqrt (1 - a)) = arcsin (sqrt a)"
proof (cases "a = 1")
  case True
  then show ?thesis by (simp add: atan2_def)
next
  case False
  with assms have lt: "a < 1" by simp
  then have pos: "0 < sqrt (1 - a)" by simp
  have "- 1 < sqrt a" and "sqrt a < 1"
    using assms lt by (simp_all add: less_le_trans [of "- 1" 0])
  then have "arcsin (sqrt a) = arctan (sqrt a / sqrt (1 - (sqrt a)\<^sup>2))"
    by (rule arcsin_arctan)
  with assms pos show ?thesis by (simp add: atan2_def)
qed

lemma double_arcsin_sqrt:
  assumes "0 \<le> a" and "a \<le> 1"
  shows "2 * arcsin (sqrt a) = arccos (1 - 2 * a)"
proof (rule arccos_unique [symmetric])
  have r: "- 1 \<le> sqrt a" "sqrt a \<le> 1"
    using assms by (simp_all add: order_trans [of "- 1" 0])
  have "0 \<le> arcsin (sqrt a)"
    using assms by (simp add: arcsin_nonneg)
  then show "0 \<le> 2 * arcsin (sqrt a)" by simp
  show "2 * arcsin (sqrt a) \<le> pi"
    using arcsin_ubound [OF r] by simp
  show "cos (2 * arcsin (sqrt a)) = 1 - 2 * a"
    using assms r by (simp add: cos_double_sin)
qed

section \<open>The haversine term\<close>

lemma central_cos_bound: "\<bar>central_cos p q\<bar> \<le> 1"
  unfolding central_cos_def by (rule unit_dot_bound) simp_all

lemma central_cos_sym: "central_cos p q = central_cos q p"
proof -
  have "(lng q - lng p) * pi / 180 = - ((lng p - lng q) * pi / 180)"
    by (simp add: field_simps)
  then have "cos ((lng q - lng p) * pi / 180) = cos ((lng p - lng q) * pi / 180)"
    by (simp only: cos_minus)
  then show ?thesis
    by (simp add: central_cos_def mult.commute)
qed

lemma central_cos_self [simp]: "central_cos p p = 1"
  by (simp add: central_cos_def flip: power2_eq_square)

lemma haversine_a_central: "haversine_a p q = (1 - central_cos p q) / 2"
proof -
  have d: "(lat q - lat p) * pi / 180 = lat q * pi / 180 - lat p * pi / 180"
    by (simp add: algebra_simps diff_divide_distrib)
  show ?thesis
    unfolding haversine_a_def Let_def central_cos_def
    by (simp only: sin_half_squared mult.assoc d cos_diff) (simp add: field_simps)
qed

lemma haversine_a_range: "0 \<le> haversine_a p q" "haversine_a p q \<le> 1"
  using central_cos_bound [of p q] by (simp_all add: haversine_a_central abs_le_iff)

lemma calculateDistance_arcsin:
  "calculateDistance p q = 6371 * (2 * arcsin (sqrt (haversine_a p q))) * 0.621371"
  by (simp add: calculateDistance_def Let_def atan2_first_quadrant haversine_a_range)

lemma calculateDistance_arccos:
  "calculateDistance p q = 6371 * arccos (central_cos p q) * 0.621371"
proof -
  have "2 * arcsin (sqrt (haversine_a p q)) = arccos (1 - 2 * haversine_a p q)"
    by (rule double_arcsin_sqrt) (rule haversine_a_range)+
  also have "1 - 2 * haversine_a p q = central_cos p q"
    by (simp add: haversine_a_central field_simps)
  finally show ?thesis
    by (simp add: calculateDistance_arcsin)
qed

lemma central_cos_range: "- 1 \<le> central_cos p q" "central_cos p q \<le> 1"
  using central_cos_bound [of p q] by (simp_all add: abs_le_iff)

lemma calculateDistance_nonneg [simp]: "0 \<le> calculateDistance p q"
  using arccos_lbound [OF central_cos_range, of p q] by (simp add: calculateDistance_arccos)

lemma calculateDistance_le_max: "calculateDistance p q \<le> max_miles"
  using arccos_ubound [OF central_cos_range, of p q]
  by (simp add: calculateDistance_arccos max_miles_def)

lemma calculateDistance_commute: "calculateDistance p q = calculateDistance q p"
  by (simp add: calculateDistance_arccos central_cos_sym [of p q])

lemma calculateDistance_same [simp]: "calculateDistance p p = 0"
  by (simp add: calculateDistance_arccos)

lemma calculateDistance_zero_iff: "calculateDistance p q = 0 \<longleftrightarrow> central_cos p q = 1"
  using central_cos_range [of p q] by (auto simp: calculateDistance_arccos arccos_eq_0_iff)

lemma central_cos_lng_period:
  "central_cos p (q\<lparr>lng := lng q + 360\<rparr>) = central_cos p q"
proof -
  have "(lng q + 360 - lng p) * pi / 180 = (lng q - lng p) * pi / 180 + 2 * pi"
    by (simp add: field_simps)
  then have "cos ((lng q + 360 - lng p) * pi / 180) = cos ((lng q - lng p) * pi / 180)"
    by (simp only: cos_periodic)
  then show ?thesis by (simp add: central_cos_def)
qed

lemma calculateDistance_antipodal:
  "calculateDistance \<lparr>lat = 0, lng = 0\<rparr> \<lparr>lat = 0, lng = 180\<rparr> = max_miles"
  by (simp add: calculateDistance_arccos central_cos_def max_miles_def)

section \<open>Correctness of the distance\<close>

text \<open>
  Claim C5 (equivalence). For every two points, in range or not,
  \<open>calculateDistance\<close> returns the great-circle distance of the spherical law of
  cosines: the earth's radius times the central angle, in miles. The haversine form with
  \<open>Math.atan2\<close> and two square roots is an implementation of that angle.
\<close>

theorem calculateDistance_law_of_cosines:
  "calculateDistance p q = great_circle_miles p q"
  by (simp add: calculateDistance_arccos great_circle_miles_def)

text \<open>
  Claim C31 (functional). The distance from a point to itself is zero.
\<close>

theorem calculateDistance_self: "calculateDistance p p = 0"
  by (fact calculateDistance_same)

text \<open>
  Claim C32 (functional). The distance is symmetric in its two points.
\<close>

theorem calculateDistance_sym: "calculateDistance p q = calculateDistance q p"
  by (fact calculateDistance_commute)

text \<open>
  Claim C33 (bounds). The distance is never negative and never more than half the
  earth's circumference, \<open>6371 * pi\<close> km in miles; this holds for every input, since
  the haversine term stays in \<open>[0, 1]\<close> also for latitudes and longitudes out of range.
  The upper bound is reached between antipodal points.
\<close>

theorem calculateDistance_bounds:
  "0 \<le> calculateDistance p q \<and> calculateDistance p q \<le> max_miles \<and>
   calculateDistance \<lparr>lat = 0, lng = 0\<rparr> \<lparr>lat = 0, lng = 180\<rparr> = max_miles"
  by (simp add: calculateDistance_le_max calculateDistance_antipodal)

text \<open>
  Lemma (functional). Coordinates out of range are passed through, not rejected, and
  the result is the one the sphere gives: a longitude shifted by a full turn of 360
  degrees leaves the distance unchanged.
\<close>

theorem calculateDistance_lng_period:
  "calculateDistance p (q\<lparr>lng := lng q + 360\<rparr>) = calculateDistance p q"
  by (simp add: calculateDistance_arccos central_cos_lng_period)

end
