(* ===== verification/JsNumber.thy ===== *)
theory JsNumber
  imports FF_Prelude
begin

text \<open>
  The number formatting the routes and the client call: \<open>Number.prototype.toFixed\<close>,
  \<open>Math.round\<close>, \<open>Math.max\<close> and \<open>Math.min\<close>, as ECMAScript defines them, over
  exact reals.

  \<^item> \<open>digits\<close> renders a natural number in decimal, \<open>read_digits\<close> reads it back;
  \<^item> \<open>toFixed x f\<close> follows the steps of the standard: the sign is split off, the
    magnitude is scaled by \<open>10 ^ f\<close> and rounded to the nearest integer with ties
    going up, its digits are padded with zeros to \<open>f + 1\<close> places and the point is put
    before the last \<open>f\<close>. The standard's switch to exponent notation at magnitudes of
    \<open>10 ^ 21\<close> and more is outside the model (the lemmas about the text do not need it,
    the concrete figures of the application are far below it);
  \<^item> \<open>read_fixed\<close> reads such a text back as a real, which states what the text means:
    \<open>toFixed\<close> followed by \<open>read_fixed\<close> is rounding to \<open>f\<close> places, at most half a
    unit of the last place away from the number.
\<close>

section \<open>Decimal digits\<close>

definition digit_char :: "nat \<Rightarrow> char" where
  "digit_char d = ''0123456789'' ! (d mod 10)"

definition digit_val :: "char \<Rightarrow> nat" where
  "digit_val c = of_char c - 48"

definition is_digit :: "char \<Rightarrow> bool" where
  "is_digit c \<longleftrightarrow> 48 \<le> (of_char c :: nat) \<and> (of_char c :: nat) \<le> 57"

fun digits :: "nat \<Rightarrow> string" where
  "digits n = (if n < 10 then [digit_char n] else digits (n div 10) @ [digit_char (n mod 10)])"

declare digits.simps [simp del]

definition read_digits :: "string \<Rightarrow> nat" where
  "read_digits s = foldl (\<lambda>a c. 10 * a + digit_val c) 0 s"

lemma digit_char_cases:
  "d < 10 \<Longrightarrow> d = 0 \<or> d = 1 \<or> d = 2 \<or> d = 3 \<or> d = 4 \<or> d = 5 \<or> d = 6 \<or> d = 7 \<or> d = 8 \<or> d = (9::nat)"
  by arith

lemma digit_val_digit_char [simp]: "d < 10 \<Longrightarrow> digit_val (digit_char d) = d"
  using digit_char_cases [of d] by (auto simp: digit_val_def digit_char_def)

lemma is_digit_digit_char [simp]: "is_digit (digit_char d)"
proof -
  have "d mod 10 < 10" by simp
  from digit_char_cases [OF this] show ?thesis
    by (auto simp: is_digit_def digit_char_def)
qed

lemma is_digit_not_point [simp]: "is_digit c \<Longrightarrow> c \<noteq> CHR ''.''"
  by (auto simp: is_digit_def)

lemma not_is_digit_newline [simp]: "\<not> is_digit (CHR 0x0A)"
  by (simp add: is_digit_def)

lemma digits_small [simp]: "n < 10 \<Longrightarrow> digits n = [digit_char n]"
  by (simp add: digits.simps)

lemma digits_large: "\<not> n < 10 \<Longrightarrow> digits n = digits (n div 10) @ [digit_char (n mod 10)]"
  by (subst digits.simps) simp

lemma digits_nonempty [simp]: "digits n \<noteq> []"
  by (subst digits.simps) simp

lemma digits_all_digits: "c \<in> set (digits n) \<Longrightarrow> is_digit c"
  by (induction n arbitrary: c rule: digits.induct) (subst (asm) digits.simps, auto split: if_splits)

lemma read_digits_Nil [simp]: "read_digits [] = 0"
  by (simp add: read_digits_def)

lemma read_digits_snoc [simp]: "read_digits (s @ [c]) = 10 * read_digits s + digit_val c"
  by (simp add: read_digits_def)

lemma read_digits_single [simp]: "read_digits [c] = digit_val c"
  by (simp add: read_digits_def)

lemma read_digits_append:
  "read_digits (xs @ ys) = read_digits xs * 10 ^ length ys + read_digits ys"
  by (induction ys rule: rev_induct) (simp_all add: algebra_simps flip: append_assoc)

lemma read_digits_Cons: "read_digits (c # s) = digit_val c * 10 ^ length s + read_digits s"
  using read_digits_append [of "[c]" s] by simp

lemma digit_val_zero [simp]: "digit_val CHR ''0'' = 0"
  by (simp add: digit_val_def)

lemma read_digits_zeros [simp]: "read_digits (replicate k CHR ''0'') = 0"
  by (induction k) (simp_all add: read_digits_Cons)

lemma read_digits_digits [simp]: "read_digits (digits n) = n"
proof (induction n rule: digits.induct)
  case (1 n)
  show ?case
  proof (cases "n < 10")
    case True
    then show ?thesis by simp
  next
    case False
    with "1.IH" show ?thesis by (simp add: digits_large)
  qed
qed

section \<open>Rounding\<close>

definition Math_round :: "real \<Rightarrow> int" where
  "Math_round x = \<lfloor>x + 1 / 2\<rfloor>"

definition round_scaled :: "real \<Rightarrow> nat \<Rightarrow> nat" where
  "round_scaled x f = nat \<lfloor>x * 10 ^ f + 1 / 2\<rfloor>"

lemma round_scaled_error:
  assumes "0 \<le> x"
  shows "\<bar>real (round_scaled x f) / 10 ^ f - x\<bar> \<le> 1 / (2 * 10 ^ f)"
proof -
  let ?y = "x * 10 ^ f"
  have nn: "0 \<le> \<lfloor>?y + 1 / 2\<rfloor>"
    using assms by simp
  then have r: "real (round_scaled x f) = of_int \<lfloor>?y + 1 / 2\<rfloor>"
    by (simp add: round_scaled_def)
  have "of_int \<lfloor>?y + 1 / 2\<rfloor> \<le> ?y + 1 / 2" and "?y + 1 / 2 < of_int \<lfloor>?y + 1 / 2\<rfloor> + 1"
    by linarith+
  then have "\<bar>real (round_scaled x f) - ?y\<bar> \<le> 1 / 2"
    unfolding r by linarith
  then have "\<bar>real (round_scaled x f) - ?y\<bar> / 10 ^ f \<le> (1 / 2) / 10 ^ f"
    by (rule divide_right_mono) simp
  moreover have "real (round_scaled x f) / 10 ^ f - x = (real (round_scaled x f) - ?y) / 10 ^ f"
    by (simp add: field_simps)
  ultimately show ?thesis
    by (simp add: abs_divide)
qed

section \<open>toFixed\<close>

definition fixed_digits :: "nat \<Rightarrow> nat \<Rightarrow> string" where
  "fixed_digits n f =
     (let m = digits n
      in if f = 0 then m
         else let m' = replicate (Suc f - length m) CHR ''0'' @ m;
                  k = length m'
              in take (k - f) m' @ ''.'' @ drop (k - f) m')"

definition toFixed :: "real \<Rightarrow> nat \<Rightarrow> string" where
  "toFixed x f =
     (let s = (if x < 0 then ''-'' else []);
          n = round_scaled \<bar>x\<bar> f
      in s @ fixed_digits n f)"

definition read_fixed :: "string \<Rightarrow> real" where
  "read_fixed t =
     (let neg = (t \<noteq> [] \<and> hd t = CHR ''-'');
          u = (if neg then tl t else t);
          a = takeWhile (\<lambda>c. c \<noteq> CHR ''.'') u;
          b = drop 1 (dropWhile (\<lambda>c. c \<noteq> CHR ''.'') u);
          v = real (read_digits a) + real (read_digits b) / 10 ^ length b
      in if neg then - v else v)"

definition padded :: "nat \<Rightarrow> nat \<Rightarrow> string" where
  "padded n f = replicate (Suc f - length (digits n)) CHR ''0'' @ digits n"

lemma is_digit_zero [simp]: "is_digit CHR ''0''"
  by (simp add: is_digit_def)

lemma is_digit_not_minus [simp]: "is_digit c \<Longrightarrow> c \<noteq> CHR ''-''"
  by (auto simp: is_digit_def)

lemma padded_all_digits: "c \<in> set (padded n f) \<Longrightarrow> is_digit c"
  by (auto simp: padded_def dest: digits_all_digits)

lemma length_padded: "f < length (padded n f)"
  by (simp add: padded_def)

lemma padded_nonempty [simp]: "padded n f \<noteq> []"
  by (simp add: padded_def)

lemma read_digits_padded [simp]: "read_digits (padded n f) = n"
  by (simp add: padded_def read_digits_append)

lemma fixed_digits_0 [simp]: "fixed_digits n 0 = digits n"
  by (simp add: fixed_digits_def)

lemma fixed_digits_pos:
  "0 < f \<Longrightarrow> fixed_digits n f =
     take (length (padded n f) - f) (padded n f) @
       CHR ''.'' # drop (length (padded n f) - f) (padded n f)"
  by (simp add: fixed_digits_def padded_def Let_def)

lemma read_digits_take_drop:
  "real (read_digits (take j s)) * 10 ^ length (drop j s) + real (read_digits (drop j s)) =
   real (read_digits s)"
proof -
  have "real (read_digits (take j s @ drop j s)) =
      real (read_digits (take j s) * 10 ^ length (drop j s) + read_digits (drop j s))"
    by (simp only: read_digits_append)
  then show ?thesis by simp
qed

text \<open>
  What the unsigned text means: reading it back gives the integer over \<open>10 ^ f\<close>.
\<close>

lemma read_fixed_split:
  assumes a: "\<forall>c\<in>set a. is_digit c" and b: "\<forall>c\<in>set b. is_digit c" and ne: "a \<noteq> []"
  shows "read_fixed (a @ CHR ''.'' # b) =
    real (read_digits a) + real (read_digits b) / 10 ^ length b"
proof -
  from ne a have h: "hd (a @ CHR ''.'' # b) \<noteq> CHR ''-''"
    by (cases a) auto
  from a have t: "takeWhile (\<lambda>c. c \<noteq> CHR ''.'') (a @ CHR ''.'' # b) = a"
    by simp
  from a have d: "dropWhile (\<lambda>c. c \<noteq> CHR ''.'') (a @ CHR ''.'' # b) = CHR ''.'' # b"
    by simp
  show ?thesis
    using h by (simp add: read_fixed_def Let_def t d)
qed

lemma read_fixed_digits_only:
  assumes "\<forall>c\<in>set a. is_digit c" and "a \<noteq> []"
  shows "read_fixed a = real (read_digits a)"
proof -
  from assms have h: "hd a \<noteq> CHR ''-''"
    by (cases a) auto
  from assms(1) have t: "takeWhile (\<lambda>c. c \<noteq> CHR ''.'') a = a"
    and d: "dropWhile (\<lambda>c. c \<noteq> CHR ''.'') a = []"
    by simp_all
  show ?thesis
    using h by (simp add: read_fixed_def Let_def t d)
qed

lemma read_fixed_fixed_digits [simp]: "read_fixed (fixed_digits n f) = real n / 10 ^ f"
proof (cases "f = 0")
  case True
  then show ?thesis
    by (simp add: read_fixed_digits_only digits_all_digits)
next
  case False
  let ?m = "padded n f" and ?j = "length (padded n f) - f"
  have len: "length (drop ?j ?m) = f"
    using length_padded [of f n] by simp
  have ne: "take ?j ?m \<noteq> []"
    using length_padded [of f n] by simp
  have dg: "\<forall>c\<in>set (take ?j ?m). is_digit c" "\<forall>c\<in>set (drop ?j ?m). is_digit c"
    by (auto dest: in_set_takeD in_set_dropD padded_all_digits)
  have "fixed_digits n f = take ?j ?m @ CHR ''.'' # drop ?j ?m"
    using False by (simp only: fixed_digits_pos neq0_conv)
  then have "read_fixed (fixed_digits n f) =
      real (read_digits (take ?j ?m)) + real (read_digits (drop ?j ?m)) / 10 ^ f"
    by (simp only: read_fixed_split [OF dg ne] len)
  also have "\<dots> = (real (read_digits (take ?j ?m)) * 10 ^ f + real (read_digits (drop ?j ?m))) / 10 ^ f"
    by (simp add: field_simps)
  also have "\<dots> = real n / 10 ^ f"
    using read_digits_take_drop [of ?j ?m] by (simp only: len read_digits_padded)
  finally show ?thesis .
qed

lemma fixed_digits_nonempty [simp]: "fixed_digits n f \<noteq> []"
  by (cases "f = 0") (simp_all add: fixed_digits_pos)

lemma hd_fixed_digits: "is_digit (hd (fixed_digits n f))"
proof (cases "f = 0")
  case True
  then show ?thesis
    using digits_all_digits [of "hd (digits n)" n] by simp
next
  case False
  let ?m = "padded n f" and ?j = "length (padded n f) - f"
  have "take ?j ?m \<noteq> []"
    using length_padded [of f n] by simp
  then have eq: "hd (fixed_digits n f) = hd ?m"
    using False by (simp add: fixed_digits_pos)
  have "hd ?m \<in> set ?m"
    by (rule hd_in_set) simp
  then have "is_digit (hd ?m)"
    by (rule padded_all_digits)
  with eq show ?thesis by simp
qed

lemma read_fixed_minus:
  assumes "t \<noteq> []" and "is_digit (hd t)"
  shows "read_fixed (CHR ''-'' # t) = - read_fixed t"
  using assms by (simp add: read_fixed_def Let_def)

lemma read_fixed_toFixed:
  "read_fixed (toFixed x f) =
     (if x < 0 then - (real (round_scaled \<bar>x\<bar> f) / 10 ^ f) else real (round_scaled \<bar>x\<bar> f) / 10 ^ f)"
proof (cases "x < 0")
  case True
  then have "toFixed x f = CHR ''-'' # fixed_digits (round_scaled \<bar>x\<bar> f) f"
    by (simp add: toFixed_def)
  with True show ?thesis
    by (simp only: read_fixed_minus [OF fixed_digits_nonempty hd_fixed_digits]
        read_fixed_fixed_digits if_True)
next
  case False
  then show ?thesis
    by (simp add: toFixed_def)
qed

lemma toFixed_error: "\<bar>read_fixed (toFixed x f) - x\<bar> \<le> 1 / (2 * 10 ^ f)"
proof (cases "x < 0")
  case True
  have "\<bar>real (round_scaled \<bar>x\<bar> f) / 10 ^ f - \<bar>x\<bar>\<bar> \<le> 1 / (2 * 10 ^ f)"
    by (rule round_scaled_error) simp
  with True show ?thesis
    by (simp add: read_fixed_toFixed abs_minus_commute)
next
  case False
  have "\<bar>real (round_scaled \<bar>x\<bar> f) / 10 ^ f - \<bar>x\<bar>\<bar> \<le> 1 / (2 * 10 ^ f)"
    by (rule round_scaled_error) simp
  with False show ?thesis
    by (simp add: read_fixed_toFixed)
qed

lemma toFixed_nonneg: "0 \<le> x \<Longrightarrow> toFixed x f = fixed_digits (round_scaled x f) f"
  by (simp add: toFixed_def)

lemma round_scaled_0 [simp]: "round_scaled 0 f = 0"
  by (simp add: round_scaled_def)

lemma toFixed_0_2 [simp]: "toFixed 0 2 = ''0.00''"
  by (simp add: toFixed_def fixed_digits_def digit_char_def)

lemma toFixed_0_1 [simp]: "toFixed 0 1 = ''0.0''"
  by (simp add: toFixed_def fixed_digits_def digit_char_def)

text \<open>
  Evaluation rules without \<open>let\<close>, for concrete figures: the simplifier then rounds first
  and renders afterwards.
\<close>

lemma toFixed_unfold:
  "toFixed x f = (if x < 0 then ''-'' else []) @ fixed_digits (round_scaled \<bar>x\<bar> f) f"
  by (simp add: toFixed_def)

lemma fixed_digits_unfold:
  "fixed_digits n f =
     (if f = 0 then digits n
      else take (length (padded n f) - f) (padded n f) @
           CHR ''.'' # drop (length (padded n f) - f) (padded n f))"
  by (simp add: fixed_digits_pos)

lemmas toFixed_eval =
  toFixed_unfold fixed_digits_unfold padded_def round_scaled_def digits.simps digit_char_def

lemma toFixed_no_newline: "CHR 0x0A \<notin> set (toFixed x f)"
proof -
  have d: "CHR 0x0A \<notin> set (digits n)" for n
    using digits_all_digits [of "CHR 0x0A" n] by auto
  have p: "CHR 0x0A \<notin> set (padded n k)" for n k
    using padded_all_digits [of "CHR 0x0A" n k] by auto
  have "CHR 0x0A \<notin> set (fixed_digits n k)" for n k
    using d [of n] p [of n k]
    by (auto simp: fixed_digits_unfold dest: in_set_takeD in_set_dropD)
  then show ?thesis
    by (simp add: toFixed_unfold)
qed

section \<open>Correctness of the rendering\<close>

text \<open>
  Claim C36 (roundtrip). The text \<open>toFixed\<close> produces, read back as a decimal number, is
  within half a unit of the last printed place of the number rendered: the figures the
  routes print are the figures they computed, rounded to nearest.
\<close>

theorem toFixed_within_half_unit:
  "\<bar>read_fixed (toFixed x f) - x\<bar> \<le> 1 / (2 * 10 ^ f)"
  by (fact toFixed_error)

text \<open>
  Lemma (roundtrip). Reading back the digits of a natural number gives the number, and
  reading back a rendering with \<open>f\<close> decimals gives the rendered integer scaled by
  \<open>10 ^ f\<close>: no digit is lost or misplaced around the decimal point.
\<close>

theorem digits_read_back:
  "read_digits (digits n) = n \<and> read_fixed (fixed_digits n f) = real n / 10 ^ f"
  by simp

end
