(* ===== verification/Storage.thy ===== *)
theory Storage
  imports GeoDistance
begin

text \<open>
  The document store of \<open>src/server.js\<close>: the five Mongoose schemas as records, the store
  as a record of five collections, and the queries the routes issue against it.

  \<^item> A field with a schema default is a plain value (the default is applied on creation),
    a field without one is an \<open>option\<close>. Field names carry the collection's initial
    (\<open>t_status\<close>, \<open>l_timestamp\<close>), since record fields share one name space. The
    \<open>details\<close> copy of the request body that a log entry keeps is never read and is left
    out. A \<open>position\<close> is the nested \<open>{ lat, lng }\<close> of an emergency or a log entry,
    either part of which may be absent.
  \<^item> A collection is a list in insertion order. \<open>find\<close> with a filter is \<open>filter\<close>,
    \<open>sort({timestamp: 1})\<close> is the stable \<open>sort_key\<close>, \<open>deleteMany\<close> keeps the
    documents that do not match and reports how many did, \<open>findById\<close> is \<open>find\<close> on
    the id.
  \<^item> A range query whose bound is the invalid date is refused by the storage layer
    before it reads or deletes anything (\<open>window_of\<close>); the routes turn that into their
    error response.

  Document ids are taken as well-formed; the casting of malformed ids and of fields of the
  wrong JSON type is not modelled.
\<close>

section \<open>Documents\<close>

record employee =
  e_id :: oid
  e_name :: "string option"
  e_email :: "string option"
  e_password :: "string option"
  e_role :: string
  e_hourlyRate :: real
  e_isActive :: bool
  e_createdAt :: millis

record task =
  t_id :: oid
  t_employee_id :: "oid option"
  t_title :: "string option"
  t_description :: "string option"
  t_customer_name :: "string option"
  t_customer_phone :: "string option"
  t_address :: "string option"
  t_priority :: real
  t_due_date :: "millis option"
  t_status :: string
  t_estimated_hours :: "real option"
  t_actual_hours :: "real option"
  t_created_at :: millis

record location =
  l_id :: oid
  l_employee_id :: "oid option"
  l_latitude :: "real option"
  l_longitude :: "real option"
  l_accuracy :: "real option"
  l_battery_level :: "real option"
  l_timestamp :: millis

record position =
  p_lat :: "real option"
  p_lng :: "real option"

record emergency =
  m_id :: oid
  m_employee_id :: "oid option"
  m_employee_name :: "string option"
  m_emergency_type :: "string option"
  m_location :: "position option"
  m_message :: "string option"
  m_status :: string
  m_responded_by :: "oid option"
  m_created_at :: millis

record log =
  g_id :: oid
  g_employee_id :: "oid option"
  g_employee_name :: "string option"
  g_action_type :: "string option"
  g_description :: "string option"
  g_task_id :: "oid option"
  g_task_title :: "string option"
  g_location :: "position option"
  g_timestamp :: millis
  g_ip_address :: "string option"
  g_device_info :: "string option"

section \<open>The store\<close>

record db =
  employees :: "employee list"
  tasks :: "task list"
  locations :: "location list"
  emergencies :: "emergency list"
  logs :: "log list"
  next_oid :: oid

definition empty_db :: db where
  "empty_db = \<lparr>employees = [], tasks = [], locations = [], emergencies = [], logs = [],
     next_oid = 0\<rparr>"

section \<open>Queries\<close>

definition completed :: "task \<Rightarrow> bool" where
  "completed t \<longleftrightarrow> t_status t = ''completed''"

definition window_of :: "jsdate \<Rightarrow> jsdate \<Rightarrow> (millis \<times> millis) option" where
  "window_of startDate endDate =
     (case (startDate, endDate) of (Some s, Some e) \<Rightarrow> Some (s, e) | _ \<Rightarrow> None)"

definition cast_message :: string where
  "cast_message = ''Cast to date failed for value Invalid Date''"

definition findById :: "('a \<Rightarrow> oid) \<Rightarrow> oid \<Rightarrow> 'a list \<Rightarrow> 'a option" where
  "findById ident i xs = find (\<lambda>x. ident x = i) xs"

definition deleteMany :: "('a \<Rightarrow> bool) \<Rightarrow> 'a list \<Rightarrow> 'a list \<times> nat" where
  "deleteMany P xs = (filter (\<lambda>x. \<not> P x) xs, length (filter P xs))"

definition locations_of :: "oid \<Rightarrow> millis \<Rightarrow> millis \<Rightarrow> db \<Rightarrow> location list" where
  "locations_of emp s e d =
     sort_key l_timestamp
       (filter (\<lambda>l. l_employee_id l = Some emp \<and> in_window s e (l_timestamp l)) (locations d))"

definition completed_tasks_in :: "oid \<Rightarrow> millis \<Rightarrow> millis \<Rightarrow> db \<Rightarrow> task list" where
  "completed_tasks_in emp s e d =
     filter (\<lambda>t. t_employee_id t = Some emp \<and> completed t \<and> in_window s e (t_created_at t))
       (tasks d)"

definition completed_tasks_of :: "oid \<Rightarrow> db \<Rightarrow> task list" where
  "completed_tasks_of emp d =
     filter (\<lambda>t. t_employee_id t = Some emp \<and> completed t) (tasks d)"

declare completed_def [db_defs] window_of_def [db_defs] findById_def [db_defs]
  deleteMany_def [db_defs] locations_of_def [db_defs] completed_tasks_in_def [db_defs]
  completed_tasks_of_def [db_defs]

section \<open>Facts about the queries\<close>

lemma window_of_Some [simp]: "window_of (Some s) (Some e) = Some (s, e)"
  by (simp add: window_of_def)

lemma window_of_None [simp]: "window_of None e = None" "window_of s None = None"
  by (simp_all add: window_of_def split: option.splits)

lemma window_of_eq_Some: "window_of a b = Some (s, e) \<longleftrightarrow> a = Some s \<and> b = Some e"
  by (auto simp: window_of_def split: option.splits)

lemma findById_Some: "findById ident i xs = Some x \<Longrightarrow> x \<in> set xs \<and> ident x = i"
  by (auto simp: findById_def find_Some_iff)

lemma findById_None: "findById ident i xs = None \<longleftrightarrow> (\<forall>x\<in>set xs. ident x \<noteq> i)"
  by (auto simp: findById_def find_None_iff)

lemma deleteMany_count: "snd (deleteMany P xs) + length (fst (deleteMany P xs)) = length xs"
  using length_filter_split [of xs P] by (simp add: deleteMany_def)

lemma deleteMany_mset:
  "mset (fst (deleteMany P xs)) + mset (filter P xs) = mset xs"
  using mset_filter_split [of xs P] by (simp add: deleteMany_def)

lemma deleteMany_set: "set (fst (deleteMany P xs)) = {x \<in> set xs. \<not> P x}"
  by (simp add: deleteMany_def)

lemma deleteMany_idem: "deleteMany P (fst (deleteMany P xs)) = (fst (deleteMany P xs), 0)"
  by (simp add: deleteMany_def filter_filter_conj)

lemma locations_of_sorted: "sorted (map l_timestamp (locations_of emp s e d))"
  by (simp add: locations_of_def)

lemma locations_of_set:
  "set (locations_of emp s e d) =
     {l \<in> set (locations d). l_employee_id l = Some emp \<and> in_window s e (l_timestamp l)}"
  by (simp add: locations_of_def)

lemma locations_of_mset:
  "mset (locations_of emp s e d) =
     filter_mset (\<lambda>l. l_employee_id l = Some emp \<and> in_window s e (l_timestamp l))
       (mset (locations d))"
  by (simp add: locations_of_def)

end
