(* ===== verification/Mileage.thy ===== *)
theory Mileage
  imports Storage JsNumber
begin

text \<open>
  The mileage aggregation of \<open>src/server.js\<close>: the loop over consecutive location fixes
  that the route \<open>GET /api/mileage/:employee_id\<close> and \<open>calculateTotalMileage\<close> both
  contain, and the route itself.

  \<^item> \<open>path_length\<close> is the specification: the sum of a distance over every consecutive
    pair of a sequence of points.
  \<^item> \<open>point_of\<close> and \<open>fix_distance\<close> are the call
    \<open>calculateDistance({lat: a.latitude, lng: a.longitude}, {lat: b.latitude, ...})\<close>; a
    fix without a coordinate makes the arithmetic \<open>NaN\<close>, which is the value \<open>None\<close>.
  \<^item> \<open>mileage_loop\<close> is the \<open>for\<close> loop with its index and its accumulator,
    \<open>sum_distances\<close> the loop from \<open>i = 1\<close> and \<open>totalMiles = 0\<close>,
    \<open>calculateTotalMileage\<close> the helper of the weekly report and \<open>mileage_route\<close> the
    route with its query, its figures and their rendering.
  \<^item> The lemmas show that the loop computes \<open>path_length\<close> of \<open>calculateDistance\<close>
    whenever every fix has its coordinates and \<open>NaN\<close> otherwise (two fixes or more),
    that it is additive over a shared fix, never negative and bounded, and what the route
    answers on no fix, one fix, and an invalid date.
\<close>

section \<open>Specification: the length of a path\<close>

fun path_length :: "('a \<Rightarrow> 'a \<Rightarrow> real) \<Rightarrow> 'a list \<Rightarrow> real" where
  "path_length d [] = 0"
| "path_length d [p] = 0"
| "path_length d (p # q # ps) = d p q + path_length d (q # ps)"

lemma path_length_append_shared:
  "path_length d (ps @ [p]) + path_length d (p # qs) = path_length d (ps @ p # qs)"
  by (induction d ps rule: path_length.induct) simp_all

lemma path_length_nonneg: "(\<And>a b. 0 \<le> d a b) \<Longrightarrow> 0 \<le> path_length d ps"
  by (induction d ps rule: path_length.induct) simp_all

lemma path_length_le:
  "(\<And>a b. d a b \<le> m) \<Longrightarrow> path_length d ps \<le> real (length ps - 1) * m"
proof (induction d ps rule: path_length.induct)
  case (3 d p q ps)
  then have "path_length d (q # ps) \<le> real (length ps) * m" by simp
  with "3.prems" [of p q] show ?case by (simp add: algebra_simps)
qed simp_all

lemma path_length_stationary: "(\<And>a. d a a = 0) \<Longrightarrow> path_length d (replicate n p) = 0"
proof (induction n)
  case (Suc n)
  then show ?case by (cases n) simp_all
qed simp

lemma path_length_snoc:
  "path_length d (ps @ [p, q]) = path_length d (ps @ [p]) + d p q"
  using path_length_append_shared [of d ps p "[q]"] by simp

lemma path_length_rev:
  "(\<And>a b. d a b = d b a) \<Longrightarrow> path_length d (rev ps) = path_length d ps"
proof (induction d ps rule: path_length.induct)
  case (3 d p q ps)
  have "path_length d (rev ps @ [q, p]) = path_length d (rev ps @ [q]) + d q p"
    by (rule path_length_snoc)
  with 3 show ?case by simp
qed simp_all

section \<open>The loop\<close>

definition point_of :: "location \<Rightarrow> latlng option" where
  "point_of l =
     (case (l_latitude l, l_longitude l) of
        (Some a, Some b) \<Rightarrow> Some \<lparr>lat = a, lng = b\<rparr>
      | _ \<Rightarrow> None)"

definition fix_distance :: "location \<Rightarrow> location \<Rightarrow> jsnum" where
  "fix_distance a b =
     (case (point_of a, point_of b) of
        (Some p, Some q) \<Rightarrow> Some (calculateDistance p q)
      | _ \<Rightarrow> None)"

function mileage_loop :: "location list \<Rightarrow> nat \<Rightarrow> jsnum \<Rightarrow> jsnum" where
  "mileage_loop locs i totalMiles =
     (if i < length locs
      then mileage_loop locs (i + 1)
             (nan_add totalMiles (fix_distance (locs ! (i - 1)) (locs ! i)))
      else totalMiles)"
  by pat_completeness auto
termination
  by (relation "measure (\<lambda>(locs, i, totalMiles). length locs - i)") auto

declare mileage_loop.simps [simp del]

definition sum_distances :: "location list \<Rightarrow> jsnum" where
  "sum_distances locs = mileage_loop locs 1 (Some 0)"

definition toFixed_js :: "jsnum \<Rightarrow> nat \<Rightarrow> string" where
  "toFixed_js x f = (case x of None \<Rightarrow> ''NaN'' | Some v \<Rightarrow> toFixed v f)"

definition calculateTotalMileage :: "location list \<Rightarrow> string" where
  "calculateTotalMileage locs = toFixed_js (sum_distances locs) 2"

section \<open>The route\<close>

record mileage_response =
  mi_totalMiles :: string
  mi_reimbursement :: string
  mi_period :: string
  mi_message :: string

definition period_text :: "runtime \<Rightarrow> millis \<Rightarrow> millis \<Rightarrow> string" where
  "period_text rt s e = rt_localeDate rt s @ '' to '' @ rt_localeDate rt e"

definition mileage_route ::
    "runtime \<Rightarrow> db \<Rightarrow> oid \<Rightarrow> jsdate \<Rightarrow> jsdate \<Rightarrow> mileage_response result" where
  "mileage_route rt d emp startDate endDate =
     (case window_of startDate endDate of
        None \<Rightarrow> Inl (Error 500 cast_message)
      | Some (s, e) \<Rightarrow>
          let locs = locations_of emp s e d;
              totalMiles = sum_distances locs;
              reimbursement = toFixed_js (nan_mul totalMiles 0.67) 2
          in Inr \<lparr>mi_totalMiles = toFixed_js totalMiles 2,
                  mi_reimbursement = ''$'' @ reimbursement,
                  mi_period = period_text rt s e,
                  mi_message = ''You've earned $'' @ reimbursement @
                    '' in mileage reimbursement!''\<rparr>)"

declare point_of_def [route_defs] fix_distance_def [route_defs] sum_distances_def [route_defs]
  toFixed_js_def [route_defs] calculateTotalMileage_def [route_defs]
  period_text_def [route_defs] mileage_route_def [route_defs]

section \<open>The loop against the specification\<close>

text \<open>
  The sum over consecutive pairs with \<open>NaN\<close>: the structural form of what the loop
  accumulates.
\<close>

fun pair_sum :: "location list \<Rightarrow> jsnum" where
  "pair_sum [] = Some 0"
| "pair_sum [a] = Some 0"
| "pair_sum (a # b # ls) = nan_add (fix_distance a b) (pair_sum (b # ls))"

definition located :: "location \<Rightarrow> bool" where
  "located l \<longleftrightarrow> l_latitude l \<noteq> None \<and> l_longitude l \<noteq> None"

definition points :: "location list \<Rightarrow> latlng list" where
  "points locs = map (\<lambda>l. \<lparr>lat = the (l_latitude l), lng = the (l_longitude l)\<rparr>) locs"

lemma located_point_of:
  "located l \<Longrightarrow> point_of l = Some \<lparr>lat = the (l_latitude l), lng = the (l_longitude l)\<rparr>"
  by (auto simp: located_def point_of_def)

lemma not_located_point_of: "\<not> located l \<Longrightarrow> point_of l = None"
  by (auto simp: located_def point_of_def split: option.splits)

lemma fix_distance_located:
  "located a \<Longrightarrow> located b \<Longrightarrow>
   fix_distance a b = Some (calculateDistance (hd (points [a])) (hd (points [b])))"
  by (simp add: fix_distance_def located_point_of points_def)

lemma fix_distance_not_located:
  "\<not> located a \<or> \<not> located b \<Longrightarrow> fix_distance a b = None"
  by (auto simp: fix_distance_def not_located_point_of split: option.splits)

lemma pair_sum_short: "length locs \<le> 1 \<Longrightarrow> pair_sum locs = Some 0"
  by (cases locs rule: pair_sum.cases) simp_all

lemma drop_pred_two:
  assumes "0 < i" and "i < length xs"
  shows "drop (i - 1) xs = xs ! (i - 1) # xs ! i # drop (i + 1) xs"
proof -
  from assms have "i - 1 < length xs" and s: "Suc (i - 1) = i"
    by simp_all
  then have "drop (i - 1) xs = xs ! (i - 1) # drop i xs"
    using Cons_nth_drop_Suc [of "i - 1" xs] by simp
  also have "drop i xs = xs ! i # drop (i + 1) xs"
    using assms(2) Cons_nth_drop_Suc [of i xs] by simp
  finally show ?thesis .
qed

lemma mileage_loop_step:
  "i < length locs \<Longrightarrow>
   mileage_loop locs i acc =
     mileage_loop locs (i + 1) (nan_add acc (fix_distance (locs ! (i - 1)) (locs ! i)))"
  by (subst mileage_loop.simps) simp

lemma mileage_loop_exit: "\<not> i < length locs \<Longrightarrow> mileage_loop locs i acc = acc"
  by (subst mileage_loop.simps) simp

lemma pair_sum_drop_step:
  assumes "0 < i" and "i < length locs"
  shows "pair_sum (drop (i - 1) locs) =
    nan_add (fix_distance (locs ! (i - 1)) (locs ! i)) (pair_sum (drop i locs))"
proof -
  have "drop i locs = locs ! i # drop (i + 1) locs"
    using assms(2) Cons_nth_drop_Suc [of i locs] by simp
  then show ?thesis
    by (simp only: drop_pred_two [OF assms] pair_sum.simps)
qed

lemma mileage_loop_pair_sum:
  "0 < i \<Longrightarrow> mileage_loop locs i acc = nan_add acc (pair_sum (drop (i - 1) locs))"
proof (induction locs i acc rule: mileage_loop.induct)
  case (1 locs i totalMiles)
  show ?case
  proof (cases "i < length locs")
    case True
    let ?d = "fix_distance (locs ! (i - 1)) (locs ! i)"
    have "mileage_loop locs i totalMiles = mileage_loop locs (i + 1) (nan_add totalMiles ?d)"
      using True by (rule mileage_loop_step)
    also have "\<dots> = nan_add (nan_add totalMiles ?d) (pair_sum (drop (i + 1 - 1) locs))"
      using True by (rule "1.IH") simp
    also have "\<dots> = nan_add totalMiles (nan_add ?d (pair_sum (drop i locs)))"
      by (simp only: nan_add_assoc add_diff_cancel_right')
    also have "\<dots> = nan_add totalMiles (pair_sum (drop (i - 1) locs))"
      using "1.prems" True by (simp only: pair_sum_drop_step)
    finally show ?thesis .
  next
    case False
    then have "length (drop (i - 1) locs) \<le> 1"
      by simp
    then have "pair_sum (drop (i - 1) locs) = Some 0"
      by (rule pair_sum_short)
    with False show ?thesis
      by (simp add: mileage_loop_exit)
  qed
qed

lemma sum_distances_pair_sum: "sum_distances locs = pair_sum locs"
  by (simp add: sum_distances_def mileage_loop_pair_sum)

lemma pair_sum_located:
  "list_all located locs \<Longrightarrow> pair_sum locs = Some (path_length calculateDistance (points locs))"
  by (induction locs rule: pair_sum.induct)
    (simp_all add: points_def fix_distance_def located_point_of)

lemma pair_sum_not_located:
  "2 \<le> length locs \<Longrightarrow> \<not> list_all located locs \<Longrightarrow> pair_sum locs = None"
proof (induction locs rule: pair_sum.induct)
  case (3 a b ls)
  show ?case
  proof (cases "located a \<and> located b")
    case True
    with "3.prems" have "\<not> list_all located (b # ls)" and "ls \<noteq> []"
      by auto
    then have "pair_sum (b # ls) = None"
      using "3.IH" by (cases ls) simp_all
    then show ?thesis by simp
  next
    case False
    then show ?thesis by (simp add: fix_distance_not_located)
  qed
qed simp_all

lemma pair_sum_append_shared:
  "pair_sum (xs @ p # ys) = nan_add (pair_sum (xs @ [p])) (pair_sum (p # ys))"
  by (induction xs rule: pair_sum.induct) (simp_all add: nan_add_assoc)

lemma pair_sum_spec:
  "pair_sum locs =
     (if length locs \<le> 1 then Some 0
      else if list_all located locs then Some (path_length calculateDistance (points locs))
      else None)"
proof (cases "length locs \<le> 1")
  case True
  then show ?thesis by (simp add: pair_sum_short)
next
  case False
  then have "2 \<le> length locs" by simp
  with False show ?thesis
    by (simp add: pair_sum_located pair_sum_not_located)
qed

lemma pair_sum_bounds:
  assumes "pair_sum locs = Some m"
  shows "0 \<le> m \<and> m \<le> real (length locs - 1) * max_miles"
proof (cases "length locs \<le> 1")
  case True
  with assms show ?thesis by (simp add: pair_sum_short)
next
  case False
  with assms have m: "m = path_length calculateDistance (points locs)"
    by (simp add: pair_sum_spec split: if_splits)
  have "0 \<le> path_length calculateDistance (points locs)"
    by (rule path_length_nonneg) simp
  moreover have "path_length calculateDistance (points locs) \<le>
      real (length (points locs) - 1) * max_miles"
    by (rule path_length_le) (rule calculateDistance_le_max)
  ultimately show ?thesis
    by (simp add: m points_def)
qed

lemma mileage_route_invalid:
  "window_of startDate endDate = None \<Longrightarrow>
   mileage_route rt d emp startDate endDate = Inl (Error 500 cast_message)"
  by (simp add: mileage_route_def)

lemma mileage_route_valid:
  "mileage_route rt d emp (Some s) (Some e) =
     Inr \<lparr>mi_totalMiles = calculateTotalMileage (locations_of emp s e d),
          mi_reimbursement =
            ''$'' @ toFixed_js (nan_mul (sum_distances (locations_of emp s e d)) 0.67) 2,
          mi_period = period_text rt s e,
          mi_message = ''You've earned $'' @
            toFixed_js (nan_mul (sum_distances (locations_of emp s e d)) 0.67) 2 @
            '' in mileage reimbursement!''\<rparr>"
  by (simp add: mileage_route_def calculateTotalMileage_def Let_def)

section \<open>Properties of the mileage aggregation\<close>

text \<open>
  Claim C6 (equivalence). The index loop of the mileage route and of
  \<open>calculateTotalMileage\<close>, started at \<open>i = 1\<close> with \<open>totalMiles = 0\<close>, computes the
  specification: zero for no fix and for a single fix; otherwise the sum of
  \<open>calculateDistance\<close> over every consecutive pair when every fix has both coordinates,
  and \<open>NaN\<close> as soon as one fix lacks one.
\<close>

theorem sum_distances_spec:
  "sum_distances locs =
     (if length locs \<le> 1 then Some 0
      else if list_all located locs then Some (path_length calculateDistance (points locs))
      else None)"
  by (simp only: sum_distances_pair_sum pair_sum_spec)

text \<open>
  Claim C29 (functional). The aggregation is additive over a shared fix: the total of
  \<open>[..., P, ...]\<close> is the total up to \<open>P\<close> plus the total from \<open>P\<close> on; for three fixes,
  aggregating \<open>[P1, P2, P3]\<close> equals aggregating \<open>[P1, P2]\<close> plus aggregating
  \<open>[P2, P3]\<close>.
\<close>

theorem sum_distances_additive:
  "sum_distances (xs @ p # ys) = nan_add (sum_distances (xs @ [p])) (sum_distances (p # ys))"
  unfolding sum_distances_pair_sum by (rule pair_sum_append_shared)

text \<open>
  Lemma (bounds). A total that is a number is never negative and at most the number of
  consecutive pairs times half the earth's circumference.
\<close>

theorem sum_distances_bounds:
  "sum_distances locs = Some m \<Longrightarrow> 0 \<le> m \<and> m \<le> real (length locs - 1) * max_miles"
  unfolding sum_distances_pair_sum by (rule pair_sum_bounds)

definition fix_at :: "real \<Rightarrow> real \<Rightarrow> millis \<Rightarrow> location" where
  "fix_at la lo t = \<lparr>l_id = 0, l_employee_id = Some 1, l_latitude = Some la,
     l_longitude = Some lo, l_accuracy = None, l_battery_level = None, l_timestamp = t\<rparr>"

lemma located_fix_at [simp]: "located (fix_at la lo t)"
  by (simp add: located_def fix_at_def)

lemma points_fix_at [simp]:
  "points (fix_at la lo t # ls) = \<lparr>lat = la, lng = lo\<rparr> # points ls"
  by (simp add: points_def fix_at_def)

lemma points_Nil [simp]: "points [] = []"
  by (simp add: points_def)

lemma locations_of_empty_db [simp]: "locations_of emp s e empty_db = []"
  by (simp add: locations_of_def empty_db_def)

lemma sum_distances_antipodal:
  "sum_distances [fix_at 0 0 0, fix_at 0 180 1] = Some max_miles"
  by (simp add: sum_distances_pair_sum pair_sum_spec calculateDistance_antipodal)

theorem sum_distances_bounds_witness:
  "sum_distances [fix_at 0 0 0, fix_at 0 180 1] = Some max_miles \<and>
   0 \<le> max_miles \<and> max_miles \<le> real (length [fix_at 0 0 0, fix_at 0 180 1] - 1) * max_miles"
  using sum_distances_bounds [OF sum_distances_antipodal] sum_distances_antipodal by simp

text \<open>
  Claim C30 (functional). With no fix or a single fix in the window the mileage route
  answers \<open>totalMiles = "0.00"\<close> and \<open>reimbursement = "$0.00"\<close>, not an error.
\<close>

theorem mileage_route_no_movement:
  assumes "length (locations_of emp s e d) \<le> 1"
  shows "\<exists>r. mileage_route rt d emp (Some s) (Some e) = Inr r \<and>
    mi_totalMiles r = ''0.00'' \<and> mi_reimbursement r = ''$0.00''"
  using assms
  by (simp add: mileage_route_valid calculateTotalMileage_def sum_distances_pair_sum
      pair_sum_short toFixed_js_def)

theorem mileage_route_no_movement_witness:
  "length (locations_of 1 0 10 empty_db) \<le> 1 \<and>
   (\<exists>r. mileage_route utc_runtime empty_db 1 (Some 0) (Some 10) = Inr r \<and>
     mi_totalMiles r = ''0.00'' \<and> mi_reimbursement r = ''$0.00'')"
proof -
  have h: "length (locations_of 1 0 10 empty_db) \<le> 1"
    by simp
  show ?thesis
    using h mileage_route_no_movement [OF h, of utc_runtime] by blast
qed

text \<open>
  Lemma (error). A start or end date that does not parse makes the mileage route
  answer status 500 with the storage layer's message; nothing is computed.
\<close>

theorem mileage_route_invalid_date:
  "startDate = None \<or> endDate = None \<Longrightarrow>
   mileage_route rt d emp startDate endDate = Inl (Error 500 cast_message)"
  by (rule mileage_route_invalid) auto

theorem mileage_route_invalid_date_witness:
  "((None :: jsdate) = None \<or> Some (5 :: millis) = None) \<and>
   mileage_route utc_runtime empty_db 1 None (Some 5) = Inl (Error 500 cast_message)"
  using mileage_route_invalid_date [of None "Some 5" utc_runtime empty_db 1] by simp

text \<open>
  Lemma (equivalence). The mileage route and \<open>calculateTotalMileage\<close> hold two copies
  of the same loop: on the fixes of the route's query the route's \<open>totalMiles\<close> is the
  text \<open>calculateTotalMileage\<close> returns.
\<close>

theorem mileage_route_total_is_calculateTotalMileage:
  "mileage_route rt d emp (Some s) (Some e) = Inr r \<Longrightarrow>
   mi_totalMiles r = calculateTotalMileage (locations_of emp s e d)"
  by (auto simp: mileage_route_valid)

theorem mileage_route_total_is_calculateTotalMileage_witness:
  "mileage_route utc_runtime empty_db 1 (Some 0) (Some 10) =
     Inr \<lparr>mi_totalMiles = ''0.00'', mi_reimbursement = ''$0.00'',
          mi_period = period_text utc_runtime 0 10,
          mi_message = ''You've earned $0.00 in mileage reimbursement!''\<rparr> \<and>
   ''0.00'' = calculateTotalMileage (locations_of 1 0 10 empty_db)"
proof -
  have r: "mileage_route utc_runtime empty_db 1 (Some 0) (Some 10) =
     Inr \<lparr>mi_totalMiles = ''0.00'', mi_reimbursement = ''$0.00'',
          mi_period = period_text utc_runtime 0 10,
          mi_message = ''You've earned $0.00 in mileage reimbursement!''\<rparr>"
    by (simp add: mileage_route_valid calculateTotalMileage_def sum_distances_pair_sum
        toFixed_js_def)
  show ?thesis
    using mileage_route_total_is_calculateTotalMileage [OF r] r by simp
qed

text \<open>
  Lemma (functional). The reimbursement is the total times 0.67 dollars per mile,
  rendered with two decimals: read back as a number, the text after the dollar sign is
  within half a cent of \<open>0.67 * totalMiles\<close>.
\<close>

theorem mileage_reimbursement_value:
  assumes "mileage_route rt d emp (Some s) (Some e) = Inr r"
    and "sum_distances (locations_of emp s e d) = Some m"
  shows "\<exists>t. mi_reimbursement r = ''$'' @ t \<and> \<bar>read_fixed t - m * 0.67\<bar> \<le> 0.005"
proof -
  from assms have "mi_reimbursement r = ''$'' @ toFixed (m * 0.67) 2"
    by (auto simp: mileage_route_valid toFixed_js_def)
  moreover have "\<bar>read_fixed (toFixed (m * 0.67) 2) - m * 0.67\<bar> \<le> 0.005"
    using toFixed_error [of "m * 0.67" 2] by simp
  ultimately show ?thesis by blast
qed

theorem mileage_reimbursement_value_witness:
  "mileage_route utc_runtime empty_db 1 (Some 0) (Some 10) =
     Inr \<lparr>mi_totalMiles = ''0.00'', mi_reimbursement = ''$0.00'',
          mi_period = period_text utc_runtime 0 10,
          mi_message = ''You've earned $0.00 in mileage reimbursement!''\<rparr> \<and>
   sum_distances (locations_of 1 0 10 empty_db) = Some 0 \<and>
   (\<exists>t. ''$0.00'' = ''$'' @ t \<and> \<bar>read_fixed t - 0 * 0.67\<bar> \<le> 0.005)"
proof -
  have r: "mileage_route utc_runtime empty_db 1 (Some 0) (Some 10) =
     Inr \<lparr>mi_totalMiles = ''0.00'', mi_reimbursement = ''$0.00'',
          mi_period = period_text utc_runtime 0 10,
          mi_message = ''You've earned $0.00 in mileage reimbursement!''\<rparr>"
    by (simp add: mileage_route_valid calculateTotalMileage_def sum_distances_pair_sum
        toFixed_js_def)
  have m: "sum_distances (locations_of 1 0 10 empty_db) = Some 0"
    by (simp add: sum_distances_pair_sum)
  show ?thesis
    using mileage_reimbursement_value [OF r m] r m by simp
qed

text \<open>
  Claim C39 (functional). A fix that lacks a coordinate is not rejected and not skipped:
  with two fixes or more, one such fix turns the total into \<open>NaN\<close>, and
  \<open>calculateTotalMileage\<close> returns the text \<open>"NaN"\<close>.
\<close>

theorem missing_coordinate_gives_NaN:
  "2 \<le> length locs \<Longrightarrow> \<not> list_all located locs \<Longrightarrow> calculateTotalMileage locs = ''NaN''"
  by (simp add: calculateTotalMileage_def sum_distances_pair_sum pair_sum_not_located
      toFixed_js_def)

theorem missing_coordinate_gives_NaN_witness:
  "2 \<le> length [fix_at 0 0 0, (fix_at 0 0 1)\<lparr>l_longitude := None\<rparr>] \<and>
   \<not> list_all located [fix_at 0 0 0, (fix_at 0 0 1)\<lparr>l_longitude := None\<rparr>] \<and>
   calculateTotalMileage [fix_at 0 0 0, (fix_at 0 0 1)\<lparr>l_longitude := None\<rparr>] = ''NaN''"
proof -
  have a: "2 \<le> length [fix_at 0 0 0, (fix_at 0 0 1)\<lparr>l_longitude := None\<rparr>]"
    by simp
  have b: "\<not> list_all located [fix_at 0 0 0, (fix_at 0 0 1)\<lparr>l_longitude := None\<rparr>]"
    by (simp add: located_def fix_at_def)
  show ?thesis
    using a b missing_coordinate_gives_NaN [OF a b] by simp
qed

end
