(* ===== verification/Benefits.thy ===== *)
theory Benefits
  imports Storage JsNumber
begin

text \<open>
  The payroll and efficiency figures of \<open>src/server.js\<close>: the routes
  \<open>GET /api/timesheet/:employee_id\<close> and \<open>GET /api/time-savings/:employee_id\<close>.

  \<^item> \<open>actual_total\<close> and \<open>estimated_total\<close> are the two \<open>reduce\<close> calls, with
    \<open>task.actual_hours || 0\<close> and \<open>task.estimated_hours || 1\<close> as \<open>num_or\<close>;
    \<open>hourly_rate\<close> is \<open>employee?.hourlyRate || 25\<close>.
  \<open>timesheet\<close> holds the figures of the timesheet route before they are rendered,
    \<open>timesheet_route\<close> is the route: its two queries, the figures, their texts.
  \<^item> \<open>savings\<close> and \<open>time_savings_route\<close> are the same for the second route, with its
    guard against a division by zero.
  \<^item> The lemmas give the split of the hours at 40, the pay for each part, the pay as a
    function of the hours, the defaults, and what the routes answer on no task.
\<close>

section \<open>Sums over tasks\<close>

definition actual_total :: "task list \<Rightarrow> real" where
  "actual_total ts = foldl (\<lambda>sum task. sum + num_or (t_actual_hours task) 0) 0 ts"

definition estimated_total :: "task list \<Rightarrow> real" where
  "estimated_total ts = foldl (\<lambda>sum task. sum + num_or (t_estimated_hours task) 1) 0 ts"

definition hourly_rate :: "employee option \<Rightarrow> real" where
  "hourly_rate employee = num_or (map_option e_hourlyRate employee) 25"

section \<open>The timesheet route\<close>

record timesheet =
  th_totalHours :: real
  th_regularHours :: real
  th_overtime :: real
  th_regularPay :: real
  th_overtimePay :: real
  th_totalPay :: real

definition timesheet_of :: "task list \<Rightarrow> real \<Rightarrow> timesheet" where
  "timesheet_of ts hourlyRate =
     (let totalHours = actual_total ts;
          overtime = max 0 (totalHours - 40);
          regularHours = min totalHours 40
      in \<lparr>th_totalHours = totalHours,
          th_regularHours = regularHours,
          th_overtime = overtime,
          th_regularPay = regularHours * hourlyRate,
          th_overtimePay = overtime * hourlyRate * 1.5,
          th_totalPay = (regularHours * hourlyRate) + (overtime * hourlyRate * 1.5)\<rparr>)"

record timesheet_response =
  ts_totalHours :: string
  ts_regularHours :: string
  ts_overtime :: string
  ts_regularPay :: string
  ts_overtimePay :: string
  ts_totalPay :: string
  ts_period :: string

definition render_timesheet :: "timesheet \<Rightarrow> string \<Rightarrow> timesheet_response" where
  "render_timesheet t period =
     \<lparr>ts_totalHours = toFixed (th_totalHours t) 1,
      ts_regularHours = toFixed (th_regularHours t) 1,
      ts_overtime = toFixed (th_overtime t) 1,
      ts_regularPay = ''$'' @ toFixed (th_regularPay t) 2,
      ts_overtimePay = ''$'' @ toFixed (th_overtimePay t) 2,
      ts_totalPay = ''$'' @ toFixed (th_totalPay t) 2,
      ts_period = period\<rparr>"

definition timesheet_route ::
    "runtime \<Rightarrow> db \<Rightarrow> oid \<Rightarrow> jsdate \<Rightarrow> jsdate \<Rightarrow> timesheet_response result" where
  "timesheet_route rt d emp startDate endDate =
     (case window_of startDate endDate of
        None \<Rightarrow> Inl (Error 500 cast_message)
      | Some (s, e) \<Rightarrow>
          let ts = completed_tasks_in emp s e d;
              employee = findById e_id emp (employees d);
              hourlyRate = hourly_rate employee
          in Inr (render_timesheet (timesheet_of ts hourlyRate)
                    (rt_localeDate rt s @ '' to '' @ rt_localeDate rt e)))"

section \<open>The time-savings route\<close>

record savings =
  sv_estimatedTime :: real
  sv_actualTime :: real
  sv_timeSaved :: real

definition savings_of :: "task list \<Rightarrow> savings" where
  "savings_of ts =
     (let estimatedTime = estimated_total ts;
          actualTime = actual_total ts
      in \<lparr>sv_estimatedTime = estimatedTime,
          sv_actualTime = actualTime,
          sv_timeSaved = max 0 (estimatedTime - actualTime)\<rparr>)"

definition efficiency :: "savings \<Rightarrow> real" where
  "efficiency v =
     (if sv_actualTime v > 0 then (sv_estimatedTime v / sv_actualTime v) * 100 else 0)"

record time_savings_response =
  tr_timeSaved :: string
  tr_efficiency :: string
  tr_message :: string
  tr_tip :: string

definition render_savings :: "runtime \<Rightarrow> savings \<Rightarrow> time_savings_response" where
  "render_savings rt v =
     \<lparr>tr_timeSaved = toFixed (sv_timeSaved v) 1,
      tr_efficiency =
        (if sv_actualTime v > 0
         then toFixed ((sv_estimatedTime v / sv_actualTime v) * 100) 1
         else ''0''),
      tr_message =
        (if sv_timeSaved v > 0
         then ''You saved '' @ rt_showNumber rt (sv_timeSaved v) @
              '' hours thanks to optimized routing!''
         else ''Keep tracking for time savings insights!''),
      tr_tip = ''AI routing helps you finish faster and earn more''\<rparr>"

definition time_savings_route :: "runtime \<Rightarrow> db \<Rightarrow> oid \<Rightarrow> time_savings_response result" where
  "time_savings_route rt d emp = Inr (render_savings rt (savings_of (completed_tasks_of emp d)))"

declare hourly_rate_def [route_defs] timesheet_of_def [route_defs]
  render_timesheet_def [route_defs] timesheet_route_def [route_defs]
  savings_of_def [route_defs] efficiency_def [route_defs] render_savings_def [route_defs]
  time_savings_route_def [route_defs]

section \<open>Sums\<close>

lemma actual_total_sum: "actual_total ts = (\<Sum>t\<leftarrow>ts. num_or (t_actual_hours t) 0)"
  by (simp add: actual_total_def foldl_add_sum_list)

lemma estimated_total_sum: "estimated_total ts = (\<Sum>t\<leftarrow>ts. num_or (t_estimated_hours t) 1)"
  by (simp add: estimated_total_def foldl_add_sum_list)

lemma actual_total_Nil [simp]: "actual_total [] = 0"
  by (simp add: actual_total_def)

lemma estimated_total_Nil [simp]: "estimated_total [] = 0"
  by (simp add: estimated_total_def)

lemma actual_total_Cons [simp]:
  "actual_total (t # ts) = num_or (t_actual_hours t) 0 + actual_total ts"
  by (simp add: actual_total_sum)

lemma estimated_total_Cons [simp]:
  "estimated_total (t # ts) = num_or (t_estimated_hours t) 1 + estimated_total ts"
  by (simp add: estimated_total_sum)

lemma actual_total_append [simp]:
  "actual_total (xs @ ys) = actual_total xs + actual_total ys"
  by (simp add: actual_total_sum)

definition hours_nonneg :: "task list \<Rightarrow> bool" where
  "hours_nonneg ts \<longleftrightarrow>
     list_all (\<lambda>t. (case t_actual_hours t of None \<Rightarrow> True | Some h \<Rightarrow> 0 \<le> h) \<and>
                   (case t_estimated_hours t of None \<Rightarrow> True | Some h \<Rightarrow> 0 \<le> h)) ts"

lemma actual_total_nonneg: "hours_nonneg ts \<Longrightarrow> 0 \<le> actual_total ts"
  by (induction ts) (auto simp: hours_nonneg_def split: option.splits)

lemma estimated_total_ge_length: "hours_nonneg ts \<Longrightarrow> 0 \<le> estimated_total ts"
  by (induction ts) (auto simp: hours_nonneg_def split: option.splits)

section \<open>The split of the hours and the pay\<close>

lemma timesheet_split:
  "th_regularHours (timesheet_of ts r) + th_overtime (timesheet_of ts r) = actual_total ts"
  "th_regularHours (timesheet_of ts r) \<le> 40"
  "0 \<le> th_overtime (timesheet_of ts r)"
  by (simp_all add: timesheet_of_def Let_def)

lemma timesheet_overtime_only_past_40:
  "0 < th_overtime (timesheet_of ts r) \<longleftrightarrow> 40 < actual_total ts"
  by (auto simp: timesheet_of_def Let_def)

lemma timesheet_pay_sum:
  "th_totalPay (timesheet_of ts r) =
     th_regularPay (timesheet_of ts r) + th_overtimePay (timesheet_of ts r)"
  by (simp add: timesheet_of_def Let_def)

lemma timesheet_pay_formula:
  "th_totalPay (timesheet_of ts r) =
     (if actual_total ts \<le> 40 then actual_total ts * r
      else 40 * r + (actual_total ts - 40) * r * 1.5)"
  by (simp add: timesheet_of_def Let_def min_def max_def)

lemma timesheet_pay_mono:
  assumes "0 \<le> r" and "actual_total ts \<le> actual_total ts'"
  shows "th_totalPay (timesheet_of ts r) \<le> th_totalPay (timesheet_of ts' r)"
proof -
  let ?h = "actual_total ts" and ?h' = "actual_total ts'"
  have a: "min ?h 40 * r \<le> min ?h' 40 * r"
    using assms by (intro mult_right_mono) auto
  have b: "max 0 (?h - 40) * (r * 1.5) \<le> max 0 (?h' - 40) * (r * 1.5)"
    using assms by (intro mult_right_mono) auto
  have "th_totalPay (timesheet_of ts r) = min ?h 40 * r + max 0 (?h - 40) * (r * 1.5)"
    and "th_totalPay (timesheet_of ts' r) = min ?h' 40 * r + max 0 (?h' - 40) * (r * 1.5)"
    by (simp_all add: timesheet_of_def Let_def)
  with a b show ?thesis
    by linarith
qed

lemma hourly_rate_cases:
  "hourly_rate None = 25"
  "hourly_rate (Some e) = (if e_hourlyRate e = 0 then 25 else e_hourlyRate e)"
  by (simp_all add: hourly_rate_def)

lemma timesheet_route_invalid:
  "window_of startDate endDate = None \<Longrightarrow>
   timesheet_route rt d emp startDate endDate = Inl (Error 500 cast_message)"
  by (simp add: timesheet_route_def)

lemma timesheet_route_valid:
  "timesheet_route rt d emp (Some s) (Some e) =
     Inr (render_timesheet
            (timesheet_of (completed_tasks_in emp s e d)
               (hourly_rate (findById e_id emp (employees d))))
            (rt_localeDate rt s @ '' to '' @ rt_localeDate rt e))"
  by (simp add: timesheet_route_def Let_def)

section \<open>Savings\<close>

lemma savings_nonneg: "0 \<le> sv_timeSaved (savings_of ts)"
  by (simp add: savings_of_def Let_def)

lemma savings_value:
  "sv_timeSaved (savings_of ts) =
     (if actual_total ts \<le> estimated_total ts then estimated_total ts - actual_total ts else 0)"
  by (simp add: savings_of_def Let_def max_def)

lemma efficiency_zero_actual: "actual_total ts \<le> 0 \<Longrightarrow> efficiency (savings_of ts) = 0"
  by (simp add: efficiency_def savings_of_def Let_def)

lemma efficiency_value:
  "0 < actual_total ts \<Longrightarrow>
   efficiency (savings_of ts) = estimated_total ts / actual_total ts * 100"
  by (simp add: efficiency_def savings_of_def Let_def)

lemma efficiency_over_100_iff:
  "0 < actual_total ts \<Longrightarrow>
   100 < efficiency (savings_of ts) \<longleftrightarrow> 0 < sv_timeSaved (savings_of ts)"
  by (simp add: efficiency_def savings_of_def Let_def field_simps max_def)

section \<open>Concrete documents for the witnesses\<close>

definition a_task :: "oid \<Rightarrow> string \<Rightarrow> real option \<Rightarrow> real option \<Rightarrow> millis \<Rightarrow> task" where
  "a_task emp st est act created =
     \<lparr>t_id = 0, t_employee_id = Some emp, t_title = None, t_description = None,
      t_customer_name = None, t_customer_phone = None, t_address = None, t_priority = 1,
      t_due_date = None, t_status = st, t_estimated_hours = est, t_actual_hours = act,
      t_created_at = created\<rparr>"

definition an_employee :: "oid \<Rightarrow> real \<Rightarrow> employee" where
  "an_employee i rate =
     \<lparr>e_id = i, e_name = None, e_email = None, e_password = None, e_role = ''employee'',
      e_hourlyRate = rate, e_isActive = True, e_createdAt = 0\<rparr>"

definition payroll_db :: db where
  "payroll_db = empty_db\<lparr>employees := [an_employee 7 20],
     tasks := [a_task 7 ''completed'' (Some 10) (Some 45) 5]\<rparr>"

lemma a_task_simps [simp]:
  "t_employee_id (a_task emp st est act c) = Some emp"
  "t_status (a_task emp st est act c) = st"
  "t_estimated_hours (a_task emp st est act c) = est"
  "t_actual_hours (a_task emp st est act c) = act"
  "t_created_at (a_task emp st est act c) = c"
  by (simp_all add: a_task_def)

lemma an_employee_simps [simp]:
  "e_id (an_employee i rate) = i" "e_hourlyRate (an_employee i rate) = rate"
  "e_isActive (an_employee i rate)"
  by (simp_all add: an_employee_def)

lemma payroll_db_tasks:
  "completed_tasks_in 7 0 10 payroll_db = [a_task 7 ''completed'' (Some 10) (Some 45) 5]"
  by (simp add: payroll_db_def completed_tasks_in_def completed_def in_window_def)

lemma payroll_db_rate: "hourly_rate (findById e_id 7 (employees payroll_db)) = 20"
  by (simp add: payroll_db_def hourly_rate_def findById_def)

lemma render_timesheet_45_20:
  "actual_total ts = 45 \<Longrightarrow>
   render_timesheet (timesheet_of ts 20) p =
     \<lparr>ts_totalHours = ''45.0'', ts_regularHours = ''40.0'', ts_overtime = ''5.0'',
      ts_regularPay = ''$800.00'', ts_overtimePay = ''$150.00'', ts_totalPay = ''$950.00'',
      ts_period = p\<rparr>"
  by (simp add: render_timesheet_def timesheet_of_def Let_def toFixed_eval)

lemma render_timesheet_zero:
  "actual_total ts = 0 \<Longrightarrow>
   render_timesheet (timesheet_of ts r) p =
     \<lparr>ts_totalHours = ''0.0'', ts_regularHours = ''0.0'', ts_overtime = ''0.0'',
      ts_regularPay = ''$0.00'', ts_overtimePay = ''$0.00'', ts_totalPay = ''$0.00'',
      ts_period = p\<rparr>"
  by (simp add: render_timesheet_def timesheet_of_def Let_def toFixed_eval)

section \<open>Properties of the timesheet\<close>

text \<open>
  Claim C34 (functional). The timesheet splits the total of the actual hours at 40:
  regular hours are the smaller of the total and 40, overtime is what exceeds 40 and never
  negative, the two add up to the total, and there is overtime exactly when the total
  exceeds 40.
\<close>

theorem timesheet_hours_split:
  "th_regularHours (timesheet_of ts r) = min (actual_total ts) 40 \<and>
   th_overtime (timesheet_of ts r) = max 0 (actual_total ts - 40) \<and>
   th_regularHours (timesheet_of ts r) + th_overtime (timesheet_of ts r) = actual_total ts \<and>
   th_regularHours (timesheet_of ts r) \<le> 40 \<and>
   (0 < th_overtime (timesheet_of ts r) \<longleftrightarrow> 40 < actual_total ts)"
  by (simp add: timesheet_split timesheet_overtime_only_past_40)
    (simp add: timesheet_of_def Let_def)

text \<open>
  Claim C7 (functional). Regular pay is regular hours times the hourly rate, overtime is
  paid at one and a half times the rate, and the total pay is their sum: the total hours
  times the rate up to 40 hours, and \<open>40 * rate + (hours - 40) * rate * 1.5\<close> beyond.
\<close>

theorem timesheet_pay:
  "th_regularPay (timesheet_of ts r) = th_regularHours (timesheet_of ts r) * r \<and>
   th_overtimePay (timesheet_of ts r) = th_overtime (timesheet_of ts r) * r * 1.5 \<and>
   th_totalPay (timesheet_of ts r) =
     (if actual_total ts \<le> 40 then actual_total ts * r
      else 40 * r + (actual_total ts - 40) * r * 1.5)"
  by (simp add: timesheet_pay_formula) (simp add: timesheet_of_def Let_def)

text \<open>
  Claim C10 (functional). The timesheet route on 45 completed hours at a rate of 20
  answers regular hours 40.0, overtime 5.0, regular pay $800.00, overtime pay $150.00 and
  total pay $950.00.
\<close>

theorem timesheet_route_45_hours_at_20:
  assumes "actual_total (completed_tasks_in emp s e d) = 45"
    and "hourly_rate (findById e_id emp (employees d)) = 20"
  shows "timesheet_route rt d emp (Some s) (Some e) =
     Inr \<lparr>ts_totalHours = ''45.0'', ts_regularHours = ''40.0'', ts_overtime = ''5.0'',
          ts_regularPay = ''$800.00'', ts_overtimePay = ''$150.00'',
          ts_totalPay = ''$950.00'',
          ts_period = rt_localeDate rt s @ '' to '' @ rt_localeDate rt e\<rparr>"
  using assms by (simp add: timesheet_route_valid render_timesheet_45_20)

theorem timesheet_route_45_hours_at_20_witness:
  "actual_total (completed_tasks_in 7 0 10 payroll_db) = 45 \<and>
   hourly_rate (findById e_id 7 (employees payroll_db)) = 20 \<and>
   timesheet_route utc_runtime payroll_db 7 (Some 0) (Some 10) =
     Inr \<lparr>ts_totalHours = ''45.0'', ts_regularHours = ''40.0'', ts_overtime = ''5.0'',
          ts_regularPay = ''$800.00'', ts_overtimePay = ''$150.00'',
          ts_totalPay = ''$950.00'',
          ts_period = rt_localeDate utc_runtime 0 @ '' to '' @ rt_localeDate utc_runtime 10\<rparr>"
proof -
  have a: "actual_total (completed_tasks_in 7 0 10 payroll_db) = 45"
    by (simp add: payroll_db_tasks)
  show ?thesis
    using a payroll_db_rate timesheet_route_45_hours_at_20 [OF a payroll_db_rate, of utc_runtime]
    by simp
qed

text \<open>
  Lemma (functional). With no completed task in the window the timesheet route is not
  an error: every figure is zero, whatever the rate.
\<close>

theorem timesheet_route_no_tasks:
  assumes "completed_tasks_in emp s e d = []"
  shows "timesheet_route rt d emp (Some s) (Some e) =
     Inr \<lparr>ts_totalHours = ''0.0'', ts_regularHours = ''0.0'', ts_overtime = ''0.0'',
          ts_regularPay = ''$0.00'', ts_overtimePay = ''$0.00'', ts_totalPay = ''$0.00'',
          ts_period = rt_localeDate rt s @ '' to '' @ rt_localeDate rt e\<rparr>"
  using assms by (simp add: timesheet_route_valid render_timesheet_zero)

theorem timesheet_route_no_tasks_witness:
  "completed_tasks_in 7 0 10 empty_db = [] \<and>
   timesheet_route utc_runtime empty_db 7 (Some 0) (Some 10) =
     Inr \<lparr>ts_totalHours = ''0.0'', ts_regularHours = ''0.0'', ts_overtime = ''0.0'',
          ts_regularPay = ''$0.00'', ts_overtimePay = ''$0.00'', ts_totalPay = ''$0.00'',
          ts_period = rt_localeDate utc_runtime 0 @ '' to '' @ rt_localeDate utc_runtime 10\<rparr>"
proof -
  have a: "completed_tasks_in 7 0 10 empty_db = []"
    by (simp add: completed_tasks_in_def empty_db_def)
  show ?thesis
    using a timesheet_route_no_tasks [OF a, of utc_runtime] by simp
qed

text \<open>
  Lemma (functional). The hourly rate is the employee's, with 25 taken when no
  employee has the id and also when the stored rate is 0: \<open>hourlyRate || 25\<close> cannot
  tell a rate of zero from a missing one.
\<close>

theorem hourly_rate_default:
  "hourly_rate None = 25 \<and>
   hourly_rate (Some (an_employee i 0)) = 25 \<and>
   hourly_rate (Some (an_employee i 30)) = 30 \<and>
   hourly_rate (Some e) = (if e_hourlyRate e = 0 then 25 else e_hourlyRate e)"
  by (simp add: hourly_rate_cases)

text \<open>
  Lemma (functional). The pay does not validate the hours it sums: when the actual
  hours of the completed tasks add up to less than zero and the rate is positive, the
  total pay is negative.
\<close>

theorem timesheet_negative_hours_negative_pay:
  "actual_total ts < 0 \<Longrightarrow> 0 < r \<Longrightarrow> th_totalPay (timesheet_of ts r) < 0"
  by (simp add: timesheet_pay_formula mult_neg_pos)

theorem timesheet_negative_hours_negative_pay_witness:
  "actual_total [a_task 7 ''completed'' None (Some (- 3)) 5] < 0 \<and> (0::real) < 20 \<and>
   th_totalPay (timesheet_of [a_task 7 ''completed'' None (Some (- 3)) 5] 20) < 0"
proof -
  have a: "actual_total [a_task 7 ''completed'' None (Some (- 3)) 5] < 0"
    by simp
  have b: "(0::real) < 20" by simp
  show ?thesis
    using a timesheet_negative_hours_negative_pay [OF a b] by simp
qed

section \<open>Properties of the time savings\<close>

text \<open>
  Lemma (functional). The time saved is the estimated total minus the actual total,
  clamped at zero; the efficiency is estimated over actual times 100 when the actual
  total is positive and 0 otherwise, so that no division by zero is evaluated; and the
  efficiency exceeds 100 exactly when time was saved.
\<close>

theorem time_savings_spec:
  "sv_timeSaved (savings_of ts) = max 0 (estimated_total ts - actual_total ts) \<and>
   0 \<le> sv_timeSaved (savings_of ts) \<and>
   efficiency (savings_of ts) =
     (if 0 < actual_total ts then estimated_total ts / actual_total ts * 100 else 0) \<and>
   (0 < actual_total ts \<longrightarrow>
      (100 < efficiency (savings_of ts) \<longleftrightarrow> 0 < sv_timeSaved (savings_of ts)))"
  by (simp add: efficiency_over_100_iff) (simp add: savings_of_def efficiency_def Let_def)

theorem time_savings_spec_witness:
  "sv_timeSaved (savings_of [a_task 7 ''completed'' (Some 10) (Some 8) 5]) = 2 \<and>
   efficiency (savings_of [a_task 7 ''completed'' (Some 10) (Some 8) 5]) = 125"
  using time_savings_spec [of "[a_task 7 ''completed'' (Some 10) (Some 8) 5]"] by simp

text \<open>
  Claim C14 (functional). The time-savings route renders estimated 10 against actual 8 as
  time saved 2.0 and efficiency 125.0, and estimated 10 against actual 0 as efficiency 0
  with time saved 10.0.
\<close>

theorem time_savings_route_examples:
  "(estimated_total (completed_tasks_of emp d) = 10 \<and> actual_total (completed_tasks_of emp d) = 8
      \<longrightarrow> (\<exists>r. time_savings_route rt d emp = Inr r \<and>
            tr_timeSaved r = ''2.0'' \<and> tr_efficiency r = ''125.0'')) \<and>
   (estimated_total (completed_tasks_of emp d) = 10 \<and> actual_total (completed_tasks_of emp d) = 0
      \<longrightarrow> (\<exists>r. time_savings_route rt d emp = Inr r \<and>
            tr_timeSaved r = ''10.0'' \<and> tr_efficiency r = ''0''))"
  by (simp add: time_savings_route_def render_savings_def savings_of_def Let_def toFixed_eval)

definition savings_db :: "real \<Rightarrow> db" where
  "savings_db act = empty_db\<lparr>tasks := [a_task 7 ''completed'' (Some 10) (Some act) 5]\<rparr>"

lemma savings_db_tasks:
  "completed_tasks_of 7 (savings_db act) = [a_task 7 ''completed'' (Some 10) (Some act) 5]"
  by (simp add: savings_db_def completed_tasks_of_def completed_def)

theorem time_savings_route_examples_witness:
  "(\<exists>r. time_savings_route utc_runtime (savings_db 8) 7 = Inr r \<and>
        tr_timeSaved r = ''2.0'' \<and> tr_efficiency r = ''125.0'') \<and>
   (\<exists>r. time_savings_route utc_runtime (savings_db 0) 7 = Inr r \<and>
        tr_timeSaved r = ''10.0'' \<and> tr_efficiency r = ''0'')"
  using time_savings_route_examples [of 7 "savings_db 8" utc_runtime]
    time_savings_route_examples [of 7 "savings_db 0" utc_runtime]
  by (simp add: savings_db_tasks)


end
