(* ===== verification/Csv.thy ===== *)
theory Csv
  imports Storage
begin

text \<open>
  The export format of \<open>src/server.js\<close> and what the client reads off it.

  \<^item> \<open>csv_fields\<close> is the \<open>switch\<close> of \<open>generateCsv\<close> (\<open>src/server.js\<close>): the
    field list of each of the six record types the report passes.
  \<^item> \<open>parser_parse\<close> stands for \<open>new Parser({ fields }).parse(data)\<close> of the
    \<open>json2csv\<close> package: a header line of the quoted field names, then one line per
    record holding the record's cell for each field, lines joined by a line feed. How a
    value becomes a cell (quoting, numbers, dates) is the package's business: the cell
    function is a parameter.
  \<^item> \<open>split_lines\<close> is \<open>text.split('\n')\<close> and \<open>record_count\<close> the client's
    \<open>files.tasks.split('\n').length - 1\<close> (\<open>displayExportResults\<close> in \<open>src/app.js\<close>).
  \<^item> The lemmas: splitting inverts joining for lines without a line feed; an empty
    collection gives the header alone; the client's count is the number of records
    exactly when no cell holds a line feed.
\<close>

section \<open>Lines\<close>

definition newline :: char where
  "newline = CHR 0x0A"

fun join :: "string \<Rightarrow> string list \<Rightarrow> string" where
  "join sep [] = []"
| "join sep [x] = x"
| "join sep (x # y # ys) = x @ sep @ join sep (y # ys)"

definition split_lines :: "string \<Rightarrow> string list" where
  "split_lines s =
     foldr (\<lambda>c ls. if c = newline then [] # ls else (c # hd ls) # tl ls) s [[]]"

definition record_count :: "string \<Rightarrow> int" where
  "record_count csv = int (length (split_lines csv)) - 1"

section \<open>generateCsv\<close>

datatype csv_type = Tasks | Locations | Logs | Employees | Emergencies | WeeklySummary

fun csv_fields :: "csv_type \<Rightarrow> string list" where
  "csv_fields Tasks = [''_id'', ''title'', ''customer_name'', ''customer_phone'', ''address'',
     ''priority'', ''due_date'', ''status'', ''estimated_hours'', ''actual_hours'',
     ''created_at'']"
| "csv_fields Locations = [''_id'', ''employee_id'', ''latitude'', ''longitude'', ''timestamp'']"
| "csv_fields Logs = [''_id'', ''employee_name'', ''action_type'', ''description'',
     ''timestamp'', ''ip_address'']"
| "csv_fields Employees = [''_id'', ''name'', ''email'', ''role'', ''hourlyRate'',
     ''createdAt'']"
| "csv_fields Emergencies = [''_id'', ''employee_name'', ''emergency_type'', ''message'',
     ''status'', ''created_at'']"
| "csv_fields WeeklySummary = [''week_number'', ''total_employees'', ''total_tasks'',
     ''completed_tasks'', ''total_locations'', ''total_logs'', ''emergencies'',
     ''total_mileage'']"

definition quoted :: "string \<Rightarrow> string" where
  "quoted s = [CHR 0x22] @ s @ [CHR 0x22]"

definition header_line :: "string list \<Rightarrow> string" where
  "header_line flds = join '','' (map quoted flds)"

definition row_line :: "('a \<Rightarrow> string \<Rightarrow> string) \<Rightarrow> string list \<Rightarrow> 'a \<Rightarrow> string" where
  "row_line cell flds x = join '','' (map (cell x) flds)"

definition parser_parse :: "string list \<Rightarrow> ('a \<Rightarrow> string \<Rightarrow> string) \<Rightarrow> 'a list \<Rightarrow> string" where
  "parser_parse flds cell data =
     join [newline] (header_line flds # map (row_line cell flds) data)"

definition generateCsv :: "('a \<Rightarrow> string \<Rightarrow> string) \<Rightarrow> 'a list \<Rightarrow> csv_type \<Rightarrow> string" where
  "generateCsv cell data ty = parser_parse (csv_fields ty) cell data"

text \<open>
  A collection exports plainly when no cell of it holds a line feed; a text has the row of
  a record when one of its lines after the header is that record's line.
\<close>

definition plain_cells :: "('a \<Rightarrow> string \<Rightarrow> string) \<Rightarrow> csv_type \<Rightarrow> 'a list \<Rightarrow> bool" where
  "plain_cells cell ty data \<longleftrightarrow>
     (\<forall>x\<in>set data. \<forall>f\<in>set (csv_fields ty). newline \<notin> set (cell x f))"

definition has_row :: "string \<Rightarrow> ('a \<Rightarrow> string \<Rightarrow> string) \<Rightarrow> csv_type \<Rightarrow> 'a \<Rightarrow> bool" where
  "has_row csv cell ty x \<longleftrightarrow> row_line cell (csv_fields ty) x \<in> set (tl (split_lines csv))"

section \<open>Splitting and joining\<close>

lemma split_lines_Nil [simp]: "split_lines [] = [[]]"
  by (simp add: split_lines_def)

lemma split_lines_nonempty [simp]: "split_lines s \<noteq> []"
  by (induction s) (simp_all add: split_lines_def)

lemma split_lines_Cons:
  "split_lines (c # s) =
     (if c = newline then [] # split_lines s
      else (c # hd (split_lines s)) # tl (split_lines s))"
  by (simp add: split_lines_def)

lemma split_lines_no_newline: "newline \<notin> set s \<Longrightarrow> split_lines s = [s]"
  by (induction s) (auto simp: split_lines_Cons)

lemma split_lines_append_newline:
  "newline \<notin> set l \<Longrightarrow> split_lines (l @ newline # s) = l # split_lines s"
  by (induction l) (auto simp: split_lines_Cons)

lemma length_split_lines: "length (split_lines s) = Suc (count_list s newline)"
proof (induction s)
  case (Cons c s)
  then show ?case
    by (cases "split_lines s") (simp_all add: split_lines_Cons)
qed simp

lemma split_lines_join:
  "ls \<noteq> [] \<Longrightarrow> \<forall>l\<in>set ls. newline \<notin> set l \<Longrightarrow> split_lines (join [newline] ls) = ls"
proof (induction "[newline]" ls rule: join.induct)
  case (3 x y ys)
  then have "split_lines (join [newline] (y # ys)) = y # ys"
    by simp
  moreover from "3.prems" have "newline \<notin> set x"
    by simp
  ultimately show ?case
    by (simp add: split_lines_append_newline)
qed (simp_all add: split_lines_no_newline)

lemma count_list_append [simp]: "count_list (xs @ ys) c = count_list xs c + count_list ys c"
  by (induction xs) simp_all

lemma count_join_newline:
  "ls \<noteq> [] \<Longrightarrow>
   count_list (join [newline] ls) newline =
     (\<Sum>l\<leftarrow>ls. count_list l newline) + (length ls - 1)"
  by (induction "[newline]" ls rule: join.induct) simp_all

lemma join_no_newline:
  "newline \<notin> set sep \<Longrightarrow> \<forall>x\<in>set xs. newline \<notin> set x \<Longrightarrow> newline \<notin> set (join sep xs)"
  by (induction sep xs rule: join.induct) simp_all

section \<open>Header and rows\<close>

lemma header_line_no_newline: "newline \<notin> set (header_line (csv_fields ty))"
  by (cases ty) (simp_all add: header_line_def quoted_def newline_def)

lemma row_line_no_newline:
  "\<forall>f\<in>set flds. newline \<notin> set (cell x f) \<Longrightarrow> newline \<notin> set (row_line cell flds x)"
  unfolding row_line_def by (rule join_no_newline) (simp_all add: newline_def)

lemma plain_cells_Nil [simp]: "plain_cells cell ty []"
  by (simp add: plain_cells_def)

lemma plain_cells_filter: "plain_cells cell ty xs \<Longrightarrow> plain_cells cell ty (filter P xs)"
  by (simp add: plain_cells_def)

lemma plain_cells_const [simp]: "newline \<notin> set c \<Longrightarrow> plain_cells (\<lambda>x f. c) ty xs"
  by (simp add: plain_cells_def)

lemma generateCsv_lines:
  assumes "plain_cells cell ty data"
  shows "split_lines (generateCsv cell data ty) =
    header_line (csv_fields ty) # map (row_line cell (csv_fields ty)) data"
  unfolding generateCsv_def parser_parse_def
  using assms
  by (intro split_lines_join) (auto simp: plain_cells_def header_line_no_newline row_line_no_newline)

lemma generateCsv_has_row:
  "plain_cells cell ty data \<Longrightarrow> x \<in> set data \<Longrightarrow> has_row (generateCsv cell data ty) cell ty x"
  by (simp add: has_row_def generateCsv_lines)

lemma record_count_plain:
  "plain_cells cell ty data \<Longrightarrow> record_count (generateCsv cell data ty) = int (length data)"
  by (simp add: record_count_def generateCsv_lines)

lemma generateCsv_empty: "generateCsv cell [] ty = header_line (csv_fields ty)"
  by (simp add: generateCsv_def parser_parse_def)

lemma record_count_general:
  "record_count (generateCsv cell data ty) =
     int (length data) + int (\<Sum>x\<leftarrow>data. count_list (row_line cell (csv_fields ty) x) newline)"
proof -
  have h: "count_list (header_line (csv_fields ty)) newline = 0"
    using header_line_no_newline [of ty] by (simp add: count_list_0_iff)
  show ?thesis
    by (simp add: record_count_def length_split_lines generateCsv_def parser_parse_def
        count_join_newline h comp_def)
qed

section \<open>Properties of the export format\<close>

text \<open>
  Lemma (roundtrip). Split at line feeds, an exported file is its header line followed
  by one line per record, in the order of the records, when no cell holds a line feed.
\<close>

theorem generateCsv_roundtrip:
  "plain_cells cell ty data \<Longrightarrow>
   split_lines (generateCsv cell data ty) =
     header_line (csv_fields ty) # map (row_line cell (csv_fields ty)) data"
  by (fact generateCsv_lines)

theorem generateCsv_roundtrip_witness:
  "split_lines (generateCsv (\<lambda>x f. x) [''a'', ''b''] Locations) =
     [header_line (csv_fields Locations), ''a,a,a,a,a'', ''b,b,b,b,b'']"
  using generateCsv_roundtrip [of "\<lambda>x f. x" Locations "[''a'', ''b'']"]
  by (simp add: plain_cells_def newline_def row_line_def)

text \<open>
  Claim C37 (functional). An empty collection exports as the header line alone: one line
  when split, which the client shows as zero records.
\<close>

theorem generateCsv_empty_collection:
  "split_lines (generateCsv cell [] ty) = [header_line (csv_fields ty)] \<and>
   record_count (generateCsv cell [] ty) = 0"
  by (simp add: generateCsv_empty record_count_def split_lines_no_newline
      header_line_no_newline)

text \<open>
  Claim C38 (functional). The number the client shows for a file, its lines less one, is
  the number of records plus the number of line feeds inside cells: it is the number of
  records exactly when no cell holds a line feed, and too large otherwise.
\<close>

theorem record_count_counts_line_feeds:
  "record_count (generateCsv cell data ty) =
     int (length data) + int (\<Sum>x\<leftarrow>data. count_list (row_line cell (csv_fields ty) x) newline)"
  by (fact record_count_general)

lemma record_count_example:
  "record_count (generateCsv (\<lambda>x f. if f = ''description'' then x else ''c'')
     [[CHR ''a'', newline, CHR ''b'']] Logs) = 2"
  by (simp add: record_count_general row_line_def newline_def)

end
