(* ===== verification/Report.thy ===== *)
theory Report
  imports Mileage Benefits Csv
begin

text \<open>
  The weekly export and the cleanup of \<open>src/server.js\<close>: the two routes that share a
  window of time, one reading it and one deleting it.

  \<^item> \<open>setHours\<close> is \<open>Date.prototype.setHours\<close> as the language defines it (local time of
    the date, its day, the given time of that day, back to UTC) for a constant offset;
    \<open>end_of_day\<close> is the \<open>endDate.setHours(23, 59, 59, 999)\<close> of both routes.
  \<^item> \<open>fetch_week\<close> is the \<open>Promise.all\<close> of five \<open>find\<close> calls, \<open>weekly_summary\<close>
    the \<open>weeklyReport\<close> object, \<open>report_files_of\<close> the six \<open>generateCsv\<close> calls and
    \<open>weekly_report_route\<close> the handler of \<open>GET /api/export/weekly-report\<close>.
  \<^item> \<open>purge_tasks\<close>, \<open>purge_locations\<close> and \<open>purge_logs\<close> are the three
    \<open>deleteMany\<close> calls and \<open>cleanup_route\<close> the handler of
    \<open>POST /api/cleanup/weekly-data\<close>, guard first. \<open>run_purges\<close> runs any sequence of
    the three, which covers every order in which the storage layer may complete them and
    every subset a failure may leave done.
  \<^item> The lemmas: the arithmetic of the end of day; what the report counts and exports; that
    a refused cleanup changes nothing; what a cleanup deletes, keeps and reports; that
    what it deletes is what the report of the same window and store exported.
\<close>

section \<open>The end of the day\<close>

definition msPerDay :: int where
  "msPerDay = 86400000"

definition Day :: "millis \<Rightarrow> int" where
  "Day t = t div msPerDay"

definition MakeTime :: "int \<Rightarrow> int \<Rightarrow> int \<Rightarrow> int \<Rightarrow> int" where
  "MakeTime h m s ms = h * 3600000 + m * 60000 + s * 1000 + ms"

definition MakeDate :: "int \<Rightarrow> int \<Rightarrow> millis" where
  "MakeDate day time = day * msPerDay + time"

definition LocalTime :: "int \<Rightarrow> millis \<Rightarrow> millis" where
  "LocalTime tz t = t + tz * 60000"

definition UTC :: "int \<Rightarrow> millis \<Rightarrow> millis" where
  "UTC tz t = t - tz * 60000"

definition setHours :: "int \<Rightarrow> millis \<Rightarrow> int \<Rightarrow> int \<Rightarrow> int \<Rightarrow> int \<Rightarrow> millis" where
  "setHours tz t h m s ms = UTC tz (MakeDate (Day (LocalTime tz t)) (MakeTime h m s ms))"

definition end_of_day :: "runtime \<Rightarrow> jsdate \<Rightarrow> jsdate" where
  "end_of_day rt endDate = map_option (\<lambda>t. setHours (rt_tz rt) t 23 59 59 999) endDate"

lemmas date_defs = setHours_def UTC_def LocalTime_def MakeDate_def MakeTime_def Day_def
  msPerDay_def

section \<open>The weekly report\<close>

record week_data =
  wd_tasks :: "task list"
  wd_locations :: "location list"
  wd_logs :: "log list"
  wd_employees :: "employee list"
  wd_emergencies :: "emergency list"

definition fetch_week :: "db \<Rightarrow> millis \<Rightarrow> millis \<Rightarrow> week_data" where
  "fetch_week d s e =
     \<lparr>wd_tasks = filter (\<lambda>t. in_window s e (t_created_at t)) (tasks d),
      wd_locations = filter (\<lambda>l. in_window s e (l_timestamp l)) (locations d),
      wd_logs = filter (\<lambda>g. in_window s e (g_timestamp g)) (logs d),
      wd_employees = filter e_isActive (employees d),
      wd_emergencies = filter (\<lambda>m. in_window s e (m_created_at m)) (emergencies d)\<rparr>"

record weekly_report =
  wr_week_number :: string
  wr_week_start :: millis
  wr_week_end :: millis
  wr_total_employees :: nat
  wr_total_tasks :: nat
  wr_completed_tasks :: nat
  wr_total_locations :: nat
  wr_total_logs :: nat
  wr_emergencies :: nat
  wr_total_mileage :: string
  wr_generated_at :: millis

definition weekly_summary :: "runtime \<Rightarrow> millis \<Rightarrow> millis \<Rightarrow> week_data \<Rightarrow> weekly_report" where
  "weekly_summary rt s e w =
     \<lparr>wr_week_number = ''Week-'' @ rt_weekLabel rt s,
      wr_week_start = s,
      wr_week_end = e,
      wr_total_employees = length (wd_employees w),
      wr_total_tasks = length (wd_tasks w),
      wr_completed_tasks = length (filter (\<lambda>t. t_status t = ''completed'') (wd_tasks w)),
      wr_total_locations = length (wd_locations w),
      wr_total_logs = length (wd_logs w),
      wr_emergencies = length (wd_emergencies w),
      wr_total_mileage = calculateTotalMileage (wd_locations w),
      wr_generated_at = rt_now rt\<rparr>"

text \<open>
  The cell of each kind of record under each field name: the part of the export that the
  \<open>json2csv\<close> package decides.
\<close>

record serializer =
  sz_task :: "task \<Rightarrow> string \<Rightarrow> string"
  sz_location :: "location \<Rightarrow> string \<Rightarrow> string"
  sz_log :: "log \<Rightarrow> string \<Rightarrow> string"
  sz_employee :: "employee \<Rightarrow> string \<Rightarrow> string"
  sz_emergency :: "emergency \<Rightarrow> string \<Rightarrow> string"
  sz_summary :: "weekly_report \<Rightarrow> string \<Rightarrow> string"

record report_files =
  rf_tasks :: string
  rf_locations :: string
  rf_logs :: string
  rf_employees :: string
  rf_emergencies :: string
  rf_summary :: string

definition report_files_of :: "serializer \<Rightarrow> week_data \<Rightarrow> weekly_report \<Rightarrow> report_files" where
  "report_files_of sz w weeklyReport =
     (let tasksCsv = generateCsv (sz_task sz) (wd_tasks w) Tasks;
          locationsCsv = generateCsv (sz_location sz) (wd_locations w) Locations;
          logsCsv = generateCsv (sz_log sz) (wd_logs w) Logs;
          employeesCsv = generateCsv (sz_employee sz) (wd_employees w) Employees;
          emergenciesCsv = generateCsv (sz_emergency sz) (wd_emergencies w) Emergencies;
          reportCsv = generateCsv (sz_summary sz) [weeklyReport] WeeklySummary
      in \<lparr>rf_tasks = tasksCsv, rf_locations = locationsCsv, rf_logs = logsCsv,
          rf_employees = employeesCsv, rf_emergencies = emergenciesCsv,
          rf_summary = reportCsv\<rparr>)"

record report_response =
  rr_weekly_report :: weekly_report
  rr_files :: report_files
  rr_message :: string

definition weekly_report_route ::
    "runtime \<Rightarrow> serializer \<Rightarrow> db \<Rightarrow> jsdate \<Rightarrow> jsdate \<Rightarrow> report_response result" where
  "weekly_report_route rt sz d week_start week_end =
     (case window_of week_start (end_of_day rt week_end) of
        None \<Rightarrow> Inl (Error 500 cast_message)
      | Some (s, e) \<Rightarrow>
          let w = fetch_week d s e;
              weeklyReport = weekly_summary rt s e w
          in Inr \<lparr>rr_weekly_report = weeklyReport,
                  rr_files = report_files_of sz w weeklyReport,
                  rr_message = ''Weekly report generated successfully''\<rparr>)"

section \<open>The cleanup\<close>

definition purge_tasks :: "millis \<Rightarrow> millis \<Rightarrow> db \<Rightarrow> db \<times> nat" where
  "purge_tasks s e d =
     (let (kept, n) = deleteMany (\<lambda>t. in_window s e (t_created_at t) \<and> completed t) (tasks d)
      in (d\<lparr>tasks := kept\<rparr>, n))"

definition purge_locations :: "millis \<Rightarrow> millis \<Rightarrow> db \<Rightarrow> db \<times> nat" where
  "purge_locations s e d =
     (let (kept, n) = deleteMany (\<lambda>l. in_window s e (l_timestamp l)) (locations d)
      in (d\<lparr>locations := kept\<rparr>, n))"

definition purge_logs :: "millis \<Rightarrow> millis \<Rightarrow> db \<Rightarrow> db \<times> nat" where
  "purge_logs s e d =
     (let (kept, n) = deleteMany (\<lambda>g. in_window s e (g_timestamp g)) (logs d)
      in (d\<lparr>logs := kept\<rparr>, n))"

record deleted_counts =
  dc_tasks :: nat
  dc_locations :: nat
  dc_logs :: nat

record cleanup_response =
  cr_message :: string
  cr_deleted :: deleted_counts

definition cleanup_route ::
    "runtime \<Rightarrow> db \<Rightarrow> jsdate \<Rightarrow> jsdate \<Rightarrow> jsval \<Rightarrow> cleanup_response result \<times> db" where
  "cleanup_route rt d week_start week_end backup_confirmed =
     (if \<not> truthy backup_confirmed
      then (Inl (Error 400 ''Backup confirmation required''), d)
      else case window_of week_start (end_of_day rt week_end) of
        None \<Rightarrow> (Inl (Error 500 cast_message), d)
      | Some (s, e) \<Rightarrow>
          let (d1, nt) = purge_tasks s e d;
              (d2, nl) = purge_locations s e d1;
              (d3, ng) = purge_logs s e d2
          in (Inr \<lparr>cr_message = ''Weekly data cleanup completed'',
                   cr_deleted = \<lparr>dc_tasks = nt, dc_locations = nl, dc_logs = ng\<rparr>\<rparr>, d3))"

text \<open>
  The three deletions are issued together and complete in an order the handler does not
  choose; a failure of the storage layer may leave any of them undone.
\<close>

datatype purge = PurgeTasks | PurgeLocations | PurgeLogs

fun purge_step :: "millis \<Rightarrow> millis \<Rightarrow> purge \<Rightarrow> db \<Rightarrow> db" where
  "purge_step s e PurgeTasks d = fst (purge_tasks s e d)"
| "purge_step s e PurgeLocations d = fst (purge_locations s e d)"
| "purge_step s e PurgeLogs d = fst (purge_logs s e d)"

definition run_purges :: "millis \<Rightarrow> millis \<Rightarrow> purge list \<Rightarrow> db \<Rightarrow> db" where
  "run_purges s e ps d = fold (purge_step s e) ps d"

text \<open>
  What a cleanup may do to a store, whatever part of it ran: documents only leave, and
  only finished tasks, positions and log entries of the window do.
\<close>

definition removed_only_in_window :: "millis \<Rightarrow> millis \<Rightarrow> db \<Rightarrow> db \<Rightarrow> bool" where
  "removed_only_in_window s e d d' \<longleftrightarrow>
     employees d' = employees d \<and> emergencies d' = emergencies d \<and>
     next_oid d' = next_oid d \<and>
     mset (tasks d') \<subseteq># mset (tasks d) \<and>
     mset (locations d') \<subseteq># mset (locations d) \<and>
     mset (logs d') \<subseteq># mset (logs d) \<and>
     (\<forall>t \<in># mset (tasks d) - mset (tasks d').
        in_window s e (t_created_at t) \<and> t_status t = ''completed'') \<and>
     (\<forall>l \<in># mset (locations d) - mset (locations d'). in_window s e (l_timestamp l)) \<and>
     (\<forall>g \<in># mset (logs d) - mset (logs d'). in_window s e (g_timestamp g))"

declare purge_tasks_def [route_defs] purge_locations_def [route_defs]
  purge_logs_def [route_defs]

section \<open>Arithmetic of the end of day\<close>

lemma setHours_eod_eq:
  "setHours tz t 23 59 59 999 =
     (t + tz * 60000) div 86400000 * 86400000 + 86399999 - tz * 60000"
  by (simp add: date_defs)

lemma setHours_eod_lower: "t \<le> setHours tz t 23 59 59 999"
proof -
  have "(t + tz * 60000) mod 86400000 < 86400000"
    by simp
  then have "t + tz * 60000 \<le> (t + tz * 60000) div 86400000 * 86400000 + 86399999"
    by (simp add: minus_mod_eq_div_mult [symmetric])
  then show ?thesis
    by (simp add: setHours_eod_eq)
qed

lemma setHours_eod_upper: "setHours tz t 23 59 59 999 < t + msPerDay"
proof -
  have "0 \<le> (t + tz * 60000) mod 86400000"
    by simp
  then have "(t + tz * 60000) div 86400000 * 86400000 \<le> t + tz * 60000"
    by (simp add: minus_mod_eq_div_mult [symmetric])
  then show ?thesis
    by (simp add: setHours_eod_eq msPerDay_def)
qed

lemma setHours_eod_local:
  "LocalTime tz (setHours tz t 23 59 59 999) mod msPerDay = 86399999"
  by (simp add: date_defs)

lemma setHours_eod_same_day:
  "Day (LocalTime tz (setHours tz t 23 59 59 999)) = Day (LocalTime tz t)"
  by (simp add: date_defs)

lemma setHours_eod_idem:
  "setHours tz (setHours tz t 23 59 59 999) 23 59 59 999 = setHours tz t 23 59 59 999"
  using setHours_eod_same_day [of tz t] by (simp add: setHours_def)

lemma setHours_eod_utc_midnight:
  "t mod msPerDay = 0 \<Longrightarrow> setHours 0 t 23 59 59 999 = t + 86399999"
  by (simp add: date_defs minus_mod_eq_div_mult [symmetric])

lemma setHours_eod_west:
  assumes "t mod msPerDay = 0" "- 1440 < tz" "tz < 0"
  shows "setHours tz t 23 59 59 999 = t - tz * 60000 - 1"
proof -
  have t: "t = 86400000 * (t div 86400000)"
    using assms(1) by (simp add: msPerDay_def mod_eq_0_iff_dvd)
  have "t + tz * 60000 = 86400000 * (t div 86400000 - 1) + (86400000 + tz * 60000)"
    using t by (simp add: algebra_simps)
  moreover have "0 \<le> 86400000 + tz * 60000" "86400000 + tz * 60000 < 86400000"
    using assms(2,3) by simp_all
  ultimately have "(t + tz * 60000) div 86400000 = t div 86400000 - 1"
    by (rule int_div_pos_eq)
  then show ?thesis
    using t by (simp add: setHours_eod_eq algebra_simps)
qed

lemma setHours_eod_window:
  "t \<le> setHours tz e 23 59 59 999 \<longleftrightarrow> Day (LocalTime tz t) \<le> Day (LocalTime tz e)"
proof -
  have "Day (LocalTime tz t) \<le> Day (LocalTime tz e) \<longleftrightarrow>
      t + tz * 60000 < ((e + tz * 60000) div 86400000 + 1) * 86400000"
    by (simp add: date_defs div_le_iff_less_mult)
  also have "\<dots> \<longleftrightarrow> t \<le> setHours tz e 23 59 59 999"
    by (simp add: setHours_eod_eq algebra_simps) linarith
  finally show ?thesis ..
qed

section \<open>The report on each branch\<close>

abbreviation eod :: "runtime \<Rightarrow> millis \<Rightarrow> millis" where
  "eod rt e \<equiv> setHours (rt_tz rt) e 23 59 59 999"

lemma end_of_day_simps [simp]:
  "end_of_day rt None = None" "end_of_day rt (Some e) = Some (eod rt e)"
  by (simp_all add: end_of_day_def)

lemma weekly_report_route_invalid:
  "week_start = None \<or> week_end = None \<Longrightarrow>
   weekly_report_route rt sz d week_start week_end = Inl (Error 500 cast_message)"
  by (auto simp: weekly_report_route_def)

lemma weekly_report_route_valid:
  "weekly_report_route rt sz d (Some s) (Some e) =
     Inr \<lparr>rr_weekly_report = weekly_summary rt s (eod rt e) (fetch_week d s (eod rt e)),
          rr_files = report_files_of sz (fetch_week d s (eod rt e))
            (weekly_summary rt s (eod rt e) (fetch_week d s (eod rt e))),
          rr_message = ''Weekly report generated successfully''\<rparr>"
  by (simp add: weekly_report_route_def Let_def)

lemma weekly_report_route_cases:
  obtains (invalid) "week_start = None \<or> week_end = None"
      "weekly_report_route rt sz d week_start week_end = Inl (Error 500 cast_message)"
    | (valid) s e where "week_start = Some s" "week_end = Some e"
      "weekly_report_route rt sz d week_start week_end =
         Inr \<lparr>rr_weekly_report = weekly_summary rt s (eod rt e) (fetch_week d s (eod rt e)),
              rr_files = report_files_of sz (fetch_week d s (eod rt e))
                (weekly_summary rt s (eod rt e) (fetch_week d s (eod rt e))),
              rr_message = ''Weekly report generated successfully''\<rparr>"
  by (cases week_start; cases week_end)
    (simp_all add: weekly_report_route_invalid weekly_report_route_valid)

lemma fetch_week_simps [simp]:
  "wd_tasks (fetch_week d s e) = filter (\<lambda>t. in_window s e (t_created_at t)) (tasks d)"
  "wd_locations (fetch_week d s e) = filter (\<lambda>l. in_window s e (l_timestamp l)) (locations d)"
  "wd_logs (fetch_week d s e) = filter (\<lambda>g. in_window s e (g_timestamp g)) (logs d)"
  "wd_employees (fetch_week d s e) = filter e_isActive (employees d)"
  "wd_emergencies (fetch_week d s e) =
     filter (\<lambda>m. in_window s e (m_created_at m)) (emergencies d)"
  by (simp_all add: fetch_week_def)

lemma report_files_of_simps [simp]:
  "rf_tasks (report_files_of sz w r) = generateCsv (sz_task sz) (wd_tasks w) Tasks"
  "rf_locations (report_files_of sz w r) = generateCsv (sz_location sz) (wd_locations w) Locations"
  "rf_logs (report_files_of sz w r) = generateCsv (sz_log sz) (wd_logs w) Logs"
  "rf_employees (report_files_of sz w r) = generateCsv (sz_employee sz) (wd_employees w) Employees"
  "rf_emergencies (report_files_of sz w r) =
     generateCsv (sz_emergency sz) (wd_emergencies w) Emergencies"
  "rf_summary (report_files_of sz w r) = generateCsv (sz_summary sz) [r] WeeklySummary"
  by (simp_all add: report_files_of_def)

lemma weekly_summary_simps [simp]:
  "wr_week_start (weekly_summary rt s e w) = s"
  "wr_week_end (weekly_summary rt s e w) = e"
  "wr_total_employees (weekly_summary rt s e w) = length (wd_employees w)"
  "wr_total_tasks (weekly_summary rt s e w) = length (wd_tasks w)"
  "wr_completed_tasks (weekly_summary rt s e w) = length (filter completed (wd_tasks w))"
  "wr_total_locations (weekly_summary rt s e w) = length (wd_locations w)"
  "wr_total_logs (weekly_summary rt s e w) = length (wd_logs w)"
  "wr_emergencies (weekly_summary rt s e w) = length (wd_emergencies w)"
  "wr_total_mileage (weekly_summary rt s e w) = calculateTotalMileage (wd_locations w)"
  "wr_generated_at (weekly_summary rt s e w) = rt_now rt"
  "wr_week_number (weekly_summary rt s e w) = ''Week-'' @ rt_weekLabel rt s"
  by (simp_all add: weekly_summary_def completed_def [abs_def])

lemma filter_window_empty [simp]: "e < s \<Longrightarrow> filter (\<lambda>x. in_window s e (f x)) xs = []"
  by (induction xs) (simp_all add: in_window_def)

section \<open>The cleanup on each branch\<close>

definition doomed_tasks :: "millis \<Rightarrow> millis \<Rightarrow> db \<Rightarrow> task list" where
  "doomed_tasks s e d = filter (\<lambda>t. in_window s e (t_created_at t) \<and> completed t) (tasks d)"

definition doomed_locations :: "millis \<Rightarrow> millis \<Rightarrow> db \<Rightarrow> location list" where
  "doomed_locations s e d = filter (\<lambda>l. in_window s e (l_timestamp l)) (locations d)"

definition doomed_logs :: "millis \<Rightarrow> millis \<Rightarrow> db \<Rightarrow> log list" where
  "doomed_logs s e d = filter (\<lambda>g. in_window s e (g_timestamp g)) (logs d)"

definition cleaned :: "millis \<Rightarrow> millis \<Rightarrow> db \<Rightarrow> db" where
  "cleaned s e d =
     d\<lparr>tasks := filter (\<lambda>t. \<not> (in_window s e (t_created_at t) \<and> completed t)) (tasks d),
       locations := filter (\<lambda>l. \<not> in_window s e (l_timestamp l)) (locations d),
       logs := filter (\<lambda>g. \<not> in_window s e (g_timestamp g)) (logs d)\<rparr>"

lemmas doomed_defs = doomed_tasks_def doomed_locations_def doomed_logs_def

lemma purge_fst:
  "fst (purge_tasks s e d) =
     d\<lparr>tasks := filter (\<lambda>t. \<not> (in_window s e (t_created_at t) \<and> completed t)) (tasks d)\<rparr>"
  "fst (purge_locations s e d) =
     d\<lparr>locations := filter (\<lambda>l. \<not> in_window s e (l_timestamp l)) (locations d)\<rparr>"
  "fst (purge_logs s e d) = d\<lparr>logs := filter (\<lambda>g. \<not> in_window s e (g_timestamp g)) (logs d)\<rparr>"
  by (simp_all add: route_defs deleteMany_def)

lemma purge_snd:
  "snd (purge_tasks s e d) = length (doomed_tasks s e d)"
  "snd (purge_locations s e d) = length (doomed_locations s e d)"
  "snd (purge_logs s e d) = length (doomed_logs s e d)"
  by (simp_all add: route_defs deleteMany_def doomed_defs)

lemma cleanup_route_refused:
  "\<not> truthy b \<Longrightarrow>
   cleanup_route rt d ws we b = (Inl (Error 400 ''Backup confirmation required''), d)"
  by (simp add: cleanup_route_def)

lemma cleanup_route_invalid:
  "truthy b \<Longrightarrow> ws = None \<or> we = None \<Longrightarrow>
   cleanup_route rt d ws we b = (Inl (Error 500 cast_message), d)"
  by (auto simp: cleanup_route_def)

lemma cleanup_route_valid:
  "truthy b \<Longrightarrow>
   cleanup_route rt d (Some s) (Some e) b =
     (Inr \<lparr>cr_message = ''Weekly data cleanup completed'',
           cr_deleted = \<lparr>dc_tasks = length (doomed_tasks s (eod rt e) d),
             dc_locations = length (doomed_locations s (eod rt e) d),
             dc_logs = length (doomed_logs s (eod rt e) d)\<rparr>\<rparr>,
      cleaned s (eod rt e) d)"
  by (simp add: cleanup_route_def route_defs deleteMany_def doomed_defs cleaned_def)

lemma cleanup_route_db:
  "snd (cleanup_route rt d ws we b) =
     (case (truthy b, ws, we) of
        (True, Some s, Some e) \<Rightarrow> cleaned s (eod rt e) d
      | _ \<Rightarrow> d)"
  by (cases "truthy b"; cases ws; cases we)
    (simp_all add: cleanup_route_refused cleanup_route_invalid cleanup_route_valid)

lemma cleaned_simps [simp]:
  "tasks (cleaned s e d) =
     filter (\<lambda>t. \<not> (in_window s e (t_created_at t) \<and> completed t)) (tasks d)"
  "locations (cleaned s e d) = filter (\<lambda>l. \<not> in_window s e (l_timestamp l)) (locations d)"
  "logs (cleaned s e d) = filter (\<lambda>g. \<not> in_window s e (g_timestamp g)) (logs d)"
  "employees (cleaned s e d) = employees d"
  "emergencies (cleaned s e d) = emergencies d"
  "next_oid (cleaned s e d) = next_oid d"
  by (simp_all add: cleaned_def)

lemma cleaned_lengths:
  "length (doomed_tasks s e d) + length (tasks (cleaned s e d)) = length (tasks d)"
  "length (doomed_locations s e d) + length (locations (cleaned s e d)) = length (locations d)"
  "length (doomed_logs s e d) + length (logs (cleaned s e d)) = length (logs d)"
  unfolding doomed_defs cleaned_simps by (rule sum_length_filter_compl)+

lemma cleaned_idem: "cleaned s e (cleaned s e d) = cleaned s e d"
  by (simp add: cleaned_def filter_filter_conj)

lemma doomed_cleaned [simp]:
  "doomed_tasks s e (cleaned s e d) = []"
  "doomed_locations s e (cleaned s e d) = []"
  "doomed_logs s e (cleaned s e d) = []"
  by (simp_all add: doomed_defs filter_filter_conj)

lemma cleaned_empty_window: "e < s \<Longrightarrow> cleaned s e d = d"
  by (simp add: cleaned_def in_window_def)

section \<open>Orders and subsets of the three deletions\<close>

lemma run_purges_eq:
  "run_purges s e ps d =
     d\<lparr>tasks := (if PurgeTasks \<in> set ps then tasks (cleaned s e d) else tasks d),
       locations := (if PurgeLocations \<in> set ps then locations (cleaned s e d) else locations d),
       logs := (if PurgeLogs \<in> set ps then logs (cleaned s e d) else logs d)\<rparr>"
proof (induction ps arbitrary: d)
  case Nil
  show ?case by (simp add: run_purges_def)
next
  case (Cons p ps)
  have "run_purges s e (p # ps) d = run_purges s e ps (purge_step s e p d)"
    by (simp add: run_purges_def)
  then show ?case
    by (cases p) (simp_all add: Cons.IH purge_fst filter_filter_conj)
qed

lemma run_purges_all: "set ps = UNIV \<Longrightarrow> run_purges s e ps d = cleaned s e d"
  by (simp add: run_purges_eq cleaned_def)

lemma UNIV_purge: "UNIV = {PurgeTasks, PurgeLocations, PurgeLogs}"
  by (auto intro: purge.exhaust)

lemma removed_only_in_window_refl [simp]: "removed_only_in_window s e d d"
  by (simp add: removed_only_in_window_def)

lemma removed_only_in_window_run: "removed_only_in_window s e d (run_purges s e ps d)"
  by (simp add: removed_only_in_window_def run_purges_eq completed_def)

lemma removed_only_in_window_cleaned: "removed_only_in_window s e d (cleaned s e d)"
  by (simp add: removed_only_in_window_def completed_def)

section \<open>What is deleted was exported\<close>

lemma doomed_exported:
  "set (doomed_tasks s e d) \<subseteq> set (wd_tasks (fetch_week d s e))"
  "doomed_locations s e d = wd_locations (fetch_week d s e)"
  "doomed_logs s e d = wd_logs (fetch_week d s e)"
  by (auto simp: doomed_defs)

section \<open>A week of concrete documents\<close>

text \<open>
  The first week of 2024 in epoch milliseconds: \<open>jan1\<close> and \<open>jan7\<close> are the instants
  that \<open>new Date('2024-01-01')\<close> and \<open>new Date('2024-01-07')\<close> denote, and
  \<open>jan7_end\<close> is 23:59:59.999 UTC of the seventh.
\<close>

definition jan1 :: millis where "jan1 = 1704067200000"
definition jan7 :: millis where "jan7 = 1704585600000"
definition jan7_end :: millis where "jan7_end = 1704671999999"

lemmas week_defs = jan1_def jan7_def jan7_end_def in_window_def

definition a_log :: "millis \<Rightarrow> log" where
  "a_log t = \<lparr>g_id = 0, g_employee_id = None, g_employee_name = None,
     g_action_type = None, g_description = None, g_task_id = None, g_task_title = None,
     g_location = None, g_timestamp = t, g_ip_address = None, g_device_info = None\<rparr>"

definition an_emergency :: "millis \<Rightarrow> emergency" where
  "an_emergency t = \<lparr>m_id = 0, m_employee_id = None, m_employee_name = None,
     m_emergency_type = None, m_location = None, m_message = None, m_status = ''active'',
     m_responded_by = None, m_created_at = t\<rparr>"

definition week_db :: db where
  "week_db = empty_db\<lparr>employees := [an_employee 7 20],
     tasks := [a_task 7 ''completed'' (Some 2) (Some 3) (jan1 + 5),
               a_task 7 ''pending'' (Some 2) None (jan1 + 6),
               a_task 7 ''completed'' (Some 2) (Some 3) (jan7_end + 1)],
     locations := [fix_at 0 0 (jan1 + 7), fix_at 0 0 (jan7 + 64800000)],
     logs := [a_log (jan1 + 8)],
     emergencies := [an_emergency (jan1 + 9)]\<rparr>"

definition plain_serializer :: serializer where
  "plain_serializer = \<lparr>sz_task = (\<lambda>x f. ''x''), sz_location = (\<lambda>x f. ''x''),
     sz_log = (\<lambda>x f. ''x''), sz_employee = (\<lambda>x f. ''x''), sz_emergency = (\<lambda>x f. ''x''),
     sz_summary = (\<lambda>x f. ''x'')\<rparr>"

lemma a_log_simps [simp]: "g_timestamp (a_log t) = t"
  by (simp add: a_log_def)

lemma an_emergency_simps [simp]: "m_created_at (an_emergency t) = t"
  by (simp add: an_emergency_def)

lemma fix_at_simps [simp]:
  "l_timestamp (fix_at la lo t) = t" "l_employee_id (fix_at la lo t) = Some 1"
  by (simp_all add: fix_at_def)

lemma week_db_simps [simp]:
  "employees week_db = [an_employee 7 20]"
  "tasks week_db = [a_task 7 ''completed'' (Some 2) (Some 3) (jan1 + 5),
     a_task 7 ''pending'' (Some 2) None (jan1 + 6),
     a_task 7 ''completed'' (Some 2) (Some 3) (jan7_end + 1)]"
  "locations week_db = [fix_at 0 0 (jan1 + 7), fix_at 0 0 (jan7 + 64800000)]"
  "logs week_db = [a_log (jan1 + 8)]"
  "emergencies week_db = [an_emergency (jan1 + 9)]"
  by (simp_all add: week_db_def empty_db_def)

lemma plain_serializer_simps [simp]:
  "sz_task plain_serializer = (\<lambda>x f. ''x'')" "sz_location plain_serializer = (\<lambda>x f. ''x'')"
  "sz_log plain_serializer = (\<lambda>x f. ''x'')" "sz_employee plain_serializer = (\<lambda>x f. ''x'')"
  "sz_emergency plain_serializer = (\<lambda>x f. ''x'')" "sz_summary plain_serializer = (\<lambda>x f. ''x'')"
  by (simp_all add: plain_serializer_def)

lemma newline_not_in_x [simp]: "newline \<notin> set ''x''"
  by (simp add: newline_def)

lemma plain_serializer_plain:
  "plain_cells (sz_task plain_serializer) Tasks ts"
  "plain_cells (sz_location plain_serializer) Locations ls"
  "plain_cells (sz_log plain_serializer) Logs gs"
  "plain_cells (sz_employee plain_serializer) Employees es"
  "plain_cells (sz_emergency plain_serializer) Emergencies ms"
  "plain_cells (sz_summary plain_serializer) WeeklySummary rs"
  by (simp_all add: plain_cells_def newline_def)

lemma week_report:
  "weekly_report_route utc_runtime plain_serializer week_db (Some jan1) (Some jan7) = Inr r \<Longrightarrow>
   wr_total_tasks (rr_weekly_report r) = 2 \<and> wr_completed_tasks (rr_weekly_report r) = 1 \<and>
   wr_total_locations (rr_weekly_report r) = 2 \<and> wr_total_logs (rr_weekly_report r) = 1 \<and>
   wr_total_employees (rr_weekly_report r) = 1 \<and> wr_emergencies (rr_weekly_report r) = 1"
  by (auto simp: weekly_report_route_valid)
    (simp_all add: week_defs date_defs utc_runtime_def completed_def)

lemma eod_utc_jan7 [simp]: "eod utc_runtime jan7 = jan7_end"
  by (simp add: date_defs utc_runtime_def jan7_def jan7_end_def)

section \<open>Properties of the end of day\<close>

text \<open>
  Claim C15 (functional). The end bound that both routes compute admits a document exactly
  when the document's local calendar day is not after the local calendar day of
  \<open>week_end\<close>: the window runs to the end of that day, whatever the time of day in
  \<open>week_end\<close>.
\<close>

theorem end_of_day_window:
  "in_window s (setHours tz e 23 59 59 999) t \<longleftrightarrow>
     s \<le> t \<and> Day (LocalTime tz t) \<le> Day (LocalTime tz e)"
  by (simp add: in_window_def setHours_eod_window)

text \<open>
  Lemma (bounds). \<open>setHours(23, 59, 59, 999)\<close> never moves a date back and moves it
  forward by less than a day; the result reads 23:59:59.999 in local time; applying it
  twice is applying it once.
\<close>

theorem end_of_day_bounds:
  "t \<le> setHours tz t 23 59 59 999 \<and> setHours tz t 23 59 59 999 < t + msPerDay \<and>
   LocalTime tz (setHours tz t 23 59 59 999) mod msPerDay = MakeTime 23 59 59 999 \<and>
   setHours tz (setHours tz t 23 59 59 999) 23 59 59 999 = setHours tz t 23 59 59 999"
  using setHours_eod_lower setHours_eod_upper setHours_eod_local setHours_eod_idem
  by (simp add: MakeTime_def)

text \<open>
  Claim C17 (functional). On a server west of UTC a date-only \<open>week_end\<close> (midnight UTC)
  is an instant of the previous local day, so the end bound is the end of that previous
  day: one millisecond before the local midnight that follows, which is less than a full
  day after \<open>week_end\<close>. At offset zero the bound is 23:59:59.999 of the named day.
\<close>

theorem end_of_day_west_of_utc:
  assumes "t mod msPerDay = 0" "- 1440 < tz" "tz < 0"
  shows "setHours tz t 23 59 59 999 = t - tz * 60000 - 1 \<and>
    setHours tz t 23 59 59 999 < setHours 0 t 23 59 59 999"
proof -
  have "- (tz * 60000) < 86400000"
    using assms(2) by simp
  with assms show ?thesis
    by (simp add: setHours_eod_west setHours_eod_utc_midnight)
qed

theorem end_of_day_west_of_utc_witness:
  "jan7 mod msPerDay = 0 \<and> setHours (- 300) jan7 23 59 59 999 = 1704603599999 \<and>
   setHours 0 jan7 23 59 59 999 = jan7_end \<and>
   setHours (- 300) jan7 23 59 59 999 < setHours 0 jan7 23 59 59 999"
  using end_of_day_west_of_utc [of jan7 "- 300"]
  by (simp add: jan7_def jan7_end_def msPerDay_def setHours_eod_eq)

section \<open>Properties of the weekly report\<close>

text \<open>
  Claim C24 (functional). For every collection the number of records the client reads off
  an exported file (its lines less the header) is the number the summary of the same
  response states, provided no cell holds a line feed; the summary file has one record.
\<close>

theorem weekly_report_files_match_summary:
  assumes "weekly_report_route rt sz d week_start week_end = Inr r"
    and "plain_cells (sz_task sz) Tasks (tasks d)"
    and "plain_cells (sz_location sz) Locations (locations d)"
    and "plain_cells (sz_log sz) Logs (logs d)"
    and "plain_cells (sz_employee sz) Employees (employees d)"
    and "plain_cells (sz_emergency sz) Emergencies (emergencies d)"
    and "plain_cells (sz_summary sz) WeeklySummary [rr_weekly_report r]"
  shows "record_count (rf_tasks (rr_files r)) = int (wr_total_tasks (rr_weekly_report r)) \<and>
    record_count (rf_locations (rr_files r)) = int (wr_total_locations (rr_weekly_report r)) \<and>
    record_count (rf_logs (rr_files r)) = int (wr_total_logs (rr_weekly_report r)) \<and>
    record_count (rf_employees (rr_files r)) = int (wr_total_employees (rr_weekly_report r)) \<and>
    record_count (rf_emergencies (rr_files r)) = int (wr_emergencies (rr_weekly_report r)) \<and>
    record_count (rf_summary (rr_files r)) = 1"
proof (cases rule: weekly_report_route_cases [of week_start week_end rt sz d])
  case invalid
  with assms(1) show ?thesis by simp
next
  case (valid s e)
  with assms(1) have r: "r = \<lparr>rr_weekly_report = weekly_summary rt s (eod rt e) (fetch_week d s (eod rt e)),
      rr_files = report_files_of sz (fetch_week d s (eod rt e))
        (weekly_summary rt s (eod rt e) (fetch_week d s (eod rt e))),
      rr_message = ''Weekly report generated successfully''\<rparr>"
    by simp
  show ?thesis
    using assms(2-7) unfolding r by (simp add: record_count_plain plain_cells_filter)
qed

theorem weekly_report_files_match_summary_witness:
  "\<exists>r. weekly_report_route utc_runtime plain_serializer week_db (Some jan1) (Some jan7) = Inr r \<and>
     record_count (rf_tasks (rr_files r)) = 2 \<and> wr_total_tasks (rr_weekly_report r) = 2 \<and>
     wr_completed_tasks (rr_weekly_report r) = 1 \<and>
     record_count (rf_locations (rr_files r)) = 2 \<and>
     record_count (rf_logs (rr_files r)) = 1 \<and>
     record_count (rf_employees (rr_files r)) = 1 \<and>
     record_count (rf_emergencies (rr_files r)) = 1 \<and>
     record_count (rf_summary (rr_files r)) = 1"
proof -
  obtain r where
    r: "weekly_report_route utc_runtime plain_serializer week_db (Some jan1) (Some jan7) = Inr r"
    by (simp add: weekly_report_route_valid)
  show ?thesis
    using r week_report [OF r] weekly_report_files_match_summary [OF r plain_serializer_plain]
    by (intro exI [of _ r]) simp
qed

text \<open>
  Lemma (error). A \<open>week_start\<close> or \<open>week_end\<close> that does not parse makes the report
  answer status 500; no file is produced.
\<close>

theorem weekly_report_invalid_date:
  "week_start = None \<or> week_end = None \<Longrightarrow>
   status_of (weekly_report_route rt sz d week_start week_end) = 500"
  by (simp add: weekly_report_route_invalid)

theorem weekly_report_invalid_date_witness:
  "status_of (weekly_report_route utc_runtime plain_serializer week_db None (Some jan7)) = 500"
  using weekly_report_invalid_date [of None "Some jan7" utc_runtime plain_serializer week_db]
  by simp

text \<open>
  Lemma (functional). When the end of the \<open>week_end\<close> day lies before \<open>week_start\<close>
  the report still succeeds: every count of the window is zero, the mileage is
  \<open>"0.00"\<close>, the window's files are their header lines, and the active employees are
  listed all the same, since they are not filtered by time.
\<close>

theorem weekly_report_empty_window:
  assumes "eod rt e < s"
  shows "\<exists>r. weekly_report_route rt sz d (Some s) (Some e) = Inr r \<and>
    wr_total_tasks (rr_weekly_report r) = 0 \<and> wr_completed_tasks (rr_weekly_report r) = 0 \<and>
    wr_total_locations (rr_weekly_report r) = 0 \<and> wr_total_logs (rr_weekly_report r) = 0 \<and>
    wr_emergencies (rr_weekly_report r) = 0 \<and>
    wr_total_mileage (rr_weekly_report r) = ''0.00'' \<and>
    wr_total_employees (rr_weekly_report r) = length (filter e_isActive (employees d)) \<and>
    rf_tasks (rr_files r) = header_line (csv_fields Tasks) \<and>
    rf_locations (rr_files r) = header_line (csv_fields Locations) \<and>
    rf_logs (rr_files r) = header_line (csv_fields Logs)"
  using assms
  by (simp add: weekly_report_route_valid generateCsv_empty calculateTotalMileage_def
      sum_distances_pair_sum toFixed_js_def)

theorem weekly_report_empty_window_witness:
  "eod utc_runtime jan1 < jan7 \<and>
   (\<exists>r. weekly_report_route utc_runtime plain_serializer week_db (Some jan7) (Some jan1) = Inr r \<and>
     wr_total_tasks (rr_weekly_report r) = 0 \<and> wr_total_employees (rr_weekly_report r) = 1 \<and>
     wr_total_mileage (rr_weekly_report r) = ''0.00'')"
proof -
  have h: "eod utc_runtime jan1 < jan7"
    by (simp add: date_defs utc_runtime_def week_defs)
  show ?thesis
    using h weekly_report_empty_window [OF h, of plain_serializer week_db] by auto
qed

section \<open>Properties of the cleanup\<close>

text \<open>
  Claim C1 (safety). Without a truthy \<open>backup_confirmed\<close> the cleanup answers status
  400 with \<open>Backup confirmation required\<close> and the store is exactly what it was: the
  guard is evaluated before any date is read and before any deletion is issued.
\<close>

theorem cleanup_requires_confirmation:
  "\<not> truthy backup_confirmed \<Longrightarrow>
   cleanup_route rt d week_start week_end backup_confirmed =
     (Inl (Error 400 ''Backup confirmation required''), d)"
  by (fact cleanup_route_refused)

theorem cleanup_requires_confirmation_witness:
  "cleanup_route utc_runtime week_db (Some jan1) (Some jan7) JUndefined =
     (Inl (Error 400 ''Backup confirmation required''), week_db) \<and>
   cleanup_route utc_runtime week_db (Some jan1) (Some jan7) (JBool False) =
     (Inl (Error 400 ''Backup confirmation required''), week_db)"
  using cleanup_requires_confirmation [of JUndefined utc_runtime week_db "Some jan1" "Some jan7"]
    cleanup_requires_confirmation [of "JBool False" utc_runtime week_db "Some jan1" "Some jan7"]
  by simp

text \<open>
  Claim C4 (functional). A confirmed cleanup with dates that parse succeeds, and its effect
  is sound and complete for the window from \<open>week_start\<close> to the end of the
  \<open>week_end\<close> day: only finished tasks, positions and log entries of the window leave
  the store, employees and emergencies are untouched, none of the three kinds is left in
  the window, and each reported count is the number of documents that left.
\<close>

theorem cleanup_sound_and_complete:
  assumes "truthy b" and "cleanup_route rt d (Some s) (Some e) b = (res, d')"
  shows "removed_only_in_window s (eod rt e) d d' \<and>
    doomed_tasks s (eod rt e) d' = [] \<and> doomed_locations s (eod rt e) d' = [] \<and>
    doomed_logs s (eod rt e) d' = [] \<and>
    (\<exists>c. res = Inr c \<and>
      dc_tasks (cr_deleted c) + length (tasks d') = length (tasks d) \<and>
      dc_locations (cr_deleted c) + length (locations d') = length (locations d) \<and>
      dc_logs (cr_deleted c) + length (logs d') = length (logs d))"
proof -
  have d': "d' = cleaned s (eod rt e) d"
    and res: "res = Inr \<lparr>cr_message = ''Weekly data cleanup completed'',
      cr_deleted = \<lparr>dc_tasks = length (doomed_tasks s (eod rt e) d),
        dc_locations = length (doomed_locations s (eod rt e) d),
        dc_logs = length (doomed_logs s (eod rt e) d)\<rparr>\<rparr>"
    using assms by (simp_all add: cleanup_route_valid)
  show ?thesis
    unfolding d' res using cleaned_lengths [of s "eod rt e" d]
    by (simp add: removed_only_in_window_cleaned)
qed

theorem cleanup_sound_and_complete_witness:
  "\<exists>c d'. cleanup_route utc_runtime week_db (Some jan1) (Some jan7) (JBool True) = (Inr c, d') \<and>
     removed_only_in_window jan1 jan7_end week_db d' \<and>
     dc_tasks (cr_deleted c) = 1 \<and> dc_locations (cr_deleted c) = 2 \<and>
     dc_logs (cr_deleted c) = 1 \<and> length (tasks d') = 2 \<and> locations d' = [] \<and> logs d' = []"
proof -
  have r: "cleanup_route utc_runtime week_db (Some jan1) (Some jan7) (JBool True) =
    (Inr \<lparr>cr_message = ''Weekly data cleanup completed'',
        cr_deleted = \<lparr>dc_tasks = 1, dc_locations = 2, dc_logs = 1\<rparr>\<rparr>,
     cleaned jan1 jan7_end week_db)"
    by (simp add: cleanup_route_valid doomed_defs) (simp add: week_defs completed_def)
  have "length (tasks (cleaned jan1 jan7_end week_db)) = 2"
    "locations (cleaned jan1 jan7_end week_db) = []" "logs (cleaned jan1 jan7_end week_db) = []"
    by (simp_all add: week_defs completed_def)
  then show ?thesis
    using cleanup_sound_and_complete [OF _ r] r by simp
qed

lemma cleanup_exported_rows:
  assumes tz: "rt_tz rt' = rt_tz rt"
    and rep: "weekly_report_route rt sz d week_start week_end = Inr r"
    and cl: "snd (cleanup_route rt' d week_start week_end b) = d'"
    and plain: "plain_cells (sz_task sz) Tasks (tasks d)"
      "plain_cells (sz_location sz) Locations (locations d)"
      "plain_cells (sz_log sz) Logs (logs d)"
  shows "(\<forall>t \<in># mset (tasks d) - mset (tasks d'). has_row (rf_tasks (rr_files r)) (sz_task sz) Tasks t) \<and>
    (\<forall>l \<in># mset (locations d) - mset (locations d').
       has_row (rf_locations (rr_files r)) (sz_location sz) Locations l) \<and>
    (\<forall>g \<in># mset (logs d) - mset (logs d'). has_row (rf_logs (rr_files r)) (sz_log sz) Logs g)"
proof (cases rule: weekly_report_route_cases [of week_start week_end rt sz d])
  case invalid
  with rep show ?thesis by simp
next
  case (valid s e)
  from cl have d': "d' = d \<or> d' = cleaned s (eod rt e) d"
    by (auto simp: cleanup_route_db valid(1,2) tz split: bool.splits)
  from rep valid(3) have files: "rr_files r = report_files_of sz (fetch_week d s (eod rt e))
      (weekly_summary rt s (eod rt e) (fetch_week d s (eod rt e)))"
    by auto
  from d' show ?thesis
    using plain by (auto simp: files intro!: generateCsv_has_row plain_cells_filter)
qed

text \<open>
  Claim C2 (safety). Whatever a cleanup removes from the store, the weekly report of the
  same store, dates and server had exported: every task, position and log entry that is
  gone after the cleanup has its row in the corresponding file of the report (for a
  store whose cells hold no line feed).
\<close>

theorem cleanup_deletes_only_exported:
  assumes rep: "weekly_report_route rt sz d week_start week_end = Inr r"
    and cl: "cleanup_route rt d week_start week_end b = (res, d')"
    and plain: "plain_cells (sz_task sz) Tasks (tasks d)"
      "plain_cells (sz_location sz) Locations (locations d)"
      "plain_cells (sz_log sz) Logs (logs d)"
  shows "(\<forall>t \<in># mset (tasks d) - mset (tasks d'). has_row (rf_tasks (rr_files r)) (sz_task sz) Tasks t) \<and>
    (\<forall>l \<in># mset (locations d) - mset (locations d').
       has_row (rf_locations (rr_files r)) (sz_location sz) Locations l) \<and>
    (\<forall>g \<in># mset (logs d) - mset (logs d'). has_row (rf_logs (rr_files r)) (sz_log sz) Logs g)"
proof -
  from cl have "snd (cleanup_route rt d week_start week_end b) = d'"
    by simp
  from cleanup_exported_rows [OF refl rep this plain] show ?thesis .
qed

theorem cleanup_deletes_only_exported_witness:
  "\<exists>r res d'.
     weekly_report_route utc_runtime plain_serializer week_db (Some jan1) (Some jan7) = Inr r \<and>
     cleanup_route utc_runtime week_db (Some jan1) (Some jan7) (JBool True) = (res, d') \<and>
     locations d' = [] \<and>
     has_row (rf_locations (rr_files r)) (sz_location plain_serializer) Locations
       (fix_at 0 0 (jan1 + 7))"
proof -
  obtain r where
    r: "weekly_report_route utc_runtime plain_serializer week_db (Some jan1) (Some jan7) = Inr r"
    by (simp add: weekly_report_route_valid)
  obtain res d' where
    c: "cleanup_route utc_runtime week_db (Some jan1) (Some jan7) (JBool True) = (res, d')"
    by force
  then have d': "locations d' = []"
    by (auto simp: cleanup_route_valid) (simp_all add: week_defs)
  then show ?thesis
    using r c cleanup_deletes_only_exported [OF r c plain_serializer_plain(1-3)] by auto
qed

text \<open>
  Lemma (functional). A cleanup repeated with the same arguments changes nothing more:
  the store after the second run is the store after the first, and on the success
  branch the second run reports zero deletions of every kind.
\<close>

theorem cleanup_idempotent:
  "snd (cleanup_route rt (snd (cleanup_route rt d ws we b)) ws we b) =
     snd (cleanup_route rt d ws we b) \<and>
   fst (cleanup_route rt (cleaned s (eod rt e) d) (Some s) (Some e) (JBool True)) =
     Inr \<lparr>cr_message = ''Weekly data cleanup completed'',
          cr_deleted = \<lparr>dc_tasks = 0, dc_locations = 0, dc_logs = 0\<rparr>\<rparr>"
  by (cases "truthy b"; cases ws; cases we)
    (simp_all add: cleanup_route_db cleanup_route_valid cleaned_idem)

text \<open>
  Claim C13 (equivalence). The three deletions act on different collections, so the order
  in which the storage layer completes them does not matter: every sequence that runs
  each of them at least once ends in the store that the handler's success branch
  returns.
\<close>

theorem cleanup_any_order:
  assumes "truthy b" and "set ps = {PurgeTasks, PurgeLocations, PurgeLogs}"
  shows "run_purges s (eod rt e) ps d = snd (cleanup_route rt d (Some s) (Some e) b)"
  using assms by (simp add: cleanup_route_valid run_purges_all UNIV_purge)

theorem cleanup_any_order_witness:
  "run_purges jan1 (eod utc_runtime jan7) [PurgeLogs, PurgeTasks, PurgeLocations] week_db =
     snd (cleanup_route utc_runtime week_db (Some jan1) (Some jan7) (JBool True)) \<and>
   run_purges jan1 (eod utc_runtime jan7) [PurgeLocations, PurgeLogs, PurgeTasks] week_db =
     snd (cleanup_route utc_runtime week_db (Some jan1) (Some jan7) (JBool True))"
proof -
  have a: "set [PurgeLogs, PurgeTasks, PurgeLocations] = {PurgeTasks, PurgeLocations, PurgeLogs}"
    and b: "set [PurgeLocations, PurgeLogs, PurgeTasks] = {PurgeTasks, PurgeLocations, PurgeLogs}"
    by auto
  show ?thesis
    using cleanup_any_order [OF _ a, where b = "JBool True" and s = jan1 and rt = utc_runtime
        and e = jan7 and d = week_db]
      cleanup_any_order [OF _ b, where b = "JBool True" and s = jan1 and rt = utc_runtime
        and e = jan7 and d = week_db]
    by simp
qed

text \<open>
  Claim C8 (safety). If only some of the three deletions complete, in any order, the store
  is still one that a cleanup may produce: nothing but finished tasks, positions and log
  entries of the window is missing, and employees and emergencies are as they were.
\<close>

theorem cleanup_partial_is_safe:
  "removed_only_in_window s e d (run_purges s e ps d)"
  by (fact removed_only_in_window_run)

text \<open>
  Claim C16 (safety). The guard tests truthiness, not the boolean \<open>true\<close>: a request whose
  \<open>backup_confirmed\<close> is a non-empty string, the string \<open>"false"\<close> included, or a
  non-zero number is treated exactly as a confirmed one.
\<close>

theorem cleanup_accepts_truthy_text:
  "text \<noteq> [] \<Longrightarrow>
   cleanup_route rt d ws we (JStr text) = cleanup_route rt d ws we (JBool True)"
  by (simp add: cleanup_route_def)

theorem cleanup_accepts_truthy_text_witness:
  "cleanup_route utc_runtime week_db (Some jan1) (Some jan7) (JStr ''false'') =
     cleanup_route utc_runtime week_db (Some jan1) (Some jan7) (JBool True) \<and>
   locations (snd (cleanup_route utc_runtime week_db (Some jan1) (Some jan7) (JStr ''false''))) = []"
  using cleanup_accepts_truthy_text [of "''false''" utc_runtime week_db "Some jan1" "Some jan7"]
  by (simp add: cleanup_route_valid) (simp add: week_defs)

end
