(* ===== verification/Routes.thy ===== *)
theory Routes
  imports Report "HOL-Library.Product_Lexorder" "HOL-Library.Option_ord"
begin

text \<open>
  The routes of \<open>src/server.js\<close> that create, read and update single documents:
  registration and login, tasks, locations, emergencies, task progress and the paged log.

  \<^item> \<open>body\<close> is \<open>req.body\<close>: one record holding every field some route or the
    logging middleware reads, each absent or present with the type the schemas cast it
    to. A route reads the fields of its schema and ignores the others, as Mongoose does.
  \<^item> \<open>new_employee\<close>, \<open>new_task\<close>, \<open>new_location\<close> and \<open>new_emergency\<close> are
    \<open>Model.create(req.body)\<close>: the fields of the body, the schema defaults for the
    absent ones, the next free id.
  \<^item> Each handler is a function from the store (and the body or the URL parameter) to a
    response and the store after it; a response is an error or a \<open>payload\<close>.
  \<^item> \<open>find\<close> without a sort returns the documents in insertion order and the sorts
    are stable; MongoDB promises neither, and the lemmas that depend on it say so.
\<close>

section \<open>Request bodies\<close>

record body =
  b_employee_id :: "oid option"
  b_employee_name :: "string option"
  b_name :: "string option"
  b_email :: "string option"
  b_password :: "string option"
  b_role :: "string option"
  b_hourlyRate :: "real option"
  b_isActive :: "bool option"
  b_createdAt :: "millis option"
  b_title :: "string option"
  b_description :: "string option"
  b_customer_name :: "string option"
  b_customer_phone :: "string option"
  b_address :: "string option"
  b_priority :: "real option"
  b_due_date :: "millis option"
  b_status :: "string option"
  b_estimated_hours :: "real option"
  b_actual_hours :: "real option"
  b_created_at :: "millis option"
  b_latitude :: "real option"
  b_longitude :: "real option"
  b_accuracy :: "real option"
  b_battery_level :: "real option"
  b_timestamp :: "millis option"
  b_emergency_type :: "string option"
  b_location :: "position option"
  b_message :: "string option"
  b_responded_by :: "oid option"
  b_task_id :: "oid option"
  b_action :: "string option"
  b_week_start :: jsdate
  b_week_end :: jsdate
  b_backup_confirmed :: jsval

definition empty_body :: body where
  "empty_body = \<lparr>b_employee_id = None, b_employee_name = None, b_name = None, b_email = None,
     b_password = None, b_role = None, b_hourlyRate = None, b_isActive = None,
     b_createdAt = None, b_title = None, b_description = None, b_customer_name = None,
     b_customer_phone = None, b_address = None, b_priority = None, b_due_date = None,
     b_status = None, b_estimated_hours = None, b_actual_hours = None, b_created_at = None,
     b_latitude = None, b_longitude = None, b_accuracy = None, b_battery_level = None,
     b_timestamp = None, b_emergency_type = None, b_location = None, b_message = None,
     b_responded_by = None, b_task_id = None, b_action = None, b_week_start = None,
     b_week_end = None, b_backup_confirmed = JUndefined\<rparr>"

text \<open>
  An optional string inside a template literal: an absent one prints as \<open>undefined\<close>.
\<close>

definition show_opt :: "string option \<Rightarrow> string" where
  "show_opt s = (case s of None \<Rightarrow> ''undefined'' | Some t \<Rightarrow> t)"

text \<open>
  A field with a schema default, and a query parameter with a default in the
  destructuring: the default stands in when the value is absent.
\<close>

definition the_default :: "'a \<Rightarrow> 'a option \<Rightarrow> 'a" where
  "the_default d x = (case x of None \<Rightarrow> d | Some v \<Rightarrow> v)"

lemma the_default_simps [simp]: "the_default d None = d" "the_default d (Some v) = v"
  by (simp_all add: the_default_def)

section \<open>Responses\<close>

record contact =
  c_name :: string
  c_phone :: string
  c_role :: string

record log_page =
  lp_logs :: "log list"
  lp_totalPages :: "nat option"
  lp_currentPage :: nat
  lp_total :: nat

record scored_task =
  st_task :: task
  st_days_until_due :: "real option"
  st_ai_score :: real

datatype payload =
    Created oid string
  | EmployeeDoc employee
  | TaskList "task list"
  | ScoredTasks "scored_task list"
  | LocationList "location list"
  | EmergencySent emergency
  | Contacts "contact list"
  | MileageInfo mileage_response
  | TimesheetInfo timesheet_response
  | SavingsInfo time_savings_response
  | ReportInfo report_response
  | CleanupInfo cleanup_response
  | Message string
  | LogPage log_page

definition answer :: "('a \<Rightarrow> payload) \<Rightarrow> 'a result \<Rightarrow> payload result" where
  "answer f r = map_sum id f r"

lemma answer_simps [simp]: "answer f (Inl e) = Inl e" "answer f (Inr x) = Inr (f x)"
  by (simp_all add: answer_def)

lemma answer_eq_Inr: "answer f x = Inr p \<longleftrightarrow> (\<exists>y. x = Inr y \<and> p = f y)"
  by (cases x) auto

section \<open>Creating documents\<close>

definition new_employee :: "runtime \<Rightarrow> oid \<Rightarrow> body \<Rightarrow> employee" where
  "new_employee rt i b =
     \<lparr>e_id = i, e_name = b_name b, e_email = b_email b, e_password = b_password b,
      e_role = the_default ''employee'' (b_role b),
      e_hourlyRate = the_default 25 (b_hourlyRate b),
      e_isActive = the_default True (b_isActive b),
      e_createdAt = the_default (rt_now rt) (b_createdAt b)\<rparr>"

definition new_task :: "runtime \<Rightarrow> oid \<Rightarrow> body \<Rightarrow> task" where
  "new_task rt i b =
     \<lparr>t_id = i, t_employee_id = b_employee_id b, t_title = b_title b,
      t_description = b_description b, t_customer_name = b_customer_name b,
      t_customer_phone = b_customer_phone b, t_address = b_address b,
      t_priority = the_default 1 (b_priority b), t_due_date = b_due_date b,
      t_status = the_default ''pending'' (b_status b),
      t_estimated_hours = b_estimated_hours b, t_actual_hours = b_actual_hours b,
      t_created_at = the_default (rt_now rt) (b_created_at b)\<rparr>"

definition new_location :: "runtime \<Rightarrow> oid \<Rightarrow> body \<Rightarrow> location" where
  "new_location rt i b =
     \<lparr>l_id = i, l_employee_id = b_employee_id b, l_latitude = b_latitude b,
      l_longitude = b_longitude b, l_accuracy = b_accuracy b,
      l_battery_level = b_battery_level b,
      l_timestamp = the_default (rt_now rt) (b_timestamp b)\<rparr>"

definition new_emergency :: "runtime \<Rightarrow> oid \<Rightarrow> body \<Rightarrow> emergency" where
  "new_emergency rt i b =
     \<lparr>m_id = i, m_employee_id = b_employee_id b, m_employee_name = b_employee_name b,
      m_emergency_type = b_emergency_type b, m_location = b_location b,
      m_message = b_message b, m_status = the_default ''active'' (b_status b),
      m_responded_by = b_responded_by b,
      m_created_at = the_default (rt_now rt) (b_created_at b)\<rparr>"

definition emergency_log :: "runtime \<Rightarrow> oid \<Rightarrow> body \<Rightarrow> log" where
  "emergency_log rt i b =
     \<lparr>g_id = i, g_employee_id = b_employee_id b, g_employee_name = b_employee_name b,
      g_action_type = Some ''emergency_triggered'',
      g_description =
        Some (''EMERGENCY: '' @ show_opt (b_emergency_type b) @ '' - '' @ show_opt (b_message b)),
      g_task_id = None, g_task_title = None, g_location = b_location b,
      g_timestamp = rt_now rt, g_ip_address = None, g_device_info = None\<rparr>"

section \<open>Employee routes\<close>

definition duplicate_message :: string where
  "duplicate_message = ''E11000 duplicate key error''"

definition register_route :: "runtime \<Rightarrow> db \<Rightarrow> body \<Rightarrow> payload result \<times> db" where
  "register_route rt d b =
     (if list_ex (\<lambda>e. e_email e = b_email b) (employees d)
      then (Inl (Error 400 duplicate_message), d)
      else let employee = new_employee rt (next_oid d) b
           in (Inr (Created (e_id employee) ''Employee registered successfully''),
               d\<lparr>employees := employees d @ [employee], next_oid := Suc (next_oid d)\<rparr>))"

definition login_route :: "db \<Rightarrow> body \<Rightarrow> payload result" where
  "login_route d b =
     (case find (\<lambda>e. e_email e = b_email b \<and> e_password e = b_password b \<and> e_isActive e)
             (employees d) of
        None \<Rightarrow> Inl (Error 401 ''Invalid credentials or inactive account'')
      | Some employee \<Rightarrow> Inr (EmployeeDoc employee))"

section \<open>Task routes\<close>

definition create_task_route :: "runtime \<Rightarrow> db \<Rightarrow> body \<Rightarrow> payload result \<times> db" where
  "create_task_route rt d b =
     (let task = new_task rt (next_oid d) b
      in (Inr (Created (t_id task) ''Task created successfully''),
          d\<lparr>tasks := tasks d @ [task], next_oid := Suc (next_oid d)\<rparr>))"

definition tasks_route :: "db \<Rightarrow> oid \<Rightarrow> payload result" where
  "tasks_route d emp =
     Inr (TaskList (sort_key (\<lambda>t. (- t_priority t, t_due_date t))
       (filter (\<lambda>t. t_employee_id t = Some emp) (tasks d))))"

section \<open>Location routes\<close>

definition location_route :: "runtime \<Rightarrow> db \<Rightarrow> body \<Rightarrow> payload result \<times> db" where
  "location_route rt d b =
     (let location = new_location rt (next_oid d) b
      in (Inr (Created (l_id location) ''Location logged successfully''),
          d\<lparr>locations := locations d @ [location], next_oid := Suc (next_oid d)\<rparr>))"

definition locations_route :: "db \<Rightarrow> oid \<Rightarrow> payload result" where
  "locations_route d emp =
     Inr (LocationList (take 50 (sort_key (\<lambda>l. - l_timestamp l)
       (filter (\<lambda>l. l_employee_id l = Some emp) (locations d)))))"

section \<open>Emergency routes\<close>

definition emergency_route :: "runtime \<Rightarrow> db \<Rightarrow> body \<Rightarrow> payload result \<times> db" where
  "emergency_route rt d b =
     (let emergency = new_emergency rt (next_oid d) b;
          d1 = d\<lparr>emergencies := emergencies d @ [emergency], next_oid := Suc (next_oid d)\<rparr>;
          d2 = d1\<lparr>logs := logs d1 @ [emergency_log rt (next_oid d1) b],
                  next_oid := Suc (next_oid d1)\<rparr>
      in (Inr (EmergencySent emergency), d2))"

definition emergency_contacts :: "payload result" where
  "emergency_contacts = Inr (Contacts
     [\<lparr>c_name = ''Safety Manager'', c_phone = ''+1234567890'',
        c_role = ''Primary Safety Contact''\<rparr>,
      \<lparr>c_name = ''Medical Emergency'', c_phone = ''911'', c_role = ''Emergency Services''\<rparr>,
      \<lparr>c_name = ''Team Lead'', c_phone = ''+1234567891'', c_role = ''Immediate Supervisor''\<rparr>,
      \<lparr>c_name = ''HR Department'', c_phone = ''+1234567892'', c_role = ''Human Resources''\<rparr>])"

section \<open>Progress tracking\<close>

fun update_first :: "('a \<Rightarrow> bool) \<Rightarrow> ('a \<Rightarrow> 'a) \<Rightarrow> 'a list \<Rightarrow> 'a list" where
  "update_first P f [] = []"
| "update_first P f (x # xs) = (if P x then f x # xs else x # update_first P f xs)"

definition progress_update :: "body \<Rightarrow> task \<Rightarrow> task" where
  "progress_update b t =
     t\<lparr>t_status := the_default (t_status t) (b_action b),
       t_actual_hours := Some (num_or (b_actual_hours b) 0)\<rparr>"

definition task_progress_route :: "db \<Rightarrow> body \<Rightarrow> payload result \<times> db" where
  "task_progress_route d b =
     (let d' = (case b_task_id b of
                  None \<Rightarrow> d
                | Some task_id \<Rightarrow>
                    d\<lparr>tasks := update_first (\<lambda>t. t_id t = task_id) (progress_update b) (tasks d)\<rparr>)
      in (Inr (Message ''Task progress updated successfully''), d'))"

section \<open>The paged log\<close>

record log_query =
  lq_page :: "nat option"
  lq_limit :: "nat option"
  lq_employee_id :: "oid option"
  lq_action_type :: "string option"

definition log_filter :: "log_query \<Rightarrow> log \<Rightarrow> bool" where
  "log_filter q g \<longleftrightarrow>
     (case lq_employee_id q of None \<Rightarrow> True | Some i \<Rightarrow> g_employee_id g = Some i) \<and>
     (case lq_action_type q of
        None \<Rightarrow> True
      | Some a \<Rightarrow> a = [] \<or> g_action_type g = Some a)"

definition ceil_div :: "nat \<Rightarrow> nat \<Rightarrow> nat option" where
  "ceil_div n k = (if k = 0 then None else Some ((n + k - 1) div k))"

definition logs_route :: "db \<Rightarrow> log_query \<Rightarrow> payload result" where
  "logs_route d q =
     (let page = the_default 1 (lq_page q);
          limit = the_default 100 (lq_limit q);
          matching = sort_key (\<lambda>g. - g_timestamp g) (filter (log_filter q) (logs d));
          total = length matching
      in if page = 0 \<and> 0 < limit then Inl (Error 400 ''Skip value must be non-negative'')
         else let skipped = drop ((page - 1) * limit) matching;
                  logs = (if limit = 0 then skipped else take limit skipped)
              in Inr (LogPage \<lparr>lp_logs = logs, lp_totalPages = ceil_div total limit,
                                lp_currentPage = page, lp_total = total\<rparr>))"

declare register_route_def [route_defs] login_route_def [route_defs]
  create_task_route_def [route_defs] tasks_route_def [route_defs]
  location_route_def [route_defs] locations_route_def [route_defs]
  emergency_route_def [route_defs] task_progress_route_def [route_defs]

section \<open>Facts about the employee routes\<close>

definition email_taken :: "db \<Rightarrow> string option \<Rightarrow> bool" where
  "email_taken d email \<longleftrightarrow> email \<in> e_email ` set (employees d)"

definition unique_emails :: "db \<Rightarrow> bool" where
  "unique_emails d \<longleftrightarrow> distinct (map e_email (employees d))"

definition credentials_match :: "body \<Rightarrow> employee \<Rightarrow> bool" where
  "credentials_match b e \<longleftrightarrow>
     e_email e = b_email b \<and> e_password e = b_password b \<and> e_isActive e"

lemma list_ex_email: "list_ex (\<lambda>e. e_email e = email) (employees d) \<longleftrightarrow> email_taken d email"
  by (auto simp: list_ex_iff email_taken_def)

lemma register_route_duplicate:
  "email_taken d (b_email b) \<Longrightarrow> register_route rt d b = (Inl (Error 400 duplicate_message), d)"
  by (simp add: register_route_def list_ex_email)

lemma register_route_new:
  "\<not> email_taken d (b_email b) \<Longrightarrow>
   register_route rt d b =
     (Inr (Created (next_oid d) ''Employee registered successfully''),
      d\<lparr>employees := employees d @ [new_employee rt (next_oid d) b],
        next_oid := Suc (next_oid d)\<rparr>)"
  by (simp add: register_route_def list_ex_email Let_def new_employee_def)

lemma new_employee_simps [simp]:
  "e_id (new_employee rt i b) = i" "e_name (new_employee rt i b) = b_name b"
  "e_email (new_employee rt i b) = b_email b" "e_password (new_employee rt i b) = b_password b"
  "e_role (new_employee rt i b) = the_default ''employee'' (b_role b)"
  "e_hourlyRate (new_employee rt i b) = the_default 25 (b_hourlyRate b)"
  "e_isActive (new_employee rt i b) = the_default True (b_isActive b)"
  "e_createdAt (new_employee rt i b) = the_default (rt_now rt) (b_createdAt b)"
  by (simp_all add: new_employee_def)

lemma register_keeps_unique_emails:
  "unique_emails d \<Longrightarrow> unique_emails (snd (register_route rt d b))"
  by (cases "email_taken d (b_email b)")
    (simp_all add: register_route_duplicate register_route_new unique_emails_def
      email_taken_def)

lemma find_SomeD: "find P xs = Some x \<Longrightarrow> P x \<and> x \<in> set xs"
  by (auto simp: find_Some_iff)

lemma login_route_alt:
  "login_route d b =
     (case find (credentials_match b) (employees d) of
        None \<Rightarrow> Inl (Error 401 ''Invalid credentials or inactive account'')
      | Some employee \<Rightarrow> Inr (EmployeeDoc employee))"
  by (simp add: login_route_def credentials_match_def [abs_def])

lemma login_route_Some:
  "login_route d b = Inr p \<longleftrightarrow>
     (\<exists>e. find (credentials_match b) (employees d) = Some e \<and> p = EmployeeDoc e)"
  by (auto simp: login_route_alt split: option.splits)

lemma login_route_refused:
  "login_route d b = Inl err \<longleftrightarrow>
     (\<forall>e\<in>set (employees d). \<not> credentials_match b e) \<and>
     err = Error 401 ''Invalid credentials or inactive account''"
  by (auto simp: login_route_alt find_None_iff split: option.splits dest: find_SomeD)

lemma login_route_ok_iff:
  "is_ok (login_route d b) \<longleftrightarrow> (\<exists>e\<in>set (employees d). credentials_match b e)"
proof (cases "find (credentials_match b) (employees d)")
  case None
  moreover from None have "\<forall>e\<in>set (employees d). \<not> credentials_match b e"
    by (simp add: find_None_iff)
  ultimately show ?thesis
    by (simp add: login_route_alt)
next
  case (Some e)
  with find_SomeD [OF Some] show ?thesis
    by (auto simp: login_route_alt)
qed

section \<open>Facts about tasks and progress\<close>

lemma update_first_length [simp]: "length (update_first P f xs) = length xs"
  by (induction xs) simp_all

lemma update_first_none: "\<forall>x\<in>set xs. \<not> P x \<Longrightarrow> update_first P f xs = xs"
  by (induction xs) simp_all

lemma update_first_absent: "i \<notin> g ` set xs \<Longrightarrow> update_first (\<lambda>y. g y = i) f xs = xs"
  by (induction xs) auto

lemma update_first_map_fixed:
  "(\<And>x. g (f x) = g x) \<Longrightarrow> map g (update_first P f xs) = map g xs"
  by (induction xs) simp_all

lemma update_first_distinct:
  assumes "distinct (map g xs)" and "g x = i" and "x \<in> set xs"
  shows "update_first (\<lambda>y. g y = i) f xs = map (\<lambda>y. if g y = i then f y else y) xs"
  using assms
proof (induction xs)
  case (Cons a xs)
  show ?case
  proof (cases "g a = i")
    case True
    with Cons.prems(1) have "\<forall>y\<in>set xs. g y \<noteq> i" by (auto simp: image_iff)
    then have "map (\<lambda>y. if g y = i then f y else y) xs = xs"
      by (induction xs) simp_all
    with True show ?thesis by simp
  next
    case False
    with Cons show ?thesis by auto
  qed
qed simp

lemma progress_update_simps [simp]:
  "t_id (progress_update b t) = t_id t"
  "t_employee_id (progress_update b t) = t_employee_id t"
  "t_created_at (progress_update b t) = t_created_at t"
  "t_status (progress_update b t) = the_default (t_status t) (b_action b)"
  "t_actual_hours (progress_update b t) = Some (num_or (b_actual_hours b) 0)"
  by (simp_all add: progress_update_def)

lemma task_progress_answer [simp]:
  "fst (task_progress_route d b) = Inr (Message ''Task progress updated successfully'')"
  by (simp add: task_progress_route_def Let_def)

lemma task_progress_unknown:
  "b_task_id b = None \<or> (\<exists>i. b_task_id b = Some i \<and> i \<notin> t_id ` set (tasks d)) \<Longrightarrow>
   snd (task_progress_route d b) = d"
  by (auto simp: task_progress_route_def update_first_absent)

lemma task_progress_ids:
  "map t_id (tasks (snd (task_progress_route d b))) = map t_id (tasks d)"
  by (simp add: task_progress_route_def update_first_map_fixed split: option.splits)

lemma task_progress_others [simp]:
  "employees (snd (task_progress_route d b)) = employees d"
  "locations (snd (task_progress_route d b)) = locations d"
  "emergencies (snd (task_progress_route d b)) = emergencies d"
  "logs (snd (task_progress_route d b)) = logs d"
  "next_oid (snd (task_progress_route d b)) = next_oid d"
  by (simp_all add: task_progress_route_def split: option.splits)

lemma tasks_route_sorted:
  "tasks_route d emp = Inr (TaskList ts) \<Longrightarrow>
   sorted (map (\<lambda>t. (- t_priority t, t_due_date t)) ts) \<and>
   mset ts = filter_mset (\<lambda>t. t_employee_id t = Some emp) (mset (tasks d))"
  by (auto simp: tasks_route_def)

lemma locations_route_bounds:
  "locations_route d emp = Inr (LocationList ls) \<Longrightarrow>
   length ls \<le> 50 \<and> sorted (map (\<lambda>l. - l_timestamp l) ls) \<and>
   set ls \<subseteq> {l \<in> set (locations d). l_employee_id l = Some emp}"
  by (auto simp: locations_route_def take_map [symmetric] sorted_wrt_take dest: in_set_takeD)

section \<open>Facts about the paged log\<close>

lemma concat_pages:
  "0 < k \<Longrightarrow> concat (map (\<lambda>i. take k (drop (i * k) xs)) [0..<n]) = take (n * k) xs"
proof (induction n)
  case (Suc n)
  have "Suc n * k = n * k + k"
    by simp
  then have "take (Suc n * k) xs = take (n * k) xs @ take k (drop (n * k) xs)"
    by (simp only: take_add)
  with Suc show ?case by simp
qed simp

lemma ceil_div_covers:
  fixes n k :: nat
  assumes k: "0 < k"
  shows "n \<le> (n + k - 1) div k * k"
proof -
  have "n + k - 1 = (n + k - 1) div k * k + (n + k - 1) mod k"
    by simp
  moreover have "(n + k - 1) mod k \<le> k - 1"
    using k by (simp add: less_Suc_eq_le [symmetric])
  ultimately show ?thesis
    using k by linarith
qed

definition matching_logs :: "db \<Rightarrow> log_query \<Rightarrow> log list" where
  "matching_logs d q = sort_key (\<lambda>g. - g_timestamp g) (filter (log_filter q) (logs d))"

definition page_of :: "db \<Rightarrow> log_query \<Rightarrow> nat \<Rightarrow> log list" where
  "page_of d q p = (case logs_route d (q\<lparr>lq_page := Some p\<rparr>) of
     Inr (LogPage r) \<Rightarrow> lp_logs r | _ \<Rightarrow> [])"

lemma log_filter_page [simp]: "log_filter (q\<lparr>lq_page := p\<rparr>) = log_filter q"
  by (simp add: log_filter_def [abs_def])

lemma page_of_eq:
  "lq_limit q = Some k \<Longrightarrow> 0 < k \<Longrightarrow>
   page_of d q (Suc i) = take k (drop (i * k) (matching_logs d q))"
  by (simp add: page_of_def logs_route_def Let_def matching_logs_def)

lemma page_of_length: "lq_limit q = Some k \<Longrightarrow> 0 < k \<Longrightarrow> length (page_of d q p) \<le> k"
  by (cases p) (simp_all add: page_of_eq, simp add: page_of_def logs_route_def)

section \<open>Concrete requests for the witnesses\<close>

definition ann :: body where
  "ann = empty_body\<lparr>b_name := Some ''Ann'', b_email := Some ''ann@example.com'',
     b_password := Some ''secret''\<rparr>"

definition ann_db :: db where
  "ann_db = snd (register_route utc_runtime empty_db ann)"

lemma ann_simps [simp]:
  "b_email ann = Some ''ann@example.com''" "b_password ann = Some ''secret''"
  "b_name ann = Some ''Ann''" "b_role ann = None" "b_hourlyRate ann = None"
  "b_isActive ann = None" "b_createdAt ann = None"
  by (simp_all add: ann_def empty_body_def)

lemma empty_db_simps [simp]:
  "employees empty_db = []" "tasks empty_db = []" "locations empty_db = []"
  "emergencies empty_db = []" "logs empty_db = []" "next_oid empty_db = 0"
  by (simp_all add: empty_db_def)

lemma email_taken_empty [simp]: "\<not> email_taken empty_db email"
  by (simp add: email_taken_def)

lemma ann_db_simps [simp]:
  "employees ann_db = [new_employee utc_runtime 0 ann]" "next_oid ann_db = 1"
  "tasks ann_db = []" "logs ann_db = []"
  by (simp_all add: ann_db_def register_route_new)

section \<open>Properties of the routes\<close>

text \<open>
  Claim C19 (invariant). Registration succeeds exactly when no stored employee has the
  email of the request (an absent email counts as a value), stores the new employee
  last with the next id, and keeps the emails of the store distinct; a refused
  registration answers status 400 and changes nothing.
\<close>

theorem register_keeps_emails_unique:
  assumes "unique_emails d"
  shows "unique_emails (snd (register_route rt d b)) \<and>
    (is_ok (fst (register_route rt d b)) \<longleftrightarrow> \<not> email_taken d (b_email b)) \<and>
    (email_taken d (b_email b) \<longrightarrow>
       register_route rt d b = (Inl (Error 400 duplicate_message), d)) \<and>
    (\<not> email_taken d (b_email b) \<longrightarrow>
       employees (snd (register_route rt d b)) =
         employees d @ [new_employee rt (next_oid d) b])"
  using register_keeps_unique_emails [OF assms, of rt b]
  by (cases "email_taken d (b_email b)")
    (simp_all add: register_route_duplicate register_route_new)

theorem register_keeps_emails_unique_witness:
  "unique_emails empty_db \<and> unique_emails ann_db \<and>
   is_ok (fst (register_route utc_runtime empty_db ann)) \<and>
   register_route utc_runtime ann_db ann = (Inl (Error 400 duplicate_message), ann_db)"
proof -
  have u: "unique_emails empty_db"
    by (simp add: unique_emails_def)
  have t: "email_taken ann_db (b_email ann)"
    by (simp add: email_taken_def)
  show ?thesis
    using u t register_keeps_emails_unique [OF u, of utc_runtime ann]
      register_keeps_emails_unique [of ann_db utc_runtime ann]
    by (simp add: ann_db_def)
qed

text \<open>
  Claim C18 (functional). Login succeeds exactly when some stored employee is active and
  has the email and the password of the request; it then answers the first such
  employee in full, stored password included. Otherwise it answers status 401 with one
  message for a wrong password, an unknown email and an inactive account.
\<close>

theorem login_accepts_matching_active:
  "(is_ok (login_route d b) \<longleftrightarrow> (\<exists>e\<in>set (employees d). credentials_match b e)) \<and>
   (\<forall>e. login_route d b = Inr (EmployeeDoc e) \<longrightarrow>
      e \<in> set (employees d) \<and> credentials_match b e \<and> e_password e = b_password b) \<and>
   (\<not> is_ok (login_route d b) \<longrightarrow>
      login_route d b = Inl (Error 401 ''Invalid credentials or inactive account''))"
proof (intro conjI)
  show "is_ok (login_route d b) \<longleftrightarrow> (\<exists>e\<in>set (employees d). credentials_match b e)"
    by (rule login_route_ok_iff)
  show "\<forall>e. login_route d b = Inr (EmployeeDoc e) \<longrightarrow>
      e \<in> set (employees d) \<and> credentials_match b e \<and> e_password e = b_password b"
  proof (intro allI impI)
    fix e
    assume "login_route d b = Inr (EmployeeDoc e)"
    then have "find (credentials_match b) (employees d) = Some e"
      by (simp add: login_route_Some)
    from find_SomeD [OF this]
    show "e \<in> set (employees d) \<and> credentials_match b e \<and> e_password e = b_password b"
      by (simp add: credentials_match_def)
  qed
  show "\<not> is_ok (login_route d b) \<longrightarrow>
      login_route d b = Inl (Error 401 ''Invalid credentials or inactive account'')"
    by (simp add: login_route_alt split: option.splits)
qed

lemma login_ann_ok:
  "login_route ann_db ann = Inr (EmployeeDoc (new_employee utc_runtime 0 ann))"
  by (simp add: login_route_def)

lemma login_ann_guess:
  "login_route ann_db (ann\<lparr>b_password := Some ''guess''\<rparr>) =
     Inl (Error 401 ''Invalid credentials or inactive account'')"
  by (simp add: login_route_def)

theorem login_accepts_matching_active_witness:
  "login_route ann_db ann = Inr (EmployeeDoc (new_employee utc_runtime 0 ann)) \<and>
   e_password (new_employee utc_runtime 0 ann) = Some ''secret'' \<and>
   login_route ann_db (ann\<lparr>b_password := Some ''guess''\<rparr>) =
     Inl (Error 401 ''Invalid credentials or inactive account'')"
proof -
  from login_accepts_matching_active [of ann_db ann] login_ann_ok
  have "e_password (new_employee utc_runtime 0 ann) = b_password ann"
    by blast
  with login_ann_ok login_ann_guess show ?thesis
    by simp
qed

text \<open>
  Claim C23 (functional). A progress update always answers success. It changes nothing when
  the request names no task or a task that does not exist. Otherwise, in a store with
  distinct task ids, it sets the status of that task to the \<open>action\<close> of the request,
  whatever text that is, and its actual hours to those of the request, or to 0 when the
  request has none or has 0; every other task and every other collection is as before.
\<close>

theorem task_progress_effect:
  assumes "distinct (map t_id (tasks d))"
  shows "fst (task_progress_route d b) = Inr (Message ''Task progress updated successfully'') \<and>
    (case b_task_id b of
       None \<Rightarrow> snd (task_progress_route d b) = d
     | Some i \<Rightarrow>
         if i \<in> t_id ` set (tasks d)
         then snd (task_progress_route d b) =
           d\<lparr>tasks := map (\<lambda>t. if t_id t = i
              then t\<lparr>t_status := the_default (t_status t) (b_action b),
                     t_actual_hours := Some (num_or (b_actual_hours b) 0)\<rparr>
              else t) (tasks d)\<rparr>
         else snd (task_progress_route d b) = d)"
proof (cases "b_task_id b")
  case None
  then show ?thesis by (simp add: task_progress_unknown)
next
  case (Some i)
  show ?thesis
  proof (cases "i \<in> t_id ` set (tasks d)")
    case True
    then obtain x where "x \<in> set (tasks d)" "t_id x = i" by auto
    from update_first_distinct [OF assms this(2,1)] Some True show ?thesis
      by (simp add: task_progress_route_def progress_update_def [abs_def])
  next
    case False
    with Some show ?thesis by (simp add: task_progress_unknown)
  qed
qed

definition job_db :: db where
  "job_db = snd (create_task_route utc_runtime empty_db
     (empty_body\<lparr>b_title := Some ''Fix'', b_actual_hours := Some 6\<rparr>))"

lemma job_db_tasks:
  "tasks job_db = [new_task utc_runtime 0 (empty_body\<lparr>b_title := Some ''Fix'',
     b_actual_hours := Some 6\<rparr>)]"
  by (simp add: job_db_def create_task_route_def Let_def)

theorem task_progress_effect_witness:
  "distinct (map t_id (tasks job_db)) \<and>
   map t_actual_hours (tasks job_db) = [Some 6] \<and>
   map t_actual_hours (tasks (snd (task_progress_route job_db
     (empty_body\<lparr>b_task_id := Some 0, b_action := Some ''started''\<rparr>)))) = [Some 0] \<and>
   map t_status (tasks (snd (task_progress_route job_db
     (empty_body\<lparr>b_task_id := Some 0, b_action := Some ''started''\<rparr>)))) = [''started''] \<and>
   snd (task_progress_route job_db (empty_body\<lparr>b_task_id := Some 5\<rparr>)) = job_db"
proof -
  have d: "distinct (map t_id (tasks job_db))"
    by (simp add: job_db_tasks)
  show ?thesis
    using d task_progress_effect [OF d, of "empty_body\<lparr>b_task_id := Some 0, b_action := Some ''started''\<rparr>"]
      task_progress_effect [OF d, of "empty_body\<lparr>b_task_id := Some 5\<rparr>"]
    by (simp add: job_db_tasks new_task_def empty_body_def)
qed

text \<open>
  Claim C35 (functional). With a positive page size the pages of the log are a partition
  of the matching entries, newest first: no page is longer than the page size, and
  pages 1 to \<open>totalPages\<close> put one after the other are all matching entries in order.
\<close>

theorem logs_pages_partition:
  assumes "lq_limit q = Some k" and "0 < k"
  shows "\<exists>n. ceil_div (length (matching_logs d q)) k = Some n \<and>
    concat (map (page_of d q) [1..<Suc n]) = matching_logs d q \<and>
    list_all (\<lambda>p. length (page_of d q p) \<le> k) [1..<Suc n]"
proof -
  let ?M = "matching_logs d q"
  let ?n = "(length ?M + k - 1) div k"
  have "map (page_of d q) [1..<Suc ?n] = map (\<lambda>i. page_of d q (Suc i)) [0..<?n]"
    by (simp add: map_Suc_upt [symmetric] del: upt_Suc)
  then have "map (page_of d q) [1..<Suc ?n] = map (\<lambda>i. take k (drop (i * k) ?M)) [0..<?n]"
    by (simp only: page_of_eq [OF assms])
  then have "concat (map (page_of d q) [1..<Suc ?n]) = take (?n * k) ?M"
    by (simp only: concat_pages [OF assms(2)])
  moreover have "length ?M \<le> ?n * k"
    using assms(2) by (rule ceil_div_covers)
  moreover have "list_all (\<lambda>p. length (page_of d q p) \<le> k) [1..<Suc ?n]"
    by (simp add: list_all_iff page_of_length [OF assms])
  ultimately show ?thesis
    using assms(2) by (simp add: ceil_div_def)
qed

theorem logs_pages_partition_witness:
  "ceil_div (length (matching_logs empty_db \<lparr>lq_page = None, lq_limit = Some 10,
     lq_employee_id = None, lq_action_type = None\<rparr>)) 10 = Some 0 \<and>
   matching_logs empty_db \<lparr>lq_page = None, lq_limit = Some 10,
     lq_employee_id = None, lq_action_type = None\<rparr> = []"
  using logs_pages_partition [of "\<lparr>lq_page = None, lq_limit = Some 10,
     lq_employee_id = None, lq_action_type = None\<rparr>" 10 empty_db]
  by (simp add: matching_logs_def ceil_div_def)

end
