(* ===== verification/Priority.thy ===== *)
theory Priority
  imports Routes
begin

text \<open>
  The ranking of \<open>GET /api/prioritized-tasks/:employee_id\<close> in \<open>src/server.js\<close>: an
  aggregation pipeline that keeps the employee's pending tasks, adds a score to each,
  sorts by the score and keeps five.

  \<^item> \<open>time_left\<close> is \<open>$subtract: ['$due_date', new Date()]\<close>, which is \<open>null\<close> for
    a task without a due date; \<open>bson_lt\<close> is \<open>$lt\<close>, under which \<open>null\<close> is below
    every number.
  \<^item> \<open>ai_score\<close> is the \<open>$switch\<close>. The two \<open>Math.random()\<close> calls are evaluated
    once, while the pipeline is built, so every task of priority 3 gets the same score
    and so does every task of priority 2; only the default branch draws per document.
    The three \<open>new Date()\<close> of the pipeline are taken as one instant.
  \<^item> \<open>band\<close> is the order the design notes give: overdue, due within a day, priority
    3, priority 2, the rest.
\<close>

section \<open>The score\<close>

definition time_left :: "millis \<Rightarrow> task \<Rightarrow> int option" where
  "time_left now t = map_option (\<lambda>due. due - now) (t_due_date t)"

definition bson_lt :: "int option \<Rightarrow> int \<Rightarrow> bool" where
  "bson_lt x k = (case x of None \<Rightarrow> True | Some v \<Rightarrow> v < k)"

definition ai_score :: "runtime \<Rightarrow> task \<Rightarrow> real" where
  "ai_score rt t =
     (if bson_lt (time_left (rt_now rt) t) 0 then 1000
      else if bson_lt (time_left (rt_now rt) t) 86400000 then 900
      else if t_priority t = 3 then 800 + rt_random1 rt * 50
      else if t_priority t = 2 then 600 + rt_random2 rt * 50
      else 400 + rt_rand rt (t_id t) * 50)"

definition with_score :: "runtime \<Rightarrow> task \<Rightarrow> scored_task" where
  "with_score rt t =
     \<lparr>st_task = t,
      st_days_until_due = map_option (\<lambda>v. real_of_int v / (1000 * 60 * 60 * 24))
        (time_left (rt_now rt) t),
      st_ai_score = ai_score rt t\<rparr>"

definition matching_tasks :: "db \<Rightarrow> oid \<Rightarrow> task list" where
  "matching_tasks d emp =
     filter (\<lambda>t. t_employee_id t = Some emp \<and> t_status t = ''pending'') (tasks d)"

definition ranked :: "runtime \<Rightarrow> db \<Rightarrow> oid \<Rightarrow> scored_task list" where
  "ranked rt d emp =
     sort_key (\<lambda>s. - st_ai_score s) (map (with_score rt) (matching_tasks d emp))"

definition prioritized_route :: "runtime \<Rightarrow> db \<Rightarrow> oid \<Rightarrow> payload result" where
  "prioritized_route rt d emp = Inr (ScoredTasks (take 5 (ranked rt d emp)))"

section \<open>The intended order\<close>

definition band :: "millis \<Rightarrow> task \<Rightarrow> nat" where
  "band now t =
     (case t_due_date t of
        None \<Rightarrow> if t_priority t = 3 then 2 else if t_priority t = 2 then 3 else 4
      | Some due \<Rightarrow>
          if due < now then 0
          else if due - now < 86400000 then 1
          else if t_priority t = 3 then 2
          else if t_priority t = 2 then 3
          else 4)"

definition unit_draws :: "runtime \<Rightarrow> bool" where
  "unit_draws rt \<longleftrightarrow>
     0 \<le> rt_random1 rt \<and> rt_random1 rt < 1 \<and> 0 \<le> rt_random2 rt \<and> rt_random2 rt < 1 \<and>
     (\<forall>i. 0 \<le> rt_rand rt i \<and> rt_rand rt i < 1)"

section \<open>Facts about the score\<close>

lemma ai_score_dated:
  "t_due_date t = Some due \<Longrightarrow>
   ai_score rt t =
     (if due < rt_now rt then 1000
      else if due - rt_now rt < 86400000 then 900
      else if t_priority t = 3 then 800 + rt_random1 rt * 50
      else if t_priority t = 2 then 600 + rt_random2 rt * 50
      else 400 + rt_rand rt (t_id t) * 50)"
  by (simp add: ai_score_def time_left_def bson_lt_def)

lemma ai_score_undated: "t_due_date t = None \<Longrightarrow> ai_score rt t = 1000"
  by (simp add: ai_score_def time_left_def bson_lt_def)

lemma ai_score_range:
  assumes "unit_draws rt"
  shows "400 \<le> ai_score rt t \<and> ai_score rt t \<le> 1000"
proof -
  from assms have "0 \<le> rt_rand rt (t_id t)" "rt_rand rt (t_id t) < 1"
    "0 \<le> rt_random1 rt" "rt_random1 rt < 1" "0 \<le> rt_random2 rt" "rt_random2 rt < 1"
    by (simp_all add: unit_draws_def)
  then show ?thesis
    by (simp add: ai_score_def)
qed

lemma ai_score_band:
  assumes "unit_draws rt" and "t_due_date t = Some due"
  shows "ai_score rt t \<in>
    (case band (rt_now rt) t of
       0 \<Rightarrow> {1000} | Suc 0 \<Rightarrow> {900} | Suc (Suc 0) \<Rightarrow> {800 ..< 850}
     | Suc (Suc (Suc 0)) \<Rightarrow> {600 ..< 650} | _ \<Rightarrow> {400 ..< 450})"
proof -
  from assms(1) have "0 \<le> rt_rand rt (t_id t)" "rt_rand rt (t_id t) < 1"
    "0 \<le> rt_random1 rt" "rt_random1 rt < 1" "0 \<le> rt_random2 rt" "rt_random2 rt < 1"
    by (simp_all add: unit_draws_def)
  then show ?thesis
    by (simp add: ai_score_dated [OF assms(2)] band_def assms(2) numeral_3_eq_3 numeral_2_eq_2)
qed

lemma band_le_4: "band now t \<le> 4"
  by (simp add: band_def split: option.splits)

lemma ai_score_respects_band:
  assumes "unit_draws rt" and "t_due_date t = Some due" and "t_due_date u = Some due'"
    and "band (rt_now rt) t < band (rt_now rt) u"
  shows "ai_score rt u < ai_score rt t"
proof -
  from assms(1) have r: "0 \<le> rt_rand rt (t_id t)" "rt_rand rt (t_id t) < 1"
    "0 \<le> rt_rand rt (t_id u)" "rt_rand rt (t_id u) < 1"
    "0 \<le> rt_random1 rt" "rt_random1 rt < 1" "0 \<le> rt_random2 rt" "rt_random2 rt < 1"
    by (simp_all add: unit_draws_def)
  from assms(4) r show ?thesis
    by (simp add: ai_score_dated [OF assms(2)] ai_score_dated [OF assms(3)] band_def
        assms(2,3) split: if_splits)
qed

section \<open>Facts about the ranking\<close>

lemma ranked_sorted: "sorted (map (\<lambda>s. - st_ai_score s) (ranked rt d emp))"
  by (simp add: ranked_def)

lemma ranked_mset: "mset (ranked rt d emp) = mset (map (with_score rt) (matching_tasks d emp))"
  by (simp add: ranked_def)

lemma ranked_set: "set (ranked rt d emp) = with_score rt ` set (matching_tasks d emp)"
  by (simp add: ranked_def)

lemma sorted_take_drop_le:
  assumes "sorted (map f xs)" and "x \<in> set (take n xs)" and "y \<in> set (drop n xs)"
  shows "f x \<le> f y"
proof -
  have "sorted (map f (take n xs) @ map f (drop n xs))"
    using assms(1) by (simp flip: map_append)
  with assms(2,3) show ?thesis
    by (auto simp: sorted_append)
qed

lemma ranked_top:
  assumes "s \<in> set (take n (ranked rt d emp))" and "s' \<in> set (drop n (ranked rt d emp))"
  shows "st_ai_score s' \<le> st_ai_score s"
  using sorted_take_drop_le [OF ranked_sorted assms] by simp

section \<open>Properties of the ranking\<close>


text \<open>
  Claim C21 (functional). With draws in the unit interval, the score follows the order
  overdue, due within a day, priority 3, priority 2, the rest, for tasks that have a
  due date: a task of an earlier band scores strictly higher than a task of a later one.
\<close>

theorem ai_score_follows_bands:
  assumes "unit_draws rt" and "t_due_date t = Some due" and "t_due_date u = Some due'"
    and "band (rt_now rt) t < band (rt_now rt) u"
  shows "ai_score rt u < ai_score rt t"
  using assms by (rule ai_score_respects_band)

definition task_due :: "oid \<Rightarrow> real \<Rightarrow> millis option \<Rightarrow> task" where
  "task_due i p due = new_task utc_runtime i
     (empty_body\<lparr>b_employee_id := Some 7, b_priority := Some p, b_due_date := due\<rparr>)"

lemma task_due_simps [simp]:
  "t_id (task_due i p due) = i" "t_priority (task_due i p due) = p"
  "t_due_date (task_due i p due) = due" "t_status (task_due i p due) = ''pending''"
  "t_employee_id (task_due i p due) = Some 7"
  by (simp_all add: task_due_def new_task_def empty_body_def)

lemma unit_draws_utc [simp]: "unit_draws utc_runtime"
  by (simp add: unit_draws_def utc_runtime_def)

lemma rt_now_utc [simp]: "rt_now utc_runtime = 0"
  by (simp add: utc_runtime_def)

theorem ai_score_follows_bands_witness:
  "band (rt_now utc_runtime) (task_due 1 1 (Some 5)) = 1 \<and>
   band (rt_now utc_runtime) (task_due 2 3 (Some 900000000)) = 2 \<and>
   ai_score utc_runtime (task_due 2 3 (Some 900000000)) <
     ai_score utc_runtime (task_due 1 1 (Some 5))"
  using ai_score_follows_bands [of utc_runtime "task_due 1 1 (Some 5)" 5
      "task_due 2 3 (Some 900000000)" 900000000]
  by (simp add: band_def)

text \<open>
  Claim C22 (functional). A task without a due date is scored 1000, as an overdue task is:
  the difference to the due date is \<open>null\<close>, which the comparison places below zero.
  It therefore ranks with the overdue tasks and above every task that is due later,
  whatever the priorities.
\<close>

theorem undated_task_scores_as_overdue:
  assumes "t_due_date t = None" and "unit_draws rt"
  shows "ai_score rt t = 1000 \<and> ai_score rt u \<le> ai_score rt t"
  using assms ai_score_range [of rt u] by (simp add: ai_score_undated)

theorem undated_task_scores_as_overdue_witness:
  "ai_score utc_runtime (task_due 1 1 None) = 1000 \<and>
   ai_score utc_runtime (task_due 2 3 (Some 50000000)) = 900 \<and>
   ai_score utc_runtime (task_due 2 3 (Some 50000000)) \<le> ai_score utc_runtime (task_due 1 1 None)"
  using undated_task_scores_as_overdue [of "task_due 1 1 None" utc_runtime
      "task_due 2 3 (Some 50000000)"]
  by (simp add: ai_score_dated)

end
