(* ===== verification/Server.thy ===== *)
theory Server
  imports Priority
begin

text \<open>
  The server of \<open>src/server.js\<close> as a whole: a request, the handler its route selects,
  and the logging middleware that runs when the response is sent.

  \<^item> \<open>route\<close> lists the routes with their URL and query parameters; \<open>request\<close> adds
    the body and what the middleware reads of the connection. \<open>method_of\<close> and
    \<open>path_of\<close> give \<open>req.method\<close> and \<open>req.path\<close>.
  \<^item> \<open>getActionType\<close> and \<open>getActionDescription\<close> are the functions of these names;
    \<open>logData\<close> is the object the middleware builds and \<open>logging_middleware\<close> the
    replaced \<open>res.send\<close>: for every request that is not a \<open>GET\<close> and whose path does
    not contain \<open>/api/export\<close>, one log entry, written after the handler's own writes.
  \<^item> \<open>handle\<close> is the dispatch to the handlers of the theories \<open>Routes\<close>,
    \<open>Priority\<close>, \<open>Mileage\<close>, \<open>Benefits\<close> and \<open>Report\<close>; \<open>serve\<close> is a whole
    request; \<open>run\<close> is a sequence of requests, one after the other, each with the clock
    and the random draws of its moment.
  \<^item> \<open>wf_db\<close> is the well-formedness of the store: every id was issued, no id was
    issued twice, emails are distinct. \<open>reachable\<close> are the stores the server can get
    to from the empty one.
\<close>

section \<open>Requests\<close>

datatype route =
    Register
  | Login
  | CreateTask
  | GetTasks oid
  | PrioritizedTasks oid
  | PostLocation
  | GetLocations oid
  | PostEmergency
  | EmergencyContacts
  | GetMileage oid jsdate jsdate
  | GetTimesheet oid jsdate jsdate
  | GetTimeSavings oid
  | TaskProgress
  | WeeklyReport jsdate jsdate
  | CleanupWeekly
  | GetLogs log_query

record request =
  rq_route :: route
  rq_body :: body
  rq_ip :: "string option"
  rq_remoteAddress :: "string option"
  rq_userAgent :: "string option"

fun method_of :: "route \<Rightarrow> string" where
  "method_of Register = ''POST''"
| "method_of Login = ''POST''"
| "method_of CreateTask = ''POST''"
| "method_of PostLocation = ''POST''"
| "method_of PostEmergency = ''POST''"
| "method_of TaskProgress = ''POST''"
| "method_of CleanupWeekly = ''POST''"
| "method_of _ = ''GET''"

fun path_of :: "runtime \<Rightarrow> route \<Rightarrow> string" where
  "path_of rt Register = ''/api/register''"
| "path_of rt Login = ''/api/login''"
| "path_of rt CreateTask = ''/api/tasks''"
| "path_of rt (GetTasks emp) = ''/api/tasks/'' @ rt_showId rt emp"
| "path_of rt (PrioritizedTasks emp) = ''/api/prioritized-tasks/'' @ rt_showId rt emp"
| "path_of rt PostLocation = ''/api/location''"
| "path_of rt (GetLocations emp) = ''/api/location/'' @ rt_showId rt emp"
| "path_of rt PostEmergency = ''/api/emergency''"
| "path_of rt EmergencyContacts = ''/api/emergency-contacts''"
| "path_of rt (GetMileage emp s e) = ''/api/mileage/'' @ rt_showId rt emp"
| "path_of rt (GetTimesheet emp s e) = ''/api/timesheet/'' @ rt_showId rt emp"
| "path_of rt (GetTimeSavings emp) = ''/api/time-savings/'' @ rt_showId rt emp"
| "path_of rt TaskProgress = ''/api/task-progress''"
| "path_of rt (WeeklyReport s e) = ''/api/export/weekly-report''"
| "path_of rt CleanupWeekly = ''/api/cleanup/weekly-data''"
| "path_of rt (GetLogs q) = ''/api/logs''"

section \<open>The logging middleware\<close>

fun starts_with :: "string \<Rightarrow> string \<Rightarrow> bool" where
  "starts_with s [] = True"
| "starts_with [] (c # cs) = False"
| "starts_with (x # xs) (c # cs) = (x = c \<and> starts_with xs cs)"

fun str_includes :: "string \<Rightarrow> string \<Rightarrow> bool" where
  "str_includes [] sub = (sub = [])"
| "str_includes (x # xs) sub = (starts_with (x # xs) sub \<or> str_includes xs sub)"

definition actions :: "(string \<times> string) list" where
  "actions =
     [(''POST:/api/login'', ''user_login''),
      (''POST:/api/register'', ''employee_registered''),
      (''POST:/api/tasks'', ''task_created''),
      (''POST:/api/task-progress'', ''task_updated''),
      (''POST:/api/location'', ''location_logged''),
      (''POST:/api/emergency'', ''emergency_triggered''),
      (''POST:/api/export'', ''report_generated'')]"

definition getActionType :: "string \<Rightarrow> string \<Rightarrow> string" where
  "getActionType path method =
     (case map_of actions (method @ '':'' @ path) of
        None \<Rightarrow> ''system_action''
      | Some a \<Rightarrow> a)"

definition show_num :: "runtime \<Rightarrow> real option \<Rightarrow> string" where
  "show_num rt x = (case x of None \<Rightarrow> ''undefined'' | Some v \<Rightarrow> rt_showNumber rt v)"

definition show_id :: "runtime \<Rightarrow> oid option \<Rightarrow> string" where
  "show_id rt x = (case x of None \<Rightarrow> ''undefined'' | Some i \<Rightarrow> rt_showId rt i)"

definition getActionDescription :: "runtime \<Rightarrow> string \<Rightarrow> string \<Rightarrow> body \<Rightarrow> string" where
  "getActionDescription rt path method b =
     (let basePath = method @ '':'' @ path
      in if basePath = ''POST:/api/login'' then ''User logged in: '' @ show_opt (b_email b)
         else if basePath = ''POST:/api/register''
           then ''New employee registered: '' @ show_opt (b_name b)
         else if basePath = ''POST:/api/tasks'' then ''Task created: '' @ show_opt (b_title b)
         else if basePath = ''POST:/api/task-progress''
           then ''Task '' @ show_opt (b_action b) @ '': '' @ show_id rt (b_task_id b)
         else if basePath = ''POST:/api/location''
           then ''Location updated: '' @ show_num rt (b_latitude b) @ '', '' @
             show_num rt (b_longitude b)
         else if basePath = ''POST:/api/emergency''
           then ''Emergency: '' @ show_opt (b_emergency_type b) @ '' - '' @
             show_opt (b_message b)
         else ''Action performed: '' @ basePath)"

text \<open>
  \<open>a || b\<close> on strings that may be absent: the first when it is present and not empty.
\<close>

definition str_or :: "string option \<Rightarrow> string option \<Rightarrow> string option" where
  "str_or a b = (case a of None \<Rightarrow> b | Some s \<Rightarrow> if s = [] then b else Some s)"

definition logData :: "runtime \<Rightarrow> db \<Rightarrow> request \<Rightarrow> oid \<Rightarrow> log" where
  "logData rt d req i =
     (let b = rq_body req;
          method = method_of (rq_route req);
          path = path_of rt (rq_route req);
          employeeName =
            (case b_employee_id b of
               None \<Rightarrow> Some ''Unknown''
             | Some emp \<Rightarrow>
                 str_or (case findById e_id emp (employees d) of
                           None \<Rightarrow> None | Some employee \<Rightarrow> e_name employee)
                   (Some ''Unknown''));
          task_title =
            (case b_task_id b of
               None \<Rightarrow> None
             | Some tid \<Rightarrow>
                 (case findById t_id tid (tasks d) of None \<Rightarrow> None | Some task \<Rightarrow> t_title task));
          loc = (case b_latitude b of
                   None \<Rightarrow> None
                 | Some la \<Rightarrow> if la = 0 then None
                     else Some \<lparr>p_lat = Some la, p_lng = b_longitude b\<rparr>)
      in \<lparr>g_id = i, g_employee_id = b_employee_id b, g_employee_name = employeeName,
          g_action_type = Some (getActionType path method),
          g_description = Some (getActionDescription rt path method b),
          g_task_id = b_task_id b, g_task_title = task_title, g_location = loc,
          g_timestamp = rt_now rt,
          g_ip_address = str_or (rq_ip req) (rq_remoteAddress req),
          g_device_info = str_or (rq_userAgent req) (Some ''Unknown'')\<rparr>)"

definition is_logged :: "runtime \<Rightarrow> route \<Rightarrow> bool" where
  "is_logged rt r \<longleftrightarrow> method_of r \<noteq> ''GET'' \<and> \<not> str_includes (path_of rt r) ''/api/export''"

definition logging_middleware :: "runtime \<Rightarrow> request \<Rightarrow> db \<Rightarrow> db" where
  "logging_middleware rt req d =
     (if is_logged rt (rq_route req)
      then d\<lparr>logs := logs d @ [logData rt d req (next_oid d)], next_oid := Suc (next_oid d)\<rparr>
      else d)"

section \<open>Dispatch\<close>

definition handle :: "runtime \<Rightarrow> serializer \<Rightarrow> request \<Rightarrow> db \<Rightarrow> payload result \<times> db" where
  "handle rt sz req d =
     (let b = rq_body req
      in case rq_route req of
           Register \<Rightarrow> register_route rt d b
         | Login \<Rightarrow> (login_route d b, d)
         | CreateTask \<Rightarrow> create_task_route rt d b
         | GetTasks emp \<Rightarrow> (tasks_route d emp, d)
         | PrioritizedTasks emp \<Rightarrow> (prioritized_route rt d emp, d)
         | PostLocation \<Rightarrow> location_route rt d b
         | GetLocations emp \<Rightarrow> (locations_route d emp, d)
         | PostEmergency \<Rightarrow> emergency_route rt d b
         | EmergencyContacts \<Rightarrow> (emergency_contacts, d)
         | GetMileage emp s e \<Rightarrow> (answer MileageInfo (mileage_route rt d emp s e), d)
         | GetTimesheet emp s e \<Rightarrow> (answer TimesheetInfo (timesheet_route rt d emp s e), d)
         | GetTimeSavings emp \<Rightarrow> (answer SavingsInfo (time_savings_route rt d emp), d)
         | TaskProgress \<Rightarrow> task_progress_route d b
         | WeeklyReport s e \<Rightarrow> (answer ReportInfo (weekly_report_route rt sz d s e), d)
         | CleanupWeekly \<Rightarrow>
             (let (res, d') = cleanup_route rt d (b_week_start b) (b_week_end b)
                    (b_backup_confirmed b)
              in (answer CleanupInfo res, d'))
         | GetLogs q \<Rightarrow> (logs_route d q, d))"

definition serve :: "runtime \<Rightarrow> serializer \<Rightarrow> request \<Rightarrow> db \<Rightarrow> payload result \<times> db" where
  "serve rt sz req d =
     (let (res, d1) = handle rt sz req d
      in (res, logging_middleware rt req d1))"

fun run :: "serializer \<Rightarrow> (runtime \<times> request) list \<Rightarrow> db \<Rightarrow> payload result list \<times> db" where
  "run sz [] d = ([], d)"
| "run sz ((rt, req) # rest) d =
     (let (res, d1) = serve rt sz req d;
          (ress, d2) = run sz rest d1
      in (res # ress, d2))"

section \<open>Well-formed and reachable stores\<close>

definition all_ids :: "db \<Rightarrow> oid list" where
  "all_ids d = map e_id (employees d) @ map t_id (tasks d) @ map l_id (locations d) @
     map m_id (emergencies d) @ map g_id (logs d)"

definition wf_db :: "db \<Rightarrow> bool" where
  "wf_db d \<longleftrightarrow> distinct (all_ids d) \<and> list_all (\<lambda>i. i < next_oid d) (all_ids d) \<and>
     unique_emails d"

inductive reachable :: "serializer \<Rightarrow> db \<Rightarrow> bool" for sz where
  start: "reachable sz empty_db"
| step: "reachable sz d \<Longrightarrow> snd (serve rt sz req d) = d' \<Longrightarrow> reachable sz d'"

section \<open>Facts about the middleware\<close>

lemma is_logged_iff: "is_logged rt r \<longleftrightarrow> method_of r = ''POST''"
  by (cases r) (simp_all add: is_logged_def)

lemma is_logged_cases:
  "is_logged rt r \<longleftrightarrow>
     r \<in> {Register, Login, CreateTask, PostLocation, PostEmergency, TaskProgress, CleanupWeekly}"
  by (cases r) (simp_all add: is_logged_iff)

lemma getActionType_routes:
  "getActionType ''/api/login'' ''POST'' = ''user_login''"
  "getActionType ''/api/register'' ''POST'' = ''employee_registered''"
  "getActionType ''/api/tasks'' ''POST'' = ''task_created''"
  "getActionType ''/api/task-progress'' ''POST'' = ''task_updated''"
  "getActionType ''/api/location'' ''POST'' = ''location_logged''"
  "getActionType ''/api/emergency'' ''POST'' = ''emergency_triggered''"
  "getActionType ''/api/cleanup/weekly-data'' ''POST'' = ''system_action''"
  by (simp_all add: getActionType_def actions_def)

lemma logData_simps [simp]:
  "g_id (logData rt d req i) = i"
  "g_timestamp (logData rt d req i) = rt_now rt"
  "g_employee_id (logData rt d req i) = b_employee_id (rq_body req)"
  "g_action_type (logData rt d req i) =
     Some (getActionType (path_of rt (rq_route req)) (method_of (rq_route req)))"
  "g_description (logData rt d req i) =
     Some (getActionDescription rt (path_of rt (rq_route req)) (method_of (rq_route req))
       (rq_body req))"
  by (simp_all add: logData_def Let_def)

lemma logging_middleware_simps [simp]:
  "employees (logging_middleware rt req d) = employees d"
  "tasks (logging_middleware rt req d) = tasks d"
  "locations (logging_middleware rt req d) = locations d"
  "emergencies (logging_middleware rt req d) = emergencies d"
  "logs (logging_middleware rt req d) =
     (if is_logged rt (rq_route req) then logs d @ [logData rt d req (next_oid d)] else logs d)"
  "next_oid (logging_middleware rt req d) =
     (if is_logged rt (rq_route req) then Suc (next_oid d) else next_oid d)"
  by (simp_all add: logging_middleware_def)

lemma serve_eq:
  "serve rt sz req d =
     (fst (handle rt sz req d), logging_middleware rt req (snd (handle rt sz req d)))"
  by (simp add: serve_def split_beta)

lemma handle_simps:
  "rq_route req = Register \<Longrightarrow> handle rt sz req d = register_route rt d (rq_body req)"
  "rq_route req = Login \<Longrightarrow> handle rt sz req d = (login_route d (rq_body req), d)"
  "rq_route req = CreateTask \<Longrightarrow> handle rt sz req d = create_task_route rt d (rq_body req)"
  "rq_route req = PostLocation \<Longrightarrow> handle rt sz req d = location_route rt d (rq_body req)"
  "rq_route req = PostEmergency \<Longrightarrow> handle rt sz req d = emergency_route rt d (rq_body req)"
  "rq_route req = TaskProgress \<Longrightarrow> handle rt sz req d = task_progress_route d (rq_body req)"
  "rq_route req = WeeklyReport s e \<Longrightarrow>
     handle rt sz req d = (answer ReportInfo (weekly_report_route rt sz d s e), d)"
  "rq_route req = CleanupWeekly \<Longrightarrow>
     handle rt sz req d =
       (answer CleanupInfo (fst (cleanup_route rt d (b_week_start (rq_body req))
          (b_week_end (rq_body req)) (b_backup_confirmed (rq_body req)))),
        snd (cleanup_route rt d (b_week_start (rq_body req)) (b_week_end (rq_body req))
          (b_backup_confirmed (rq_body req))))"
  by (simp_all add: handle_def split_beta Let_def)

lemma handle_get:
  "method_of (rq_route req) = ''GET'' \<Longrightarrow> snd (handle rt sz req d) = d"
  by (cases "rq_route req") (simp_all add: handle_def)

lemma serve_get: "method_of (rq_route req) = ''GET'' \<Longrightarrow> snd (serve rt sz req d) = d"
  by (simp add: serve_eq handle_get logging_middleware_def is_logged_iff)

section \<open>Ids\<close>

definition ids :: "db \<Rightarrow> oid multiset" where
  "ids d = mset (all_ids d)"

definition wf_ids :: "db \<Rightarrow> bool" where
  "wf_ids d \<longleftrightarrow> (\<forall>i. count (ids d) i \<le> 1) \<and> (\<forall>i\<in>#ids d. i < next_oid d)"

lemma distinct_iff_count_le_1: "distinct xs \<longleftrightarrow> (\<forall>a. count (mset xs) a \<le> 1)"
proof
  assume "distinct xs"
  then show "\<forall>a. count (mset xs) a \<le> 1"
    by (simp add: distinct_count_atmost_1)
next
  assume le: "\<forall>a. count (mset xs) a \<le> 1"
  have "count (mset xs) a = (if a \<in> set xs then 1 else 0)" for a
  proof (cases "a \<in> set xs")
    case True
    then have "count (mset xs) a \<noteq> 0"
      by (simp add: count_eq_zero_iff)
    with le [rule_format, of a] have "count (mset xs) a = 1"
      by linarith
    with True show ?thesis
      by simp
  next
    case False
    then show ?thesis
      by (simp add: count_eq_zero_iff)
  qed
  then show "distinct xs"
    by (simp add: distinct_count_atmost_1)
qed

lemma wf_db_iff: "wf_db d \<longleftrightarrow> wf_ids d \<and> unique_emails d"
  by (simp add: wf_db_def wf_ids_def ids_def list_all_iff distinct_iff_count_le_1)

lemma ids_eq:
  "ids d = mset (map e_id (employees d)) + mset (map t_id (tasks d)) +
     mset (map l_id (locations d)) + mset (map m_id (emergencies d)) +
     mset (map g_id (logs d))"
  by (simp add: ids_def all_ids_def)

lemma wf_ids_fresh:
  "wf_ids d \<Longrightarrow> ids d' = add_mset (next_oid d) (ids d) \<Longrightarrow> next_oid d' = Suc (next_oid d) \<Longrightarrow>
   wf_ids d'"
proof -
  assume wf: "wf_ids d" and i: "ids d' = add_mset (next_oid d) (ids d)"
    and n: "next_oid d' = Suc (next_oid d)"
  from wf have "next_oid d \<notin># ids d"
    by (auto simp: wf_ids_def)
  then have "count (ids d) (next_oid d) = 0"
    by (simp add: count_eq_zero_iff)
  with wf show ?thesis
    by (auto simp: wf_ids_def i n less_Suc_eq)
qed

lemma wf_ids_subset:
  "wf_ids d \<Longrightarrow> ids d' \<subseteq># ids d \<Longrightarrow> next_oid d' = next_oid d \<Longrightarrow> wf_ids d'"
  by (auto simp: wf_ids_def dest: mset_subset_eqD mset_subset_eq_count intro: order_trans)

lemma wf_ids_same:
  "wf_ids d \<Longrightarrow> ids d' = ids d \<Longrightarrow> next_oid d' = next_oid d \<Longrightarrow> wf_ids d'"
  by (simp add: wf_ids_def)

lemma wf_ids_middleware:
  assumes "wf_ids d"
  shows "wf_ids (logging_middleware rt req d)"
proof (cases "is_logged rt (rq_route req)")
  case True
  show ?thesis
    by (rule wf_ids_fresh [OF assms]) (simp_all add: ids_eq True)
next
  case False
  with assms show ?thesis
    by (simp add: logging_middleware_def)
qed

lemma wf_ids_register: "wf_ids d \<Longrightarrow> wf_ids (snd (register_route rt d b))"
  by (cases "email_taken d (b_email b)")
    (auto intro!: wf_ids_fresh [of d] simp: ids_eq register_route_duplicate register_route_new)

lemma wf_ids_create_task: "wf_ids d \<Longrightarrow> wf_ids (snd (create_task_route rt d b))"
  by (auto intro!: wf_ids_fresh [of d] simp: ids_eq create_task_route_def new_task_def Let_def)

lemma wf_ids_location: "wf_ids d \<Longrightarrow> wf_ids (snd (location_route rt d b))"
  by (auto intro!: wf_ids_fresh [of d] simp: ids_eq location_route_def new_location_def Let_def)

lemma emergency_route_db:
  "snd (emergency_route rt d b) =
     d\<lparr>emergencies := emergencies d @ [new_emergency rt (next_oid d) b],
       logs := logs d @ [emergency_log rt (Suc (next_oid d)) b],
       next_oid := Suc (Suc (next_oid d))\<rparr>"
  by (simp add: emergency_route_def Let_def)

lemma wf_ids_emergency: "wf_ids d \<Longrightarrow> wf_ids (snd (emergency_route rt d b))"
proof -
  assume wf: "wf_ids d"
  let ?d1 = "d\<lparr>emergencies := emergencies d @ [new_emergency rt (next_oid d) b],
    next_oid := Suc (next_oid d)\<rparr>"
  have "wf_ids ?d1"
    by (rule wf_ids_fresh [OF wf]) (simp_all add: ids_eq new_emergency_def)
  then show ?thesis
    by (rule wf_ids_fresh)
      (simp_all add: ids_eq emergency_route_db emergency_log_def new_emergency_def)
qed

lemma wf_ids_progress: "wf_ids d \<Longrightarrow> wf_ids (snd (task_progress_route d b))"
  by (rule wf_ids_same [of d]) (simp_all add: ids_eq task_progress_ids)

lemma mset_map_filter_subset: "mset (map f (filter P xs)) \<subseteq># mset (map f xs)"
  by (simp add: image_mset_subseteq_mono)

lemma ids_cleaned: "ids (cleaned s e d) \<subseteq># ids d"
  unfolding ids_eq cleaned_simps
  by (intro subset_mset.add_mono mset_map_filter_subset subset_mset.order_refl)

lemma wf_ids_cleaned: "wf_ids d \<Longrightarrow> wf_ids (cleaned s e d)"
  by (rule wf_ids_subset [of d]) (simp_all add: ids_cleaned)

lemma wf_ids_cleanup: "wf_ids d \<Longrightarrow> wf_ids (snd (cleanup_route rt d ws we b))"
  by (simp add: cleanup_route_db wf_ids_cleaned split: bool.splits option.splits)

lemma wf_ids_handle: "wf_ids d \<Longrightarrow> wf_ids (snd (handle rt sz req d))"
  by (cases "rq_route req")
    (simp_all add: handle_def split_beta Let_def wf_ids_register wf_ids_create_task
      wf_ids_location wf_ids_emergency wf_ids_progress wf_ids_cleanup)

section \<open>Emails\<close>

lemma handle_employees:
  "employees (snd (handle rt sz req d)) =
     (if rq_route req = Register then employees (snd (register_route rt d (rq_body req)))
      else employees d)"
  by (cases "rq_route req")
    (simp_all add: handle_def split_beta create_task_route_def location_route_def
      emergency_route_db cleanup_route_db Let_def split: bool.splits option.splits)

lemma unique_emails_handle: "unique_emails d \<Longrightarrow> unique_emails (snd (handle rt sz req d))"
  using register_keeps_unique_emails [of d rt "rq_body req"]
  by (simp add: unique_emails_def handle_employees)

lemma wf_db_serve: "wf_db d \<Longrightarrow> wf_db (snd (serve rt sz req d))"
  using unique_emails_handle [of d rt sz req]
  by (simp add: wf_db_iff serve_eq wf_ids_middleware wf_ids_handle unique_emails_def)

lemma wf_db_empty: "wf_db empty_db"
  by (simp add: wf_db_def all_ids_def unique_emails_def)

lemma reachable_wf: "reachable sz d \<Longrightarrow> wf_db d"
  by (induction rule: reachable.induct) (auto simp: wf_db_empty dest: wf_db_serve)

section \<open>Facts about whole requests\<close>

lemma serve_logs:
  "logs (snd (serve rt sz req d)) =
     logs (snd (handle rt sz req d)) @
       (if method_of (rq_route req) = ''POST''
        then [logData rt (snd (handle rt sz req d)) req (next_oid (snd (handle rt sz req d)))]
        else [])"
  by (simp add: serve_eq is_logged_iff)

lemma handle_appends:
  "\<exists>es ms. employees (snd (handle rt sz req d)) = employees d @ es \<and>
     emergencies (snd (handle rt sz req d)) = emergencies d @ ms"
  by (cases "rq_route req"; cases "email_taken d (b_email (rq_body req))")
    (simp_all add: handle_def split_beta Let_def register_route_duplicate register_route_new
      create_task_route_def location_route_def emergency_route_db cleanup_route_db
      split: bool.splits option.splits)

lemma run_two:
  "run sz [(rt1, req1), (rt2, req2)] d =
     ([fst (serve rt1 sz req1 d), fst (serve rt2 sz req2 (snd (serve rt1 sz req1 d)))],
      snd (serve rt2 sz req2 (snd (serve rt1 sz req1 d))))"
  by (simp add: split_beta)

lemma run_three:
  "run sz [(rt1, req1), (rt2, req2), (rt3, req3)] d =
     (let d1 = snd (serve rt1 sz req1 d); d2 = snd (serve rt2 sz req2 d1)
      in ([fst (serve rt1 sz req1 d), fst (serve rt2 sz req2 d1), fst (serve rt3 sz req3 d2)],
          snd (serve rt3 sz req3 d2)))"
  by (simp add: split_beta Let_def)

lemma serve_report:
  "rq_route req = WeeklyReport ws we \<Longrightarrow>
   serve rt sz req d = (answer ReportInfo (weekly_report_route rt sz d ws we), d)"
  by (simp add: serve_eq handle_simps is_logged_iff)

lemma serve_cleanup:
  "rq_route req = CleanupWeekly \<Longrightarrow>
   tasks (snd (serve rt sz req d)) =
     tasks (snd (cleanup_route rt d (b_week_start (rq_body req)) (b_week_end (rq_body req))
       (b_backup_confirmed (rq_body req)))) \<and>
   locations (snd (serve rt sz req d)) =
     locations (snd (cleanup_route rt d (b_week_start (rq_body req)) (b_week_end (rq_body req))
       (b_backup_confirmed (rq_body req)))) \<and>
   (\<exists>g. logs (snd (serve rt sz req d)) =
     logs (snd (cleanup_route rt d (b_week_start (rq_body req)) (b_week_end (rq_body req))
       (b_backup_confirmed (rq_body req)))) @ [g])"
  by (simp add: serve_eq handle_simps is_logged_iff)

lemma getActionType_never_report:
  "getActionType (path_of rt r) (method_of r) \<noteq> ''report_generated''"
  by (cases r) (simp_all add: getActionType_def actions_def)

definition post :: "route \<Rightarrow> body \<Rightarrow> request" where
  "post r b = \<lparr>rq_route = r, rq_body = b, rq_ip = Some ''10.0.0.1'', rq_remoteAddress = None,
     rq_userAgent = None\<rparr>"

definition get :: "route \<Rightarrow> request" where
  "get r = post r empty_body"

lemma post_simps [simp]:
  "rq_route (post r b) = r" "rq_body (post r b) = b" "rq_route (get r) = r"
  "rq_body (get r) = empty_body"
  by (simp_all add: post_def get_def)

section \<open>Properties of the server\<close>

text \<open>
  Claim C9 (invariant). Every store the server can reach from the empty store is well
  formed: no two documents share an id, every id is below the next id to issue, and
  no two employees share an email.
\<close>

theorem reachable_stores_are_well_formed:
  "reachable sz d \<Longrightarrow> wf_db d"
  by (fact reachable_wf)

theorem reachable_stores_are_well_formed_witness:
  "reachable plain_serializer (snd (serve utc_runtime plain_serializer (post Register ann) empty_db)) \<and>
   wf_db (snd (serve utc_runtime plain_serializer (post Register ann) empty_db))"
proof -
  have "reachable plain_serializer
      (snd (serve utc_runtime plain_serializer (post Register ann) empty_db))"
    by (rule reachable.step [OF reachable.start refl])
  then show ?thesis
    using reachable_stores_are_well_formed by blast
qed

text \<open>
  Claim C12 (safety). A \<open>GET\<close> request leaves the store as it was. Every other request
  leaves one new log entry, written last: it carries the next id, the time of the
  request and the action type of the route, whether the handler answered with data or
  with an error.
\<close>

theorem writes_are_logged:
  "(method_of (rq_route req) = ''GET'' \<longrightarrow> snd (serve rt sz req d) = d) \<and>
   (method_of (rq_route req) \<noteq> ''GET'' \<longrightarrow>
      (\<exists>g. logs (snd (serve rt sz req d)) = logs (snd (handle rt sz req d)) @ [g] \<and>
         g_id g = next_oid (snd (handle rt sz req d)) \<and> g_timestamp g = rt_now rt \<and>
         g_action_type g =
           Some (getActionType (path_of rt (rq_route req)) (method_of (rq_route req)))))"
proof -
  have "method_of (rq_route req) = ''POST''" if "method_of (rq_route req) \<noteq> ''GET''"
    using that by (cases "rq_route req") simp_all
  then show ?thesis
    by (auto simp: serve_get serve_logs)
qed

theorem writes_are_logged_witness:
  "snd (serve utc_runtime plain_serializer (get (GetTasks 3)) ann_db) = ann_db \<and>
   map g_action_type (logs (snd (serve utc_runtime plain_serializer
     (post Login (ann\<lparr>b_password := Some ''guess''\<rparr>)) ann_db))) = [Some ''user_login'']"
  using writes_are_logged [of "get (GetTasks 3)" utc_runtime plain_serializer ann_db]
    writes_are_logged [of "post Login (ann\<lparr>b_password := Some ''guess''\<rparr>)" utc_runtime
      plain_serializer ann_db]
  by (auto simp: handle_simps getActionType_routes)

text \<open>
  Claim C26 (functional). The log entry of a login does not depend on its outcome: a
  refused login is recorded with the action type \<open>user_login\<close> and the description
  \<open>User logged in:\<close> followed by the email of the request, exactly as an accepted one.
\<close>

theorem login_log_ignores_outcome:
  assumes "rq_route req = Login"
  shows "\<exists>g. logs (snd (serve rt sz req d)) = logs d @ [g] \<and>
    g_action_type g = Some ''user_login'' \<and>
    g_description g = Some (''User logged in: '' @ show_opt (b_email (rq_body req)))"
  using assms
  by (simp add: serve_logs handle_simps getActionType_routes getActionDescription_def)

theorem login_log_ignores_outcome_witness:
  "\<not> is_ok (fst (serve utc_runtime plain_serializer (post Login ann) empty_db)) \<and>
   map g_description (logs (snd (serve utc_runtime plain_serializer (post Login ann) empty_db))) =
     [Some ''User logged in: ann@example.com'']"
  using login_log_ignores_outcome [of "post Login ann" utc_runtime plain_serializer empty_db]
  by (auto simp: serve_eq handle_simps login_route_def show_opt_def is_logged_iff)

text \<open>
  Lemma (functional). An emergency alert is recorded twice: the handler writes a log
  entry and the middleware writes another, both of action type \<open>emergency_triggered\<close>,
  one described as \<open>EMERGENCY:\<close> and one as \<open>Emergency:\<close>; the alert itself is stored
  once, with status \<open>active\<close> unless the request says otherwise.
\<close>

theorem emergency_is_logged_twice:
  assumes "rq_route req = PostEmergency"
  shows "\<exists>m g1 g2. emergencies (snd (serve rt sz req d)) = emergencies d @ [m] \<and>
    m_status m = the_default ''active'' (b_status (rq_body req)) \<and>
    logs (snd (serve rt sz req d)) = logs d @ [g1, g2] \<and>
    g_action_type g1 = Some ''emergency_triggered'' \<and>
    g_action_type g2 = Some ''emergency_triggered'' \<and>
    g_description g1 = Some (''EMERGENCY: '' @ show_opt (b_emergency_type (rq_body req)) @
      '' - '' @ show_opt (b_message (rq_body req))) \<and>
    g_description g2 = Some (''Emergency: '' @ show_opt (b_emergency_type (rq_body req)) @
      '' - '' @ show_opt (b_message (rq_body req)))"
  using assms
  by (simp add: serve_eq handle_simps emergency_route_db is_logged_iff getActionType_routes
      getActionDescription_def emergency_log_def new_emergency_def)

theorem emergency_is_logged_twice_witness:
  "length (logs (snd (serve utc_runtime plain_serializer (post PostEmergency empty_body) empty_db))) = 2 \<and>
   length (emergencies (snd (serve utc_runtime plain_serializer (post PostEmergency empty_body)
     empty_db))) = 1"
  using emergency_is_logged_twice [of "post PostEmergency empty_body" utc_runtime
      plain_serializer empty_db]
  by auto

text \<open>
  Claim C28 (safety). Employees and emergencies are append-only: whatever the request, the
  employees and the emergencies of the store before it are those of the store after it,
  in the same order, possibly followed by new ones. No route deletes or alters them.
\<close>

theorem employees_and_emergencies_append_only:
  "\<exists>es ms. employees (snd (serve rt sz req d)) = employees d @ es \<and>
     emergencies (snd (serve rt sz req d)) = emergencies d @ ms"
  using handle_appends [of rt sz req d] by (simp add: serve_eq)

text \<open>
  Claim C27 (functional). A cleanup leaves a trace that it cannot delete: confirmed or
  refused, the request ends with a log entry of action type \<open>system_action\<close> described
  as \<open>Action performed: POST:/api/cleanup/weekly-data\<close>, written after the deletions.
  No request is ever logged as \<open>report_generated\<close>, and the weekly report, a \<open>GET\<close>,
  is not logged at all.
\<close>

theorem cleanup_leaves_a_trace:
  "(rq_route req = CleanupWeekly \<longrightarrow>
      logs (snd (serve rt sz req d)) \<noteq> [] \<and>
      g_action_type (last (logs (snd (serve rt sz req d)))) = Some ''system_action'' \<and>
      g_description (last (logs (snd (serve rt sz req d)))) =
        Some ''Action performed: POST:/api/cleanup/weekly-data'') \<and>
   getActionType (path_of rt r) (method_of r) \<noteq> ''report_generated'' \<and>
   \<not> is_logged rt (WeeklyReport s e)"
  by (simp add: serve_logs getActionType_routes getActionType_never_report
      getActionDescription_def is_logged_iff)

theorem cleanup_leaves_a_trace_witness:
  "map g_action_type (logs (snd (serve utc_runtime plain_serializer
     (post CleanupWeekly (empty_body\<lparr>b_week_start := Some jan1, b_week_end := Some jan7,
        b_backup_confirmed := JBool True\<rparr>)) week_db))) = [Some ''system_action'']"
proof -
  let ?req = "post CleanupWeekly (empty_body\<lparr>b_week_start := Some jan1,
    b_week_end := Some jan7, b_backup_confirmed := JBool True\<rparr>)"
  have "logs (snd (handle utc_runtime plain_serializer ?req week_db)) = []"
    by (simp add: handle_simps cleanup_route_valid) (simp add: week_defs)
  then show ?thesis
    using cleanup_leaves_a_trace [of ?req utc_runtime plain_serializer week_db]
    by (simp add: serve_logs getActionType_routes)
qed

end
