(* ===== verification/Spec2Isabelle.thy ===== *)
theory Spec2Isabelle
  imports GeoDistance JsNumber Storage Mileage Benefits Csv Report Routes Priority Server
begin

text \<open>
  \<^bold>\<open>FieldForce Pro: a verification development.\<close>

  FieldForce Pro is a field-service application: an Express server over a MongoDB
  document store (\<open>src/server.js\<close>) and a browser client (\<open>src/app.js\<close>). Employees
  register and log in, receive tasks, report GPS positions and emergencies; from the
  stored positions and completed tasks the server derives mileage reimbursement, a
  timesheet with overtime and a time-savings figure; once a week an administrator exports
  a report of a date window and then deletes the window's data. Every request that is
  not a \<open>GET\<close> is recorded in a log by a middleware that intercepts the response.

  \<^bold>\<open>The model.\<close> The development is a shallow embedding: each function and route handler
  of \<open>src/server.js\<close> is a HOL function of the same name, the store is a record of five
  lists that handlers take and return, a response is an error or a payload.

  \<^item> \<open>FF_Prelude\<close>: JavaScript values as the code uses them (numbers as reals, \<open>NaN\<close>
    as \<open>None\<close>, truthiness, \<open>x || d\<close>), errors as values, the inclusive time window,
    the \<open>runtime\<close> a request reads (time zone, clock, locale, random draws), and the
    list and multiset lemmas the components share.
  \<^item> \<open>GeoDistance\<close>: \<open>calculateDistance\<close> (haversine) with \<open>Math.atan2\<close>.
  \<^item> \<open>JsNumber\<close>: \<open>Number.prototype.toFixed\<close> as the language defines it.
  \<^item> \<open>Storage\<close>: the five Mongoose schemas, the store \<open>db\<close>, the queries
    (\<open>find\<close> with a range, \<open>findById\<close>, \<open>deleteMany\<close>).
  \<^item> \<open>Mileage\<close>: the summation loop of \<open>calculateTotalMileage\<close> and
    \<open>GET /api/mileage/:employee_id\<close>.
  \<^item> \<open>Benefits\<close>: \<open>GET /api/timesheet/:employee_id\<close> and
    \<open>GET /api/time-savings/:employee_id\<close>.
  \<^item> \<open>Csv\<close>: \<open>generateCsv\<close> and the record count the client derives from a file
    (\<open>displayExportResults\<close> in \<open>src/app.js\<close>).
  \<^item> \<open>Report\<close>: \<open>GET /api/export/weekly-report\<close> and
    \<open>POST /api/cleanup/weekly-data\<close>, with \<open>Date.prototype.setHours\<close>.
  \<^item> \<open>Routes\<close>: registration, login, tasks, locations, emergencies, task progress and
    the paged log.
  \<^item> \<open>Priority\<close>: the ranking pipeline of \<open>GET /api/prioritized-tasks/:employee_id\<close>.
  \<^item> \<open>Server\<close>: the logging middleware with \<open>getActionType\<close> and
    \<open>getActionDescription\<close>, the dispatch \<open>handle\<close>, a whole request \<open>serve\<close>, a
    sequence of requests \<open>run\<close>, the well-formedness \<open>wf_db\<close> of the store and the
    stores \<open>reachable\<close> from the empty one.
  \<^item> This theory: properties of sequences of requests that span the components.

  \<^bold>\<open>What is proved.\<close>

  \<^item> Distance: the haversine code equals the spherical law of cosines on every input; it
    is zero on equal points, symmetric, between 0 and half the circumference.
  \<^item> Mileage: the index loop terminates and computes the sum over consecutive fixes; it
    is additive over a shared fix; no fix or one fix give \<open>0.00\<close> and \<open>$0.00\<close>; a fix
    without a coordinate gives the text \<open>NaN\<close>.
  \<^item> Pay and savings: the split of hours at 40, the pay formula, the figures of the
    specification's examples as the texts the routes answer, the guarded division.
  \<^item> Rendering: \<open>toFixed\<close> read back is within half a unit of the last place.
  \<^item> Export: the header-only file of an empty collection, the split of a file into its
    rows, the client's count and when it is wrong.
  \<^item> Report and cleanup: what the end-of-day normalisation admits and what it does west of
    UTC; that the counts of the summary are those of the files; that a cleanup without a
    truthy confirmation changes nothing; that a confirmed one removes exactly the
    completed tasks, locations and logs of the window and reports their numbers; that
    the order and the partial completion of the three deletions stay within that; that
    what is removed was in the report of the same store.
  \<^item> Routes: uniqueness of emails under registration, the exact condition of a
    successful login, the effect of a progress update, the partition of the log into
    pages, the order and the size of the ranking and the bands of its score.
  \<^item> Server: every reachable store is well formed; a \<open>GET\<close> changes nothing and every
    other request leaves one log entry; employees and emergencies are append-only; a
    cleanup leaves a trace.
  \<^item> Sequences: report then cleanup loses nothing that was not exported; a write between
    the two is lost.

  \<^bold>\<open>Assumptions of the model.\<close>

  \<^item> Numbers are exact reals: IEEE rounding of the arithmetic, and the exponent form
    \<open>toFixed\<close> switches to from \<open>1e21\<close>, are not modelled. \<open>NaN\<close> is modelled where an
    absent coordinate produces it.
  \<^item> A date is its epoch time in milliseconds or the invalid date; local time is UTC plus
    a constant offset, so a daylight-saving change inside a window is not modelled. The
    locale's rendering of a date, the week label of \<open>moment\<close>, the text of a number and
    of an id in a template string are functions of the \<open>runtime\<close>, not computed.
  \<^item> A request body holds its fields with the types the schemas cast them to; the
    casting of malformed ids, numbers and dates in bodies is not modelled. A date in a
    query string that does not parse is modelled: the storage layer refuses the query
    and the route answers its error.
  \<^item> A collection is a list in insertion order; \<open>find\<close> without a sort returns that
    order and the sorts are stable. MongoDB promises neither; the lemmas on sorted
    results are stated on the multiset of results and their order by key.
  \<^item> The cell text of an exported file is decided by the \<open>json2csv\<close> package and is a
    parameter (\<open>serializer\<close>); the lemmas on rows assume cells without line feeds where
    they need it and say so.
  \<^item> Requests are served one at a time. The three deletions of a cleanup are the one
    place where the code issues concurrent writes; \<open>run_purges\<close> covers their orders and
    their partial completion. Failures of the storage layer other than the refusal of an
    invalid date are not modelled.
  \<^item> No function needs fuel: every loop of the code is bounded by the length of a list
    and is a terminating recursion.

  \<^bold>\<open>Not modelled.\<close> The start-up of the server (environment, \<open>helmet\<close>, \<open>cors\<close>, static
  files, the database connection, \<open>/ping\<close>, \<open>listen\<close>), unknown paths, and
  \<open>src/test-connection.js\<close> are configuration and I/O. Of the client, \<open>src/app.js\<close>,
  only the record count of the export view is modelled; its session state, its location
  tracking timers, its dialogs and its rendering of the page are not.
\<close>

section \<open>Concrete requests\<close>

definition late_fix :: body where
  "late_fix = empty_body\<lparr>b_employee_id := Some 1, b_latitude := Some 10,
     b_longitude := Some 20, b_timestamp := Some (jan1 + 100)\<rparr>"

definition confirmed_week :: body where
  "confirmed_week = empty_body\<lparr>b_week_start := Some jan1, b_week_end := Some jan7,
     b_backup_confirmed := JBool True\<rparr>"

lemma late_fix_simps [simp]:
  "b_timestamp late_fix = Some (jan1 + 100)" "b_employee_id late_fix = Some 1"
  by (simp_all add: late_fix_def empty_body_def)

lemma confirmed_week_simps [simp]:
  "b_week_start confirmed_week = Some jan1" "b_week_end confirmed_week = Some jan7"
  "b_backup_confirmed confirmed_week = JBool True"
  by (simp_all add: confirmed_week_def empty_body_def)

definition crews_db :: db where
  "crews_db = empty_db\<lparr>locations :=
     [fix_at 0 0 (jan1 + 1), (fix_at 0 180 (jan1 + 2))\<lparr>l_employee_id := Some 2\<rparr>,
      fix_at 0 0 (jan1 + 3)]\<rparr>"

section \<open>Properties that span components\<close>

text \<open>
  Claim C3 (safety). When the weekly report and then the cleanup of the same dates are
  served one after the other by a server with one time zone, everything that is gone
  from the store afterwards was in the report: every task, location and log entry
  missing after the two requests has its row in the corresponding file of the first
  response (for a store whose cells hold no line feed).
\<close>

theorem export_then_cleanup_is_safe:
  assumes tz: "rt_tz rt2 = rt_tz rt1"
    and routes: "rq_route req1 = WeeklyReport ws we" "rq_route req2 = CleanupWeekly"
      "b_week_start (rq_body req2) = ws" "b_week_end (rq_body req2) = we"
    and run: "run sz [(rt1, req1), (rt2, req2)] d = ([Inr (ReportInfo r), res], d')"
    and plain: "plain_cells (sz_task sz) Tasks (tasks d)"
      "plain_cells (sz_location sz) Locations (locations d)"
      "plain_cells (sz_log sz) Logs (logs d)"
  shows "(\<forall>t \<in># mset (tasks d) - mset (tasks d'). has_row (rf_tasks (rr_files r)) (sz_task sz) Tasks t) \<and>
    (\<forall>l \<in># mset (locations d) - mset (locations d').
       has_row (rf_locations (rr_files r)) (sz_location sz) Locations l) \<and>
    (\<forall>g \<in># mset (logs d) - mset (logs d'). has_row (rf_logs (rr_files r)) (sz_log sz) Logs g)"
proof -
  let ?dc = "snd (cleanup_route rt2 d ws we (b_backup_confirmed (rq_body req2)))"
  from run [unfolded run_two] have rep: "weekly_report_route rt1 sz d ws we = Inr r"
    and d': "d' = snd (serve rt2 sz req2 d)"
    by (auto simp: serve_report [OF routes(1)] answer_eq_Inr)
  note rows = cleanup_exported_rows [OF tz rep refl plain, of "b_backup_confirmed (rq_body req2)"]
  from serve_cleanup [OF routes(2), of rt2 sz d] obtain g where
    "tasks d' = tasks ?dc" "locations d' = locations ?dc" "logs d' = logs ?dc @ [g]"
    by (auto simp: d' routes)
  with rows show ?thesis
    by (auto dest: in_diff_add_msetD)
qed

theorem export_then_cleanup_is_safe_witness:
  "\<exists>r res d'.
     run plain_serializer
       [(utc_runtime, get (WeeklyReport (Some jan1) (Some jan7))),
        (utc_runtime, post CleanupWeekly confirmed_week)] week_db =
       ([Inr (ReportInfo r), res], d') \<and>
     locations d' = [] \<and>
     has_row (rf_locations (rr_files r)) (sz_location plain_serializer) Locations
       (fix_at 0 0 (jan1 + 7))"
proof -
  obtain r where
    r: "weekly_report_route utc_runtime plain_serializer week_db (Some jan1) (Some jan7) = Inr r"
    by (simp add: weekly_report_route_valid)
  let ?res = "fst (serve utc_runtime plain_serializer (post CleanupWeekly confirmed_week) week_db)"
  let ?d' = "snd (serve utc_runtime plain_serializer (post CleanupWeekly confirmed_week) week_db)"
  have run: "run plain_serializer
       [(utc_runtime, get (WeeklyReport (Some jan1) (Some jan7))),
        (utc_runtime, post CleanupWeekly confirmed_week)] week_db =
       ([Inr (ReportInfo r), ?res], ?d')"
    by (simp only: run_two serve_report [of "get (WeeklyReport (Some jan1) (Some jan7))"
          "Some jan1" "Some jan7", OF post_simps(3)] r answer_simps fst_conv snd_conv)
  have l: "locations ?d' = []"
    by (simp add: serve_eq handle_simps cleanup_route_valid) (simp add: week_defs)
  from export_then_cleanup_is_safe [OF refl post_simps(3) post_simps(1) _ _ run
      plain_serializer_plain(1-3)] l
  have "has_row (rf_locations (rr_files r)) (sz_location plain_serializer) Locations
      (fix_at 0 0 (jan1 + 7))"
    by simp
  with run l show ?thesis
    by blast
qed



end
